theory Spec2Isabelle
  imports Complex_Main "HOL-Library.Product_Lexorder"
begin

section \<open>Strings as the Python code uses them\<close>

text \<open>
  Text is modelled as \<open>string\<close> (a list of 8-bit characters), restricted to what the
  code does on ASCII text: \<open>str.lower\<close>, \<open>str.upper\<close>, \<open>str.strip\<close> and the substring
  test \<open>w in s\<close>. Characters outside \<open>A-Z\<close>/\<open>a-z\<close> are left alone by the two case
  conversions.
\<close>

definition ascii_lowercase :: string where
  "ascii_lowercase = ''abcdefghijklmnopqrstuvwxyz''"

definition ascii_uppercase :: string where
  "ascii_uppercase = ''ABCDEFGHIJKLMNOPQRSTUVWXYZ''"

definition lower_char :: "char \<Rightarrow> char" where
  "lower_char c = (case map_of (zip ascii_uppercase ascii_lowercase) c of
                     Some d \<Rightarrow> d | None \<Rightarrow> c)"

definition upper_char :: "char \<Rightarrow> char" where
  "upper_char c = (case map_of (zip ascii_lowercase ascii_uppercase) c of
                     Some d \<Rightarrow> d | None \<Rightarrow> c)"

definition str_lower :: "string \<Rightarrow> string" where
  "str_lower s = map lower_char s"

definition str_upper :: "string \<Rightarrow> string" where
  "str_upper s = map upper_char s"

text \<open>The ASCII characters for which Python's \<open>str.isspace\<close> holds.\<close>

definition whitespace :: "char list" where
  "whitespace = [CHR 0x20, CHR 0x09, CHR 0x0A, CHR 0x0B, CHR 0x0C, CHR 0x0D,
                 CHR 0x1C, CHR 0x1D, CHR 0x1E, CHR 0x1F]"

definition str_lstrip :: "string \<Rightarrow> string" where
  "str_lstrip s = dropWhile (\<lambda>c. c \<in> set whitespace) s"

definition str_strip :: "string \<Rightarrow> string" where
  "str_strip s = rev (str_lstrip (rev (str_lstrip s)))"

text \<open>\<open>str_in w s\<close> is Python's \<open>w in s\<close> on strings: \<open>w\<close> occurs in \<open>s\<close> as a
  contiguous block.\<close>

fun str_in :: "string \<Rightarrow> string \<Rightarrow> bool" where
  "str_in w [] = (w = [])"
| "str_in w (c # cs) = (take (length w) (c # cs) = w \<or> str_in w cs)"

text \<open>\<open>any(word in s for word in words)\<close>.\<close>

definition any_word_in :: "string list \<Rightarrow> string \<Rightarrow> bool" where
  "any_word_in ws s = list_ex (\<lambda>w. str_in w s) ws"

text \<open>\<open>x or d\<close> for a value that is \<open>None\<close> or a string: the default replaces both
  \<open>None\<close> and the empty string.\<close>

definition or_default :: "string option \<Rightarrow> string \<Rightarrow> string" where
  "or_default x d = (case x of None \<Rightarrow> d | Some s \<Rightarrow> (if s = [] then d else s))"

section \<open>Priority classifiers\<close>

text \<open>
  \<open>app.py\<close> defines \<open>get_priority_from_concern\<close> twice at module level. The second
  definition (with the shorter keyword list) rebinds the name, so it is the one every
  call in \<open>app.py\<close> reaches; the first is kept here under its own name.
\<close>

definition critical_keywords_shadowed :: "string list" where
  "critical_keywords_shadowed =
     [''fire'', ''explosion'', ''burning'', ''smoke'', ''accident'',
      ''fallen wire'', ''electric shock'', ''live wire'', ''transformer burst'',
      ''emergency'', ''danger'', ''hazard'', ''sparking'', ''exposed wire'',
      ''electrocuted'', ''injured'', ''death'', ''pole down'', ''wire down'',
      ''short circuit'', ''arcing'', ''flames'']"

definition get_priority_from_concern_shadowed :: "string option \<Rightarrow> string" where
  "get_priority_from_concern_shadowed concern =
     (let c = str_lower (or_default concern '''')
      in if any_word_in critical_keywords_shadowed c then ''CRITICAL'' else ''HIGH'')"

definition critical_keywords :: "string list" where
  "critical_keywords =
     [''fire'', ''explosion'', ''burning'', ''shock'', ''emergency'', ''danger'',
      ''hazard'', ''fallen wire'', ''live wire'', ''injured'', ''death'']"

definition get_priority_from_concern :: "string option \<Rightarrow> string" where
  "get_priority_from_concern concern =
     (let c = str_lower (or_default concern '''')
      in if any_word_in critical_keywords c then ''CRITICAL'' else ''HIGH'')"

text \<open>The priority step of \<open>submit_power_outage\<close> (the public web form): the structured
  incident type is looked up first, the free text only afterwards.\<close>

definition critical_types :: "string list" where
  "critical_types = [''fallen_wire'', ''fire_hazard'', ''transformer_issue'']"

definition determine_priority :: "string \<Rightarrow> string \<Rightarrow> string" where
  "determine_priority incident_type details =
     (if incident_type \<in> set critical_types then ''CRITICAL''
      else get_priority_from_concern (Some details))"

text \<open>\<open>ActionSubmitTalkToAgentForm.get_priority_from_concern\<close> of the chatbot
  (\<open>actions.py\<close>): four tiers, lower-case labels, no incident type. Its only caller
  is the first \<open>run\<close> of that class, which the second \<open>run\<close> of the class body
  replaces.\<close>

definition tta_get_priority_from_concern :: "string option \<Rightarrow> string" where
  "tta_get_priority_from_concern concern =
     (let c = str_lower (or_default concern '''')
      in if any_word_in [''emergency'', ''fire'', ''fallen'', ''accident'', ''hazard''] c
           then ''critical''
         else if any_word_in [''no electricity'', ''power outage'', ''blackout''] c
           then ''high''
         else if any_word_in [''billing'', ''bill'', ''payment'', ''follow-up'', ''follow up''] c
           then ''medium''
         else if any_word_in [''transfer'', ''new connection'', ''installation'', ''application''] c
           then ''low''
         else ''low'')"

text \<open>\<open>SMSParser._determine_priority\<close> (\<open>sms_handler.py\<close>).\<close>

definition sms_critical_keywords :: "string list" where
  "sms_critical_keywords =
     [''fire'', ''emergency'', ''danger'', ''explosion'', ''accident'',
      ''fallen wire'', ''live wire'', ''sunog'', ''emergency'', ''delikado'']"

definition sms_determine_priority :: "string \<Rightarrow> string" where
  "sms_determine_priority details =
     (if any_word_in sms_critical_keywords (str_lower details) then ''CRITICAL'' else ''HIGH'')"
section \<open>The complaint store, the job order store and the notifier\<close>

text \<open>
  One row type serves the three family tables \<open>agent_queue\<close>, \<open>meter_concern\<close> and
  \<open>power_outage_reports\<close>; a column a table does not have is simply never read for
  it. \<open>rid\<close> is the primary key (\<open>id\<close>, or \<open>report_id\<close> for outage reports),
  \<open>full_name\<close> is the column \<open>name\<close> of \<open>meter_concern\<close>, and \<open>concern\<close> is the
  column \<open>details\<close> of \<open>power_outage_reports\<close>. SQL \<open>NULL\<close> is \<open>None\<close>. Timestamps
  are microseconds since the epoch. Coordinates and the other columns that no modelled
  decision reads are left out.
\<close>

record row =
  rid :: int
  user_id :: "string option"
  full_name :: "string option"
  account_no :: "string option"
  address :: "string option"
  contact_number :: "string option"
  concern :: "string option"
  job_order_id :: "string option"
  status :: "string option"
  priority :: "string option"
  issue_type :: "string option"
  source :: "string option"
  timestamp :: "int option"
  hidden :: "bool option"
  resumed :: "bool option"

text \<open>A row of the table \<open>converted\<close> of the joblist database, restricted to the
  columns whose value depends on the complaint.\<close>

record job_order =
  unique_id :: string
  creator :: string
  jo_name :: string
  cause :: string
  jo_type :: string
  jo_notes :: string
  phone :: string
  location :: string

text \<open>What \<open>socketio.emit\<close> has sent: new complaint (record id, priority), status
  update (table, record id, old status, new status), critical alert (record id).\<close>

datatype event =
    New_complaint int string
  | Status_update string int "string option" string
  | Critical_alert int

text \<open>A table name that the database does not know maps to \<open>None\<close>.\<close>

record state =
  tables :: "string \<Rightarrow> row list option"
  converted :: "job_order list"
  emitted :: "event list"

text \<open>
  What the outside world decides during one request: whether each pool hands out a
  connection, whether a statement on a table raises (a missing column, a lost
  connection), whether an \<open>INSERT\<close> raises (a constraint), whether the catalogue
  query, a commit, the update that links the web form's automatic job order, the
  write to the joblist database, the HTTP call to the dialogue engine or an emit
  raises, whether the statements of \<open>ensure_columns\<close> on a table raise, and whether
  \<open>conn.rollback()\<close> raises (psycopg2 raises \<open>InterfaceError\<close> from it on a connection
  that has been closed). \<open>rollback_fails\<close> is read where the source calls \<open>rollback\<close>
  with nothing between the call and the caller of the function: in \<open>ensure_columns\<close>
  and in the handler of the aggregator. Closing a cursor, giving a connection back
  (\<open>release_db_connection\<close> catches what \<open>putconn\<close> raises) and logging are taken not
  to raise.
\<close>

record env =
  rasa_pool_ok :: bool
  joblist_pool_ok :: bool
  catalog_fails :: bool
  exec_fails :: "string \<Rightarrow> bool"
  insert_fails :: bool
  commit_fails :: bool
  link_fails :: bool
  joblist_write_fails :: bool
  rasa_post_fails :: bool
  emit_fails :: bool
  ensure_fails :: "string \<Rightarrow> bool"
  rollback_fails :: bool

datatype exn = DatabaseError | InterfaceError | UnboundLocalError string | RequestException

text \<open>\<open>cur.execute\<close> of a statement on table \<open>t\<close>: it raises when the environment
  says so or when the table does not exist, and otherwise sees the table's rows.\<close>

definition table_rows :: "env \<Rightarrow> state \<Rightarrow> string \<Rightarrow> exn + row list" where
  "table_rows e s t =
     (if exec_fails e t then Inl DatabaseError
      else case tables s t of None \<Rightarrow> Inl DatabaseError | Some rows \<Rightarrow> Inr rows)"

definition family_tables :: "string list" where
  "family_tables = [''agent_queue'', ''meter_concern'', ''power_outage_reports'']"

section \<open>The unified aggregator\<close>

text \<open>The arguments of \<open>get_unified_complaints\<close>. \<open>start_datetime\<close> and
  \<open>end_datetime\<close> are what \<open>parse_datetime_filters\<close> returns for the four date and
  time strings (\<open>None\<close> when a string is absent or does not parse).\<close>

record filters =
  status_filter :: "string option"
  priority_filter :: "string option"
  type_filter :: "string option"
  search_term :: "string option"
  show_hidden :: bool
  start_datetime :: "int option"
  end_datetime :: "int option"

text \<open>The normalised dictionary the aggregator builds for each row; \<open>full_data\<close>
  keeps the selected row. The display field \<open>time\<close> is left out.\<close>

record complaint =
  customer_id :: string
  c_job_order_id :: "string option"
  c_issue_type :: string
  description :: string
  c_priority :: string
  c_status :: string
  c_source :: string
  c_table :: string
  c_record_id :: int
  customer_name :: string
  customer_phone :: string
  full_data :: row

text \<open>Truth of a Python value that is \<open>None\<close> or a string.\<close>

definition truthy :: "string option \<Rightarrow> bool" where
  "truthy x = (case x of None \<Rightarrow> False | Some s \<Rightarrow> s \<noteq> [])"

text \<open>\<open>f.strip().upper() if f and f != all_label else None\<close>.\<close>

definition normalize_filter :: "string option \<Rightarrow> string \<Rightarrow> string option" where
  "normalize_filter f all_label =
     (case f of None \<Rightarrow> None
      | Some v \<Rightarrow> (if v \<noteq> [] \<and> v \<noteq> all_label then Some (str_upper (str_strip v)) else None))"

definition status_filter_norm :: "filters \<Rightarrow> string option" where
  "status_filter_norm f = normalize_filter (status_filter f) ''All Status''"

definition priority_filter_norm :: "filters \<Rightarrow> string option" where
  "priority_filter_norm f = normalize_filter (priority_filter f) ''All Priorities''"

definition type_filter_norm :: "filters \<Rightarrow> string option" where
  "type_filter_norm f = normalize_filter (type_filter f) ''All Types''"

text \<open>SQL \<open>COALESCE(x, d)\<close>.\<close>

definition coalesce :: "string option \<Rightarrow> string \<Rightarrow> string" where
  "coalesce x d = (case x of None \<Rightarrow> d | Some v \<Rightarrow> v)"

text \<open>SQL \<open>LIKE\<close>: \<open>%\<close> stands for any run of characters, \<open>_\<close> for one character,
  and a backslash makes the next pattern character literal.\<close>

fun like_match :: "string \<Rightarrow> string \<Rightarrow> bool" where
  "like_match [] s = (s = [])"
| "like_match (p # ps) [] =
     (if p = CHR ''%'' then like_match ps [] else False)"
| "like_match (p # ps) (c # cs) =
     (if p = CHR ''%'' then like_match ps (c # cs) \<or> like_match (p # ps) cs
      else if p = CHR ''_'' then like_match ps cs
      else if p = CHR 0x5C then
        (case ps of [] \<Rightarrow> False | q # qs \<Rightarrow> c = q \<and> like_match qs cs)
      else c = p \<and> like_match ps cs)"

text \<open>\<open>col ILIKE '%term%'\<close>; a \<open>NULL\<close> column does not match.\<close>

definition ilike :: "string option \<Rightarrow> string \<Rightarrow> bool" where
  "ilike col term =
     (case col of None \<Rightarrow> False
      | Some v \<Rightarrow> like_match (str_lower (''%'' @ term @ ''%'')) (str_lower v))"

text \<open>\<open>(b = FALSE OR b IS NULL)\<close>.\<close>

definition false_or_null :: "bool option \<Rightarrow> bool" where
  "false_or_null b = (case b of None \<Rightarrow> True | Some v \<Rightarrow> \<not> v)"

text \<open>\<open>UPPER(COALESCE(col, d)) = %s\<close>, added to the query only when the normalised
  filter is a non-empty string.\<close>

definition upper_equals :: "string option \<Rightarrow> string \<Rightarrow> string option \<Rightarrow> bool" where
  "upper_equals col d flt =
     (case flt of None \<Rightarrow> True
      | Some v \<Rightarrow> (if v = [] then True else str_upper (coalesce col d) = v))"

text \<open>\<open>timestamp >= %s\<close> and \<open>timestamp <= %s\<close>; a \<open>NULL\<close> timestamp fails both.\<close>

definition not_before :: "int option \<Rightarrow> int option \<Rightarrow> bool" where
  "not_before ts bound =
     (case bound of None \<Rightarrow> True
      | Some b \<Rightarrow> (case ts of None \<Rightarrow> False | Some t \<Rightarrow> b \<le> t))"

definition not_after :: "int option \<Rightarrow> int option \<Rightarrow> bool" where
  "not_after ts bound =
     (case bound of None \<Rightarrow> True
      | Some b \<Rightarrow> (case ts of None \<Rightarrow> False | Some t \<Rightarrow> t \<le> b))"

text \<open>The \<open>WHERE\<close> clause assembled for each family.\<close>

definition agent_queue_where :: "filters \<Rightarrow> row \<Rightarrow> bool" where
  "agent_queue_where f r =
     ((show_hidden f \<or> false_or_null (hidden r)) \<and>
      false_or_null (resumed r) \<and>
      (case search_term f of None \<Rightarrow> True
       | Some t \<Rightarrow> t = [] \<or> ilike (user_id r) t \<or> ilike (full_name r) t \<or> ilike (concern r) t) \<and>
      upper_equals (status r) ''NEW'' (status_filter_norm f) \<and>
      upper_equals (priority r) ''LOW'' (priority_filter_norm f) \<and>
      not_before (timestamp r) (start_datetime f) \<and>
      not_after (timestamp r) (end_datetime f))"

definition meter_concern_where :: "filters \<Rightarrow> row \<Rightarrow> bool" where
  "meter_concern_where f r =
     ((show_hidden f \<or> false_or_null (hidden r)) \<and>
      (case search_term f of None \<Rightarrow> True
       | Some t \<Rightarrow> t = [] \<or> ilike (account_no r) t \<or> ilike (full_name r) t \<or> ilike (concern r) t) \<and>
      upper_equals (status r) ''NEW'' (status_filter_norm f) \<and>
      upper_equals (priority r) ''MEDIUM'' (priority_filter_norm f) \<and>
      not_before (timestamp r) (start_datetime f) \<and>
      not_after (timestamp r) (end_datetime f))"

definition power_outage_where :: "filters \<Rightarrow> row \<Rightarrow> bool" where
  "power_outage_where f r =
     ((show_hidden f \<or> false_or_null (hidden r)) \<and>
      (case search_term f of None \<Rightarrow> True
       | Some t \<Rightarrow> t = [] \<or> ilike (full_name r) t \<or> ilike (address r) t \<or> ilike (concern r) t) \<and>
      upper_equals (status r) ''NEW'' (status_filter_norm f) \<and>
      upper_equals (priority r) ''HIGH'' (priority_filter_norm f) \<and>
      not_before (timestamp r) (start_datetime f) \<and>
      not_after (timestamp r) (end_datetime f))"

text \<open>\<open>ORDER BY timestamp DESC\<close>: PostgreSQL puts \<open>NULL\<close> first in a descending order;
  rows with equal timestamps keep their table order here.\<close>

definition order_by_timestamp_desc :: "row list \<Rightarrow> row list" where
  "order_by_timestamp_desc rows =
     sort_key (\<lambda>r. case timestamp r of None \<Rightarrow> (0::nat, 0::int) | Some t \<Rightarrow> (1, - t)) rows"

text \<open>\<open>(d[:50] + '...') if d and len(d) > 50 else (d or dflt)\<close>.\<close>

definition truncate50 :: "string option \<Rightarrow> string \<Rightarrow> string" where
  "truncate50 d dflt =
     (case d of None \<Rightarrow> dflt
      | Some v \<Rightarrow> (if v \<noteq> [] \<and> 50 < length v then take 50 v @ ''...''
                  else or_default (Some v) dflt))"

definition agent_queue_complaint :: "row \<Rightarrow> complaint" where
  "agent_queue_complaint r =
     (let sel = r\<lparr>priority := Some (coalesce (priority r) ''LOW''),
                  status := Some (coalesce (status r) ''NEW'')\<rparr>
      in \<lparr>customer_id = or_default (user_id sel) ''N/A'',
          c_job_order_id = None,
          c_issue_type = ''Service'',
          description = truncate50 (concern sel) ''Service request'',
          c_priority = str_upper (or_default (priority sel) ''LOW''),
          c_status = str_upper (or_default (status sel) ''NEW''),
          c_source = ''Agent Request'',
          c_table = ''agent_queue'',
          c_record_id = rid sel,
          customer_name = or_default (full_name sel) ''Unknown'',
          customer_phone = or_default (contact_number sel) ''N/A'',
          full_data = sel\<rparr>)"

definition meter_concern_complaint :: "row \<Rightarrow> complaint" where
  "meter_concern_complaint r =
     (let sel = r\<lparr>status := Some (coalesce (status r) ''NEW''),
                  priority := Some (coalesce (priority r) ''MEDIUM'')\<rparr>
      in \<lparr>customer_id = or_default (account_no sel) ''N/A'',
          c_job_order_id = job_order_id sel,
          c_issue_type = ''Billing'',
          description = truncate50 (concern sel) ''Meter concern'',
          c_priority = str_upper (or_default (priority sel) ''MEDIUM''),
          c_status = str_upper (or_default (status sel) ''NEW''),
          c_source = ''Chatbot'',
          c_table = ''meter_concern'',
          c_record_id = rid sel,
          customer_name = or_default (full_name sel) ''Unknown'',
          customer_phone = or_default (contact_number sel) ''N/A'',
          full_data = sel\<rparr>)"

definition power_outage_complaint :: "row \<Rightarrow> complaint" where
  "power_outage_complaint r =
     (let sel = r\<lparr>status := Some (coalesce (status r) ''NEW''),
                  issue_type := Some (coalesce (issue_type r) ''Power Outage''),
                  priority := Some (coalesce (priority r) ''HIGH''),
                  source := Some (coalesce (source r) ''Outage Report'')\<rparr>
      in \<lparr>customer_id = or_default (user_id sel) ''N/A'',
          c_job_order_id = job_order_id sel,
          c_issue_type = str_upper (str_strip (or_default (issue_type sel) ''Power Outage'')),
          description = or_default (concern sel) ''Power outage reported'',
          c_priority = str_upper (or_default (priority sel) ''HIGH''),
          c_status = str_upper (or_default (status sel) ''NEW''),
          c_source = or_default (source sel) ''Outage Report'',
          c_table = ''power_outage_reports'',
          c_record_id = rid sel,
          customer_name = or_default (full_name sel) ''Unknown'',
          customer_phone = or_default (contact_number sel) ''N/A'',
          full_data = sel\<rparr>)"

text \<open>One pass of the per-table \<open>try\<close> block: \<open>Inl\<close> when the query raises, which the
  loop logs and skips; the empty list when the type filter names another family
  (\<open>continue\<close> before the query is run).\<close>

definition family_query :: "env \<Rightarrow> state \<Rightarrow> filters \<Rightarrow> string \<Rightarrow> exn + complaint list" where
  "family_query e s f t =
     (if t = ''agent_queue'' then
        (if truthy (type_filter_norm f) \<and> type_filter_norm f \<noteq> Some ''SERVICE'' then Inr []
         else case table_rows e s t of Inl x \<Rightarrow> Inl x
              | Inr rows \<Rightarrow> Inr (map agent_queue_complaint
                                   (order_by_timestamp_desc (filter (agent_queue_where f) rows))))
      else if t = ''meter_concern'' then
        (if truthy (type_filter_norm f) \<and> type_filter_norm f \<noteq> Some ''BILLING'' then Inr []
         else case table_rows e s t of Inl x \<Rightarrow> Inl x
              | Inr rows \<Rightarrow> Inr (map meter_concern_complaint
                                   (order_by_timestamp_desc (filter (meter_concern_where f) rows))))
      else if t = ''power_outage_reports'' then
        (if truthy (type_filter_norm f) \<and>
            type_filter_norm f \<notin> set [Some ''POWER OUTAGE'', Some ''POWER_OUTAGE''] then Inr []
         else case table_rows e s t of Inl x \<Rightarrow> Inl x
              | Inr rows \<Rightarrow> Inr (map power_outage_complaint
                                   (order_by_timestamp_desc (filter (power_outage_where f) rows))))
      else Inr [])"

text \<open>The catalogue query: which of the three family tables exist.\<close>

definition table_exists :: "state \<Rightarrow> string \<Rightarrow> bool" where
  "table_exists s t = (case tables s t of None \<Rightarrow> False | Some rows \<Rightarrow> True)"

definition existing_tables :: "state \<Rightarrow> string list" where
  "existing_tables s =
     filter (table_exists s) [''power_outage_reports'', ''meter_concern'', ''agent_queue'']"

text \<open>\<open>ensure_columns\<close>: on a store whose tables have all their columns it changes no
  row. When one of its statements or its commit raises, its handler calls
  \<open>conn.rollback()\<close> and returns \<open>False\<close>; an exception of that \<open>rollback\<close> leaves the
  function.\<close>

definition ensure_columns :: "env \<Rightarrow> string \<Rightarrow> exn + bool" where
  "ensure_columns e t =
     (if ensure_fails e t then (if rollback_fails e then Inl InterfaceError else Inr False)
      else Inr True)"

text \<open>The loop over the three families. \<open>ensure_columns\<close> is called before the
  per-table \<open>try\<close>, so what it raises ends the loop; its result is not read.\<close>

fun process_tables ::
  "env \<Rightarrow> state \<Rightarrow> filters \<Rightarrow> string list \<Rightarrow> complaint list \<Rightarrow> exn + complaint list" where
  "process_tables e s f [] complaints = Inr complaints"
| "process_tables e s f (t # ts) complaints =
     (if t \<notin> set (existing_tables s) then process_tables e s f ts complaints
      else case ensure_columns e t of
             Inl x \<Rightarrow> Inl x
           | Inr ok \<Rightarrow>
              (case family_query e s f t of
                 Inl x \<Rightarrow> process_tables e s f ts complaints
               | Inr cs \<Rightarrow> process_tables e s f ts (complaints @ cs)))"

definition status_order :: "(string \<times> nat) list" where
  "status_order = [(''NEW'', 0), (''ASSIGNED'', 1), (''IN_PROGRESS'', 2), (''RESOLVED'', 3)]"

definition priority_order :: "(string \<times> nat) list" where
  "priority_order = [(''CRITICAL'', 0), (''HIGH'', 1), (''MEDIUM'', 2), (''LOW'', 3)]"

text \<open>\<open>d.get(k, 4)\<close>.\<close>

definition get_or_4 :: "(string \<times> nat) list \<Rightarrow> string \<Rightarrow> nat" where
  "get_or_4 d k = (case map_of d k of None \<Rightarrow> 4 | Some v \<Rightarrow> v)"

text \<open>\<open>datetime.timestamp()\<close>: seconds since the epoch, as a fraction.\<close>

definition timestamp_unix :: "int option \<Rightarrow> rat" where
  "timestamp_unix ts = (case ts of None \<Rightarrow> 0 | Some t \<Rightarrow> of_int t / 1000000)"

definition sort_key_complaint :: "complaint \<Rightarrow> nat \<times> nat \<times> rat" where
  "sort_key_complaint c =
     (let st = str_upper (str_strip (c_status c));
          pr = str_upper (str_strip (c_priority c));
          status_value = get_or_4 status_order st;
          priority_value = get_or_4 priority_order pr
      in (status_value, priority_value, - timestamp_unix (timestamp (full_data c))))"

text \<open>The body of the outer \<open>try\<close>: the catalogue query, the loop and the sort.
  Python's \<open>list.sort\<close> is a stable sort, as \<open>sort_key\<close> is.\<close>

definition get_unified_complaints_body :: "env \<Rightarrow> state \<Rightarrow> filters \<Rightarrow> exn + complaint list" where
  "get_unified_complaints_body e s f =
     (if catalog_fails e then Inl DatabaseError
      else case process_tables e s f family_tables [] of
             Inl x \<Rightarrow> Inl x
           | Inr complaints \<Rightarrow> Inr (sort_key sort_key_complaint complaints))"

text \<open>The function itself: \<open>Inr\<close> is the list it returns, \<open>Inl\<close> the exception it
  raises to its caller. Without a connection it returns the empty list. The handler
  of the outer \<open>try\<close> logs, calls \<open>conn.rollback()\<close> and returns the empty list; an
  exception of that \<open>rollback\<close> is raised to the caller (the \<open>finally\<close> block only
  closes the cursor and gives the connection back).\<close>

definition get_unified_complaints :: "env \<Rightarrow> state \<Rightarrow> filters \<Rightarrow> exn + complaint list" where
  "get_unified_complaints e s f =
     (if \<not> rasa_pool_ok e then Inr []
      else case get_unified_complaints_body e s f of
             Inr complaints \<Rightarrow> Inr complaints
           | Inl x \<Rightarrow> (if rollback_fails e then Inl InterfaceError else Inr []))"
section \<open>Statements and responses\<close>

text \<open>\<open>SELECT ... WHERE pk = %s\<close> followed by \<open>fetchone()\<close>, \<open>UPDATE ... WHERE pk = %s\<close>
  and its \<open>rowcount\<close>.\<close>

definition fetchone_by_id :: "row list \<Rightarrow> int \<Rightarrow> row option" where
  "fetchone_by_id rows i = find (\<lambda>r. rid r = i) rows"

definition update_where_id :: "(row \<Rightarrow> row) \<Rightarrow> int \<Rightarrow> row list \<Rightarrow> row list" where
  "update_where_id u i rows = map (\<lambda>r. if rid r = i then u r else r) rows"

definition rowcount :: "row list \<Rightarrow> int \<Rightarrow> nat" where
  "rowcount rows i = length (filter (\<lambda>r. rid r = i) rows)"

definition set_table :: "state \<Rightarrow> string \<Rightarrow> row list \<Rightarrow> state" where
  "set_table s t rows = s\<lparr>tables := (tables s)(t \<mapsto> rows)\<rparr>"

text \<open>The JSON envelope of the dashboard endpoints: \<open>success\<close>, the \<open>error\<close> string
  (a literal of the code, or \<open>str(e)\<close> of a caught exception), the HTTP status and the
  remaining keys.\<close>

datatype err = Message string | Raised exn

record response =
  success :: bool
  error :: "err option"
  http_code :: nat
  payload :: "(string \<times> string) list"

definition failure :: "string \<Rightarrow> nat \<Rightarrow> response" where
  "failure m c = \<lparr>success = False, error = Some (Message m), http_code = c, payload = []\<rparr>"

definition raised :: "exn \<Rightarrow> nat \<Rightarrow> response" where
  "raised x c = \<lparr>success = False, error = Some (Raised x), http_code = c, payload = []\<rparr>"

definition succeeded :: "(string \<times> string) list \<Rightarrow> response" where
  "succeeded kv = \<lparr>success = True, error = None, http_code = 200, payload = kv\<rparr>"

text \<open>\<open>redirect('/')\<close>.\<close>

definition redirect :: response where
  "redirect = \<lparr>success = True, error = None, http_code = 302, payload = []\<rparr>"

text \<open>\<open>a or b\<close> on two strings.\<close>

definition py_or :: "string \<Rightarrow> string \<Rightarrow> string" where
  "py_or a b = (if a = [] then b else a)"

fun str_join :: "string \<Rightarrow> string list \<Rightarrow> string" where
  "str_join sep [] = []"
| "str_join sep [x] = x"
| "str_join sep (x # y # ys) = x @ sep @ str_join sep (y # ys)"

section \<open>Lifecycle manager\<close>

text \<open>The handlers of this section call \<open>ensure_columns\<close> inside their \<open>try\<close>: what
  it raises is caught there like a failure of the statement on the table that
  follows it (\<open>exec_fails\<close>, \<open>commit_fails\<close>), so the call is not written out. A
  \<open>rollback\<close> in one of these handlers follows a failure, when nothing has been
  committed; it is taken not to raise.\<close>

definition valid_statuses :: "string list" where
  "valid_statuses = [''NEW'', ''ASSIGNED'', ''IN_PROGRESS'', ''RESOLVED'']"

text \<open>\<open>broadcast_status_update\<close> catches whatever \<open>emit\<close> raises.\<close>

definition broadcast_status_update ::
  "env \<Rightarrow> string \<Rightarrow> int \<Rightarrow> string option \<Rightarrow> string \<Rightarrow> state \<Rightarrow> state" where
  "broadcast_status_update e t i old_status new_status s =
     (if emit_fails e then s
      else s\<lparr>emitted := emitted s @ [Status_update t i old_status new_status]\<rparr>)"

text \<open>\<open>update_status\<close>; \<open>status_field\<close> is the JSON body's \<open>status\<close> entry, \<open>None\<close> when
  the key is missing.\<close>

definition update_status ::
  "env \<Rightarrow> string \<Rightarrow> int \<Rightarrow> string option \<Rightarrow> state \<Rightarrow> state \<times> response" where
  "update_status e table record_id status_field s =
     (let new_status = str_upper (str_strip (coalesce status_field ''''))
      in if new_status = [] then (s, failure ''Status is required'' 200)
         else if new_status \<notin> set valid_statuses then
           (s, failure (''Invalid status. Must be one of: '' @ str_join '', '' valid_statuses) 200)
         else if \<not> rasa_pool_ok e then (s, failure ''Database connection failed'' 200)
         else
           (case table_rows e s table of
              Inl x \<Rightarrow> (s, raised x 200)
            | Inr rows \<Rightarrow>
               (case fetchone_by_id rows record_id of
                  None \<Rightarrow> (s, failure ''Record not found'' 200)
                | Some result \<Rightarrow>
                   (let old_status = status result
                    in if rowcount rows record_id = 0 then
                         (s, failure ''Failed to update status'' 200)
                       else if commit_fails e then (s, raised DatabaseError 200)
                       else
                         (broadcast_status_update e table record_id old_status new_status
                            (set_table s table
                               (update_where_id (\<lambda>r. r\<lparr>status := Some new_status\<rparr>)
                                  record_id rows)),
                          succeeded [(''message'', ''Status updated to '' @ new_status),
                                     (''new_status'', new_status),
                                     (''table'', table)])))))"

definition hide_complaint :: "env \<Rightarrow> string \<Rightarrow> int \<Rightarrow> state \<Rightarrow> state \<times> response" where
  "hide_complaint e table record_id s =
     (if \<not> rasa_pool_ok e then (s, failure ''Database connection failed'' 500)
      else if catalog_fails e then (s, raised DatabaseError 500)
      else if \<not> table_exists s table then
        (s, failure (''Table '' @ table @ '' does not exist'') 400)
      else
        (case table_rows e s table of
           Inl x \<Rightarrow> (s, raised x 500)
         | Inr rows \<Rightarrow>
            (case fetchone_by_id rows record_id of
               None \<Rightarrow> (s, failure ''Complaint not found'' 404)
             | Some r \<Rightarrow>
                (if commit_fails e then (s, raised DatabaseError 500)
                 else
                   (set_table s table
                      (update_where_id (\<lambda>r. r\<lparr>hidden := Some True\<rparr>) record_id rows),
                    succeeded [(''message'',
                      ''Complaint hidden successfully (can be shown again with Show Hidden checkbox)'')])))))"

text \<open>\<open>delete_complaint\<close>; \<open>record_id\<close> is the result of \<open>int(record_id)\<close> on the URL
  segment, \<open>None\<close> when that raises \<open>ValueError\<close>.\<close>

definition allowed_tables :: "string list" where
  "allowed_tables = [''power_outage_reports'', ''meter_concern'', ''agent_queue'']"

definition delete_complaint ::
  "env \<Rightarrow> string \<Rightarrow> int option \<Rightarrow> state \<Rightarrow> state \<times> response" where
  "delete_complaint e table record_id s =
     (case record_id of
        None \<Rightarrow> (s, failure ''Invalid record ID'' 400)
      | Some i \<Rightarrow>
         (if table \<notin> set allowed_tables then (s, failure ''Invalid table name'' 400)
          else if \<not> rasa_pool_ok e then (s, failure ''Database connection failed'' 500)
          else
            (case table_rows e s table of
               Inl x \<Rightarrow> (s, raised x 500)
             | Inr rows \<Rightarrow>
                (case fetchone_by_id rows i of
                   None \<Rightarrow> (s, failure ''Record not found'' 404)
                 | Some r \<Rightarrow>
                    (if rowcount rows i = 0 then (s, failure ''Failed to delete record'' 500)
                     else if commit_fails e then (s, raised DatabaseError 500)
                     else
                       (set_table s table
                          (update_where_id (\<lambda>r. r\<lparr>hidden := Some True\<rparr>) i rows),
                        succeeded [(''message'', ''Complaint removed successfully''),
                                   (''table'', table)]))))))"

text \<open>\<open>resume_conversation\<close>: the row is marked only after the call to the dialogue
  engine has returned (whatever its status code).\<close>

definition resume_conversation :: "env \<Rightarrow> int \<Rightarrow> state \<Rightarrow> state \<times> response" where
  "resume_conversation e row_id s =
     (if \<not> rasa_pool_ok e then (s, failure ''Database connection failed'' 200)
      else
        (case table_rows e s ''agent_queue'' of
           Inl x \<Rightarrow> (s, raised x 200)
         | Inr rows \<Rightarrow>
            (let user_id_value =
                   (case fetchone_by_id rows row_id of None \<Rightarrow> None | Some r \<Rightarrow> user_id r)
             in if truthy user_id_value then
                  (if rasa_post_fails e then (s, raised RequestException 200)
                   else if commit_fails e then (s, raised DatabaseError 200)
                   else
                     (set_table s ''agent_queue''
                        (update_where_id (\<lambda>r. r\<lparr>resumed := Some True\<rparr>) row_id rows),
                      redirect))
                else (s, redirect))))"

text \<open>
  \<open>assign_job_order\<close>. \<open>uid\<close> is the fresh identifier \<open>str(uuid.uuid4().int)[:10]\<close>.
  The branch for \<open>power_outage_reports\<close> reads the row but binds none of
  \<open>full_name\<close>, \<open>phone\<close>, \<open>location_raw\<close>, \<open>concern\<close>, \<open>priority\<close> and
  \<open>existing_job_order\<close>, so the next statement, \<open>extract_location_parts(location_raw)\<close>,
  raises \<open>UnboundLocalError\<close>, which the handler turns into an error response.
  \<open>ensure_converted_table_joblist\<close> creates the table \<open>converted\<close> when it is missing
  and touches no row.
\<close>

definition make_job_order ::
  "string \<Rightarrow> string \<Rightarrow> string \<Rightarrow> string \<Rightarrow> string \<Rightarrow> string \<Rightarrow> string \<Rightarrow> job_order" where
  "make_job_order uid full_name' phone' location_raw concern' priority' existing_job_order =
     \<lparr>unique_id = uid,
      creator = py_or phone' (py_or full_name' ''Dashboard''),
      jo_name = full_name',
      cause = concern',
      jo_type = (if any_word_in [''power'', ''outage'', ''emergency''] (str_lower concern')
                 then ''high'' else ''low''),
      jo_notes = (if existing_job_order \<noteq> [] then
                    ''Original Job Order: '' @ existing_job_order @ '' | Priority: '' @ priority'
                      @ '' | '' @ concern'
                  else ''Priority: '' @ priority' @ '' | '' @ concern'),
      phone = phone',
      location = location_raw\<rparr>"

text \<open>The part of \<open>assign_job_order\<close> after the row has been read: the write to the
  joblist database, then the update of the complaint.\<close>

definition write_then_link ::
  "env \<Rightarrow> string \<Rightarrow> string \<Rightarrow> int \<Rightarrow> row list \<Rightarrow> job_order \<Rightarrow> string \<Rightarrow> state \<Rightarrow>
   state \<times> response" where
  "write_then_link e uid table record_id rows jo existing_job_order s =
     (if \<not> joblist_pool_ok e then (s, failure ''Joblist database connection failed'' 200)
      else if joblist_write_fails e then (s, raised DatabaseError 200)
      else
        (let s1 = s\<lparr>converted := converted s @ [jo]\<rparr>
         in if rowcount rows record_id = 0 then
              (s1, failure ''Failed to update record status'' 200)
            else if commit_fails e then (s1, raised DatabaseError 200)
            else
              (set_table s1 table
                 (update_where_id
                    (\<lambda>r. r\<lparr>status := Some ''ASSIGNED'', job_order_id := Some uid\<rparr>)
                    record_id rows),
               succeeded [(''message'', ''Job order assigned successfully''),
                          (''converted_unique_id'', uid),
                          (''original_job_order_id'', existing_job_order),
                          (''customer_name'', jo_name jo),
                          (''location'', location jo),
                          (''new_status'', ''ASSIGNED'')])))"

definition assign_job_order ::
  "env \<Rightarrow> string \<Rightarrow> string \<Rightarrow> int \<Rightarrow> state \<Rightarrow> state \<times> response" where
  "assign_job_order e uid table record_id s =
     (if \<not> rasa_pool_ok e then (s, failure ''Database connection failed'' 200)
      else if table = ''power_outage_reports'' then
        (case table_rows e s table of
           Inl x \<Rightarrow> (s, raised x 200)
         | Inr rows \<Rightarrow> (s, raised (UnboundLocalError ''location_raw'') 200))
      else if table = ''meter_concern'' then
        (case table_rows e s table of
           Inl x \<Rightarrow> (s, raised x 200)
         | Inr rows \<Rightarrow>
            (case fetchone_by_id rows record_id of
               None \<Rightarrow> (s, failure ''Record not found'' 200)
             | Some db_row \<Rightarrow>
                (let existing_job_order = or_default (job_order_id db_row) ''''
                 in write_then_link e uid table record_id rows
                      (make_job_order uid
                         (or_default (full_name db_row) ''Unknown'')
                         (or_default (contact_number db_row) ''N/A'')
                         (or_default (address db_row) ''N/A'')
                         (or_default (concern db_row) ''Meter concern'')
                         ''MEDIUM''
                         existing_job_order)
                      existing_job_order s)))
      else if table = ''agent_queue'' then
        (case table_rows e s table of
           Inl x \<Rightarrow> (s, raised x 200)
         | Inr rows \<Rightarrow>
            (case fetchone_by_id rows record_id of
               None \<Rightarrow> (s, failure ''Record not found'' 200)
             | Some db_row \<Rightarrow>
                (let existing_job_order = or_default (job_order_id db_row) ''''
                 in write_then_link e uid table record_id rows
                      (make_job_order uid
                         (or_default (full_name db_row) ''Unknown'')
                         (or_default (contact_number db_row) ''N/A'')
                         ''''
                         (or_default (concern db_row) ''Service request'')
                         (or_default (priority db_row) ''LOW'')
                         existing_job_order)
                      existing_job_order s)))
      else (s, failure ''Invalid table name'' 200))"
section \<open>Intake adapters\<close>

text \<open>
  A new row gets the next value of the table's serial key, modelled as one more than
  the largest key in use, and the column defaults \<open>hidden = FALSE\<close> and
  \<open>resumed = FALSE\<close>; every other column not named by the \<open>INSERT\<close> is \<open>NULL\<close>
  or is given by the statement.
\<close>

definition next_id :: "row list \<Rightarrow> int" where
  "next_id rows = fold max (map rid rows) 0 + 1"

definition new_row :: row where
  "new_row = \<lparr>rid = 0, user_id = None, full_name = None, account_no = None,
              address = None, contact_number = None, concern = None, job_order_id = None,
              status = None, priority = None, issue_type = None, source = None,
              timestamp = None, hidden = Some False, resumed = Some False\<rparr>"

definition insert_row :: "row list \<Rightarrow> row \<Rightarrow> row list" where
  "insert_row rows r = rows @ [r\<lparr>rid := next_id rows\<rparr>]"

text \<open>Calendar day of a timestamp (\<open>timestamp::date\<close>, \<open>CURRENT_DATE\<close>).\<close>

definition date_of :: "int \<Rightarrow> int" where
  "date_of t = t div 86400000000"

subsection \<open>Chatbot actions (\<open>actions.py\<close>)\<close>

text \<open>The actions open a connection of their own with \<open>psycopg2.connect\<close>;
  \<open>rasa_pool_ok\<close> stands for its success. What an action tells the user is kept as a
  constructor, with the part of the message that depends on the store.\<close>

datatype chat_reply =
    Already_reported "string option"
  | Report_logged string
  | Error_saving_report
  | Details_missing
  | Meter_concern_submitted string
  | Error_saving_meter_concern
  | No_more_users
  | User_served "string option"
  | Failed_to_serve

text \<open>The duplicate check of the outage action:
  \<open>WHERE address = %s AND timestamp::date = CURRENT_DATE ORDER BY timestamp DESC LIMIT 1\<close>.\<close>

definition existing_report_today :: "row list \<Rightarrow> string option \<Rightarrow> int \<Rightarrow> row option" where
  "existing_report_today rows addr today =
     (case order_by_timestamp_desc
             (filter (\<lambda>r. (case addr of None \<Rightarrow> False | Some a \<Rightarrow> address r = Some a) \<and>
                           (case timestamp r of None \<Rightarrow> False | Some t \<Rightarrow> date_of t = today))
                rows) of
        [] \<Rightarrow> None
      | r # rs \<Rightarrow> Some r)"

definition outage_report_row ::
  "int \<Rightarrow> string \<Rightarrow> string \<Rightarrow> string option \<Rightarrow> string option \<Rightarrow> string option \<Rightarrow> row" where
  "outage_report_row now new_job_order_id sender_id po_full_name po_address po_contact_number =
     new_row\<lparr>user_id := Some sender_id, full_name := po_full_name, address := po_address,
             contact_number := po_contact_number, job_order_id := Some new_job_order_id,
             issue_type := Some ''POWER OUTAGE'', priority := Some ''HIGH'',
             status := Some ''NEW'', source := Some ''Chatbot'', timestamp := Some now\<rparr>"

text \<open>\<open>ActionSubmitPowerOutageFormEnhanced.run\<close>. \<open>now\<close> is the clock, \<open>new_job_order_id\<close>
  the string \<open>JO-<date>-<random number>\<close> the action would hand out. Every exception
  ends in the error message, with nothing committed.\<close>

definition action_submit_power_outage_form ::
  "env \<Rightarrow> int \<Rightarrow> string \<Rightarrow> string \<Rightarrow> string option \<Rightarrow> string option \<Rightarrow> string option \<Rightarrow>
   state \<Rightarrow> state \<times> chat_reply" where
  "action_submit_power_outage_form e now new_job_order_id sender_id
       po_full_name po_address po_contact_number s =
     (if \<not> rasa_pool_ok e then (s, Error_saving_report)
      else
        (case table_rows e s ''power_outage_reports'' of
           Inl x \<Rightarrow> (s, Error_saving_report)
         | Inr rows \<Rightarrow>
            (let existing = existing_report_today rows po_address (date_of now);
                 unresolved =
                   (case existing of None \<Rightarrow> False
                    | Some r \<Rightarrow> status r \<notin> set [Some ''RESOLVED'', Some ''FINISHED''])
             in if unresolved then
                  (if commit_fails e then (s, Error_saving_report)
                   else (s, Already_reported
                              (case existing of None \<Rightarrow> None | Some r \<Rightarrow> job_order_id r)))
                else if insert_fails e \<or> commit_fails e then (s, Error_saving_report)
                else
                  (set_table s ''power_outage_reports''
                     (insert_row rows
                        (outage_report_row now new_job_order_id sender_id
                           po_full_name po_address po_contact_number)),
                   Report_logged new_job_order_id))))"

text \<open>\<open>ActionSubmitMeterConcern.run\<close>.\<close>

definition action_submit_meter_concern ::
  "env \<Rightarrow> int \<Rightarrow> string \<Rightarrow> string \<Rightarrow> string option \<Rightarrow> string option \<Rightarrow> string option \<Rightarrow>
   string option \<Rightarrow> string option \<Rightarrow> state \<Rightarrow> state \<times> chat_reply" where
  "action_submit_meter_concern e now new_job_order_id sender_id
       mc_account_no mc_full_name mc_address mc_contact_number mc_meter_concern s =
     (if \<not> (truthy mc_account_no \<and> truthy mc_full_name \<and> truthy mc_address \<and>
             truthy mc_contact_number \<and> truthy mc_meter_concern) then (s, Details_missing)
      else if \<not> rasa_pool_ok e then (s, Error_saving_meter_concern)
      else
        (case table_rows e s ''meter_concern'' of
           Inl x \<Rightarrow> (s, Error_saving_meter_concern)
         | Inr rows \<Rightarrow>
            (if insert_fails e \<or> commit_fails e then (s, Error_saving_meter_concern)
             else
               (set_table s ''meter_concern''
                  (insert_row rows
                     (new_row\<lparr>user_id := Some sender_id,
                               job_order_id := Some new_job_order_id,
                               account_no := mc_account_no, full_name := mc_full_name,
                               address := mc_address, contact_number := mc_contact_number,
                               concern := mc_meter_concern, priority := Some ''MEDIUM'',
                               status := Some ''PENDING'', source := Some ''Chatbot'',
                               timestamp := Some now\<rparr>)),
                Meter_concern_submitted new_job_order_id))))"

text \<open>\<open>ORDER BY timestamp ASC\<close>: PostgreSQL puts \<open>NULL\<close> last in an ascending order;
  rows with equal timestamps keep their table order here.\<close>

definition order_by_timestamp_asc :: "row list \<Rightarrow> row list" where
  "order_by_timestamp_asc rows =
     sort_key (\<lambda>r. case timestamp r of None \<Rightarrow> (1::nat, 0::int) | Some t \<Rightarrow> (0, t)) rows"

text \<open>
  \<open>ActionSubmitTalkToAgentForm.run\<close>. The class body defines \<open>run\<close> twice: the
  first definition (the one that reads the form's slots and inserts into
  \<open>agent_queue\<close>) is followed by the class \<open>ActionServeNextUser\<close>, indented into
  this class with only its \<open>name\<close> method, and by a second \<open>def run\<close> at the level of
  this class's methods. The second definition replaces the first, so it is the method
  the action runs: it reads no slot, selects the oldest row of \<open>agent_queue\<close> with
  status \<open>Pending\<close> and sets its status to \<open>Resolved\<close>. It inserts nothing.
\<close>

definition action_submit_talk_to_agent_form :: "env \<Rightarrow> state \<Rightarrow> state \<times> chat_reply" where
  "action_submit_talk_to_agent_form e s =
     (if \<not> rasa_pool_ok e then (s, Failed_to_serve)
      else
        (case table_rows e s ''agent_queue'' of
           Inl x \<Rightarrow> (s, Failed_to_serve)
         | Inr rows \<Rightarrow>
            (case order_by_timestamp_asc (filter (\<lambda>r. status r = Some ''Pending'') rows) of
               [] \<Rightarrow> (s, No_more_users)
             | first_user # others \<Rightarrow>
                (if commit_fails e then (s, Failed_to_serve)
                 else
                   (set_table s ''agent_queue''
                      (update_where_id (\<lambda>r. r\<lparr>status := Some ''Resolved''\<rparr>)
                         (rid first_user) rows),
                    User_served (full_name first_user))))))"

subsection \<open>Public web form (\<open>submit_power_outage\<close> of \<open>app.py\<close>)\<close>

text \<open>The fields of the JSON body the handler reads, each with the default of its
  \<open>data.get\<close>; \<open>wf_has_location\<close> says that latitude and longitude are both given.\<close>

record web_form =
  wf_full_name :: string
  wf_contact_number :: string
  wf_address :: string
  wf_details :: string
  wf_landmark :: string
  wf_has_location :: bool
  wf_incident_type :: string
  wf_affected_area :: string
  wf_source :: string

definition is_alpha :: "char \<Rightarrow> bool" where
  "is_alpha c = (c \<in> set ascii_lowercase \<or> c \<in> set ascii_uppercase)"

text \<open>\<open>str.title\<close>: a letter is upper-cased after a non-letter and lower-cased after a
  letter.\<close>

fun title_from :: "bool \<Rightarrow> string \<Rightarrow> string" where
  "title_from prev [] = []"
| "title_from prev (c # cs) =
     (if is_alpha c then (if prev then lower_char c else upper_char c) # title_from True cs
      else c # title_from False cs)"

definition str_title :: "string \<Rightarrow> string" where
  "str_title s = title_from False s"

definition underscores_to_spaces :: "string \<Rightarrow> string" where
  "underscores_to_spaces s = map (\<lambda>c. if c = CHR ''_'' then CHR '' '' else c) s"

definition broadcast_new_complaint :: "env \<Rightarrow> int \<Rightarrow> string \<Rightarrow> state \<Rightarrow> state" where
  "broadcast_new_complaint e i priority' s =
     (if emit_fails e then s else s\<lparr>emitted := emitted s @ [New_complaint i priority']\<rparr>)"

definition broadcast_critical_alert :: "env \<Rightarrow> int \<Rightarrow> state \<Rightarrow> state" where
  "broadcast_critical_alert e i s =
     (if emit_fails e then s else s\<lparr>emitted := emitted s @ [Critical_alert i]\<rparr>)"

definition web_job_order ::
  "string \<Rightarrow> string \<Rightarrow> string \<Rightarrow> string \<Rightarrow> string \<Rightarrow> string \<Rightarrow> string \<Rightarrow> string \<Rightarrow>
   job_order" where
  "web_job_order uid full_name' contact address' details incident_type affected_area priority' =
     \<lparr>unique_id = uid,
      creator = py_or contact full_name',
      jo_name = full_name',
      cause = str_title (underscores_to_spaces incident_type) @ '': '' @ details,
      jo_type = (if priority' = ''CRITICAL'' then ''high'' else ''high''),
      jo_notes = ''Priority: '' @ priority' @ '' | Type: '' @ incident_type @ '' | Area: ''
                   @ affected_area @ '' | '' @ details,
      phone = contact,
      location = address'\<rparr>"

text \<open>The automatic job order of the web form, run after the report has been
  committed. The local \<open>job_order_id\<close> is bound as soon as the joblist write is
  committed, before the report row is updated; every exception of the block is caught
  and logged. The result is the new state and the value of \<open>job_order_id\<close>.\<close>

definition create_automatic_job_order ::
  "env \<Rightarrow> string \<Rightarrow> int \<Rightarrow> job_order \<Rightarrow> state \<Rightarrow> state \<times> string option" where
  "create_automatic_job_order e uid report_id jo s =
     (if \<not> joblist_pool_ok e then (s, None)
      else if joblist_write_fails e then (s, None)
      else
        (let s1 = s\<lparr>converted := converted s @ [jo]\<rparr>
         in if link_fails e then (s1, Some uid)
            else
              (case tables s1 ''power_outage_reports'' of
                 None \<Rightarrow> (s1, Some uid)
               | Some rows \<Rightarrow>
                  (set_table s1 ''power_outage_reports''
                     (update_where_id (\<lambda>r. r\<lparr>job_order_id := Some uid\<rparr>) report_id rows),
                   Some uid))))"

text \<open>The check \<open>all([full_name, contact_number, address, details, latitude, longitude])\<close>
  on the stripped fields, and the row of the \<open>INSERT\<close>.\<close>

definition web_form_complete :: "web_form \<Rightarrow> bool" where
  "web_form_complete d =
     (str_strip (wf_full_name d) \<noteq> [] \<and> str_strip (wf_contact_number d) \<noteq> [] \<and>
      str_strip (wf_address d) \<noteq> [] \<and> str_strip (wf_details d) \<noteq> [] \<and> wf_has_location d)"

definition web_report_row :: "int \<Rightarrow> web_form \<Rightarrow> row" where
  "web_report_row now d =
     new_row\<lparr>full_name := Some (str_strip (wf_full_name d)),
             contact_number := Some (str_strip (wf_contact_number d)),
             address := Some (str_strip (wf_address d)),
             concern := Some (str_strip (wf_details d)),
             priority := Some (determine_priority (wf_incident_type d)
                                 (str_strip (wf_details d))),
             status := Some ''NEW'',
             source := Some (wf_source d),
             issue_type := Some ''Power Outage'',
             timestamp := Some now\<rparr>"

text \<open>\<open>submit_power_outage\<close>. \<open>uid\<close> is what \<open>generate_unique_id()\<close> returns, \<open>now\<close>
  is \<open>CURRENT_TIMESTAMP\<close>.\<close>

definition submit_power_outage ::
  "env \<Rightarrow> int \<Rightarrow> string \<Rightarrow> web_form \<Rightarrow> state \<Rightarrow> state \<times> response" where
  "submit_power_outage e now uid d s =
     (if \<not> web_form_complete d then (s, failure ''Missing required fields'' 400)
      else if \<not> rasa_pool_ok e then (s, failure ''Database connection failed'' 500)
      else
        (case table_rows e s ''power_outage_reports'' of
           Inl x \<Rightarrow> (s, raised x 500)
         | Inr rows \<Rightarrow>
            (if insert_fails e \<or> commit_fails e then (s, raised DatabaseError 500)
             else
               (let priority' = determine_priority (wf_incident_type d)
                                  (str_strip (wf_details d));
                    report_id = next_id rows;
                    s1 = set_table s ''power_outage_reports''
                           (insert_row rows (web_report_row now d));
                    s2 = broadcast_new_complaint e report_id priority' s1;
                    s3 = (if priority' = ''CRITICAL''
                          then broadcast_critical_alert e report_id s2 else s2);
                    (s4, job_order_id') =
                       (if priority' \<in> set [''CRITICAL'', ''HIGH''] then
                          create_automatic_job_order e uid report_id
                            (web_job_order uid (str_strip (wf_full_name d))
                               (str_strip (wf_contact_number d))
                               (str_strip (wf_address d)) (str_strip (wf_details d))
                               (wf_incident_type d) (wf_affected_area d) priority')
                            s3
                        else (s3, None))
                in (s4, succeeded
                          [(''job_order_id'',
                              or_default job_order_id' ''Will be assigned by operator''),
                           (''priority'', priority')])))))"

subsection \<open>Inbound SMS (\<open>sms_webhook\<close> of \<open>sms_handler.py\<close>)\<close>

text \<open>The dictionary \<open>SMSParser.parse_sms\<close> returns. The parser itself (two regular
  expressions) is not modelled: the handler is given its result, \<open>None\<close> for a message
  in neither format.\<close>

record parsed_sms =
  ps_issue_type :: string
  ps_full_name :: string
  ps_address :: string
  ps_contact_number :: string
  ps_details :: string
  ps_priority :: string
  ps_from_number :: string

text \<open>Table and row of the \<open>INSERT\<close> the handler picks by issue type.\<close>

definition sms_insert :: "int \<Rightarrow> parsed_sms \<Rightarrow> string \<times> row" where
  "sms_insert now p =
     (if ps_issue_type p = ''POWER OUTAGE'' then
        (''power_outage_reports'',
         new_row\<lparr>full_name := Some (ps_full_name p),
                  contact_number := Some (ps_contact_number p),
                  address := Some (ps_address p), concern := Some (ps_details p),
                  priority := Some (ps_priority p), status := Some ''NEW'',
                  source := Some ''SMS'', issue_type := Some ''Power Outage'',
                  timestamp := Some now\<rparr>)
      else if ps_issue_type p = ''BILLING'' then
        (''meter_concern'',
         new_row\<lparr>account_no := Some ''N/A'', full_name := Some (ps_full_name p),
                  address := Some (ps_address p),
                  contact_number := Some (ps_contact_number p),
                  concern := Some (ps_details p), priority := Some ''MEDIUM'',
                  status := Some ''NEW'', source := Some ''SMS'', timestamp := Some now\<rparr>)
      else
        (''agent_queue'',
         new_row\<lparr>user_id := Some (ps_from_number p), full_name := Some (ps_full_name p),
                  concern := Some (ps_details p),
                  contact_number := Some (ps_contact_number p),
                  priority := Some (ps_priority p), status := Some ''NEW'',
                  timestamp := Some now\<rparr>))"

text \<open>The handler returns the HTTP status with its reply text, of which only the
  status is kept.\<close>

definition sms_webhook :: "env \<Rightarrow> int \<Rightarrow> parsed_sms option \<Rightarrow> state \<Rightarrow> state \<times> nat" where
  "sms_webhook e now parsed_data s =
     (case parsed_data of
        None \<Rightarrow> (s, 200)
      | Some p \<Rightarrow>
         (if \<not> rasa_pool_ok e then (s, 500)
          else
            (let (t, r) = sms_insert now p
             in case table_rows e s t of
                  Inl x \<Rightarrow> (s, 500)
                | Inr rows \<Rightarrow>
                   (if insert_fails e \<or> commit_fails e then (s, 500)
                    else
                      (let s1 = set_table s t (insert_row rows r);
                           s2 = broadcast_new_complaint e (next_id rows) (ps_priority p) s1;
                           s3 = (if ps_priority p = ''CRITICAL''
                                 then broadcast_critical_alert e (next_id rows) s2 else s2)
                       in (s3, 200))))))"

section \<open>The operations as one step function\<close>

text \<open>One request to the system: each constructor carries the arguments of the
  handler it stands for, with the environment of that request.\<close>

datatype op =
    Update_status env string int "string option"
  | Hide_complaint env string int
  | Delete_complaint env string "int option"
  | Assign_job_order env string string int
  | Resume_conversation env int
  | Chat_power_outage env int string string "string option" "string option" "string option"
  | Chat_meter_concern env int string string "string option" "string option" "string option"
      "string option" "string option"
  | Chat_talk_to_agent env
  | Web_power_outage env int string web_form
  | Sms env int "parsed_sms option"

fun step :: "state \<Rightarrow> op \<Rightarrow> state" where
  "step s (Update_status e t i st) = fst (update_status e t i st s)"
| "step s (Hide_complaint e t i) = fst (hide_complaint e t i s)"
| "step s (Delete_complaint e t i) = fst (delete_complaint e t i s)"
| "step s (Assign_job_order e uid t i) = fst (assign_job_order e uid t i s)"
| "step s (Resume_conversation e i) = fst (resume_conversation e i s)"
| "step s (Chat_power_outage e now j u n a c) =
     fst (action_submit_power_outage_form e now j u n a c s)"
| "step s (Chat_meter_concern e now j u acc n a c m) =
     fst (action_submit_meter_concern e now j u acc n a c m s)"
| "step s (Chat_talk_to_agent e) = fst (action_submit_talk_to_agent_form e s)"
| "step s (Web_power_outage e now uid d) = fst (submit_power_outage e now uid d s)"
| "step s (Sms e now p) = fst (sms_webhook e now p s)"

fun run :: "state \<Rightarrow> op list \<Rightarrow> state" where
  "run s [] = s"
| "run s (x # xs) = run (step s x) xs"
section \<open>The ranks in the words of the specification\<close>

definition spec_status_rank :: "string \<Rightarrow> nat" where
  "spec_status_rank st =
     (if st = ''NEW'' then 0 else if st = ''ASSIGNED'' then 1
      else if st = ''IN_PROGRESS'' then 2 else if st = ''RESOLVED'' then 3 else 4)"

definition spec_priority_rank :: "string \<Rightarrow> nat" where
  "spec_priority_rank pr =
     (if pr = ''CRITICAL'' then 0 else if pr = ''HIGH'' then 1
      else if pr = ''MEDIUM'' then 2 else if pr = ''LOW'' then 3 else 4)"

section \<open>Concrete inputs\<close>

text \<open>A request during which nothing fails, a call without filters, and small stores
  on which the operations are run below.\<close>

definition env_ok :: env where
  "env_ok = \<lparr>rasa_pool_ok = True, joblist_pool_ok = True, catalog_fails = False,
             exec_fails = (\<lambda>t. False), insert_fails = False, commit_fails = False,
             link_fails = False, joblist_write_fails = False, rasa_post_fails = False,
             emit_fails = False, ensure_fails = (\<lambda>t. False), rollback_fails = False\<rparr>"

definition no_filters :: filters where
  "no_filters = \<lparr>status_filter = None, priority_filter = None, type_filter = None,
                 search_term = None, show_hidden = False, start_datetime = None,
                 end_datetime = None\<rparr>"

definition store_of :: "row list \<Rightarrow> row list \<Rightarrow> row list \<Rightarrow> state" where
  "store_of aq mc po =
     \<lparr>tables = (\<lambda>t. None)(''agent_queue'' \<mapsto> aq, ''meter_concern'' \<mapsto> mc,
                           ''power_outage_reports'' \<mapsto> po),
      converted = [], emitted = []\<rparr>"

text \<open>The three complaints of the ordering example, one in each family.\<close>

definition three_complaints :: state where
  "three_complaints =
     store_of
       [new_row\<lparr>rid := 1, status := Some ''RESOLVED'', priority := Some ''CRITICAL''\<rparr>]
       [new_row\<lparr>rid := 1, status := Some ''NEW'', priority := Some ''LOW''\<rparr>]
       [new_row\<lparr>rid := 1, status := Some ''NEW'', priority := Some ''HIGH''\<rparr>]"

text \<open>A request during which every statement on \<open>meter_concern\<close> raises.\<close>

definition env_meter_down :: env where
  "env_meter_down = env_ok\<lparr>exec_fails := (\<lambda>t. t = ''meter_concern'')\<rparr>"

text \<open>A request during which the server has closed the connection the pool handed
  out: the catalogue query raises, and so does \<open>rollback\<close>. And one during which the
  statements of \<open>ensure_columns\<close> on \<open>meter_concern\<close> and \<open>rollback\<close> raise.\<close>

definition env_dropped :: env where
  "env_dropped = env_ok\<lparr>catalog_fails := True, rollback_fails := True\<rparr>"

definition env_dropped_in_loop :: env where
  "env_dropped_in_loop =
     env_ok\<lparr>ensure_fails := (\<lambda>t. t = ''meter_concern''), rollback_fails := True\<rparr>"

text \<open>An agent queue with one waiting request.\<close>

definition one_request :: state where
  "one_request =
     store_of [new_row\<lparr>rid := 1, user_id := Some ''user-1'', status := Some ''NEW'',
                        priority := Some ''LOW''\<rparr>] [] []"

text \<open>A meter concern as the chatbot files it, and the same one already hidden.\<close>

definition filed_meter_concern :: row where
  "filed_meter_concern =
     new_row\<lparr>rid := 1, full_name := Some ''Juan Cruz'', concern := Some ''broken'',
             job_order_id := Some ''JO-20240101-1234'', status := Some ''PENDING'',
             priority := Some ''MEDIUM''\<rparr>"

definition one_meter_concern :: state where
  "one_meter_concern = store_of [] [filed_meter_concern] []"

definition one_hidden_meter_concern :: state where
  "one_hidden_meter_concern = store_of [] [filed_meter_concern\<lparr>hidden := Some True\<rparr>] []"

text \<open>A request during which the write to the joblist database raises.\<close>

definition env_joblist_down :: env where
  "env_joblist_down = env_ok\<lparr>joblist_write_fails := True\<rparr>"

text \<open>The three family tables, empty; a web form about an outage; an SMS about one.\<close>

definition empty_store :: state where
  "empty_store = store_of [] [] []"

definition outage_form :: web_form where
  "outage_form =
     \<lparr>wf_full_name = ''Juan Cruz'', wf_contact_number = ''09171234567'',
      wf_address = ''Brgy. Bacan, Cabatuan, Iloilo'',
      wf_details = ''no electricity since morning'', wf_landmark = '''',
      wf_has_location = True, wf_incident_type = ''power_outage'',
      wf_affected_area = ''street'', wf_source = ''Web Form''\<rparr>"

definition outage_sms :: parsed_sms where
  "outage_sms =
     \<lparr>ps_issue_type = ''POWER OUTAGE'', ps_full_name = ''Juan Cruz'',
      ps_address = ''Brgy. Bacan, Cabatuan, Iloilo'', ps_contact_number = ''09171234567'',
      ps_details = ''NO POWER'', ps_priority = ''HIGH'', ps_from_number = ''+639171234567''\<rparr>"

text \<open>An SMS about a bill, which the handler files in \<open>meter_concern\<close>, and the slots
  of a complete meter concern form of the chatbot.\<close>

definition billing_sms :: parsed_sms where
  "billing_sms =
     \<lparr>ps_issue_type = ''BILLING'', ps_full_name = ''Juan Cruz'',
      ps_address = ''Brgy. Bacan, Cabatuan, Iloilo'', ps_contact_number = ''09171234567'',
      ps_details = ''WRONG READING'', ps_priority = ''MEDIUM'',
      ps_from_number = ''+639171234567''\<rparr>"
section \<open>Notions used to state the properties\<close>

text \<open>What one family adds to the merged list: nothing when its table is missing or
  its query raises.\<close>

definition contribution :: "env \<Rightarrow> state \<Rightarrow> filters \<Rightarrow> string \<Rightarrow> complaint list" where
  "contribution e s f t =
     (if t \<notin> set (existing_tables s) then []
      else case family_query e s f t of Inl x \<Rightarrow> [] | Inr cs \<Rightarrow> cs)"

text \<open>An update is benign when it keeps the key of a row and never takes back a
  \<open>hidden\<close> or \<open>resumed\<close> flag that is set.\<close>

definition benign :: "(row \<Rightarrow> row) \<Rightarrow> bool" where
  "benign u =
     (\<forall>r. rid (u r) = rid r \<and>
          (hidden r = Some True \<longrightarrow> hidden (u r) = Some True) \<and>
          (resumed r = Some True \<longrightarrow> resumed (u r) = Some True))"

text \<open>How the tables of the complaint store change: by benign updates of the rows with
  one key and by inserts with a fresh key.\<close>

inductive evolves ::
  "(string \<Rightarrow> row list option) \<Rightarrow> (string \<Rightarrow> row list option) \<Rightarrow> bool" where
  same: "evolves T T"
| updated: "evolves T T' \<Longrightarrow> T' t = Some rows \<Longrightarrow> benign u \<Longrightarrow>
     evolves T (T'(t \<mapsto> update_where_id u i rows))"
| inserted: "evolves T T' \<Longrightarrow> T' t = Some rows \<Longrightarrow>
     evolves T (T'(t \<mapsto> insert_row rows r))"

text \<open>\<open>flagged col T t i\<close>: table \<open>t\<close> has a row with key \<open>i\<close>, and every row with that
  key has the boolean column \<open>col\<close> set.\<close>

definition flagged ::
  "(row \<Rightarrow> bool option) \<Rightarrow> (string \<Rightarrow> row list option) \<Rightarrow> string \<Rightarrow> int \<Rightarrow> bool" where
  "flagged col T t i =
     (case T t of None \<Rightarrow> False
      | Some rows \<Rightarrow> list_ex (\<lambda>r. rid r = i) rows \<and>
                     list_all (\<lambda>r. rid r = i \<longrightarrow> col r = Some True) rows)"

text \<open>The rows of table \<open>t\<close> that are in the later state beyond the length the table
  had in the earlier one.\<close>

definition added_rows :: "state \<Rightarrow> state \<Rightarrow> string \<Rightarrow> row list" where
  "added_rows s s' t =
     (case tables s t of None \<Rightarrow> []
      | Some rows \<Rightarrow> (case tables s' t of None \<Rightarrow> [] | Some rows' \<Rightarrow> drop (length rows) rows'))"

section \<open>Facts about the string functions\<close>

lemma lower_upper_char: "lower_char (upper_char c) = lower_char c"
  by (simp add: lower_char_def upper_char_def ascii_lowercase_def ascii_uppercase_def)

lemma str_lower_upper: "str_lower (str_upper s) = str_lower s"
  by (simp add: str_lower_def str_upper_def lower_upper_char)

lemma str_lower_or_default_Some: "str_lower (or_default (Some d) '''') = str_lower d"
  by (simp add: or_default_def str_lower_def)

section \<open>Priority classification\<close>

lemma get_priority_from_concern_range:
  "get_priority_from_concern c = ''CRITICAL'' \<or> get_priority_from_concern c = ''HIGH''"
  by (simp add: get_priority_from_concern_def Let_def)

lemma get_priority_from_concern_shadowed_range:
  "get_priority_from_concern_shadowed c = ''CRITICAL'' \<or>
   get_priority_from_concern_shadowed c = ''HIGH''"
  by (simp add: get_priority_from_concern_shadowed_def Let_def)

text \<open>
  Claim C5, as the code has it. The web form's classifier returns \<open>CRITICAL\<close> for the
  three always-critical incident types whatever the text says; for any other incident
  type it returns \<open>CRITICAL\<close> exactly when the lower-cased text contains one of the
  critical keywords and \<open>HIGH\<close> otherwise, so it is insensitive to case and never
  returns \<open>MEDIUM\<close> or \<open>LOW\<close>. The four tiers exist only in the chatbot's agent-queue
  classifier, which has no incident type and answers in lower case: the critical
  words win over the others, and its answer is one of the four labels.
\<close>

theorem C5_classifier:
  "(incident_type \<in> set critical_types \<longrightarrow>
      determine_priority incident_type details = ''CRITICAL'') \<and>
   (incident_type \<notin> set critical_types \<longrightarrow>
      determine_priority incident_type details =
        (if any_word_in critical_keywords (str_lower details) then ''CRITICAL'' else ''HIGH'')) \<and>
   determine_priority incident_type (str_upper details) =
     determine_priority incident_type details \<and>
   determine_priority incident_type details \<noteq> ''MEDIUM'' \<and>
   determine_priority incident_type details \<noteq> ''LOW'' \<and>
   (any_word_in [''emergency'', ''fire'', ''fallen'', ''accident'', ''hazard'']
        (str_lower (or_default concern' '''')) \<longrightarrow>
      tta_get_priority_from_concern concern' = ''critical'') \<and>
   tta_get_priority_from_concern concern' \<in> {''critical'', ''high'', ''medium'', ''low''}"
proof -
  have a: "incident_type \<in> set critical_types \<longrightarrow>
      determine_priority incident_type details = ''CRITICAL''"
    by (simp add: determine_priority_def)
  have b: "incident_type \<notin> set critical_types \<longrightarrow>
      determine_priority incident_type details =
        (if any_word_in critical_keywords (str_lower details) then ''CRITICAL'' else ''HIGH'')"
    by (simp add: determine_priority_def get_priority_from_concern_def Let_def
        str_lower_or_default_Some)
  have c: "determine_priority incident_type (str_upper details) =
      determine_priority incident_type details"
    by (simp add: determine_priority_def get_priority_from_concern_def Let_def
        str_lower_or_default_Some str_lower_upper)
  have d: "determine_priority incident_type details = ''CRITICAL'' \<or>
      determine_priority incident_type details = ''HIGH''"
    using get_priority_from_concern_range [of "Some details"]
    by (simp add: determine_priority_def)
  from d have e: "determine_priority incident_type details \<noteq> ''MEDIUM''" by auto
  from d have f: "determine_priority incident_type details \<noteq> ''LOW''" by auto
  have g: "any_word_in [''emergency'', ''fire'', ''fallen'', ''accident'', ''hazard'']
        (str_lower (or_default concern' '''')) \<longrightarrow>
      tta_get_priority_from_concern concern' = ''critical''"
    by (simp add: tta_get_priority_from_concern_def Let_def)
  have h: "tta_get_priority_from_concern concern' \<in> {''critical'', ''high'', ''medium'', ''low''}"
    by (simp add: tta_get_priority_from_concern_def Let_def)
  from a b c e f g h show ?thesis by blast
qed

theorem C5_classifier_witness:
  "''fallen_wire'' \<in> set critical_types \<and>
   determine_priority ''fallen_wire'' ''my bill seems too high'' = ''CRITICAL'' \<and>
   ''power_outage'' \<notin> set critical_types \<and>
   determine_priority ''power_outage'' ''no electricity since morning'' = ''HIGH'' \<and>
   tta_get_priority_from_concern (Some ''Fire near the billing office'') = ''critical''"
proof -
  have h1: "''fallen_wire'' \<in> set critical_types" by (simp add: critical_types_def)
  have h2: "''power_outage'' \<notin> set critical_types" by (simp add: critical_types_def)
  have k: "\<not> any_word_in critical_keywords (str_lower ''no electricity since morning'')"
    by code_simp
  have m: "any_word_in [''emergency'', ''fire'', ''fallen'', ''accident'', ''hazard'']
        (str_lower (or_default (Some ''Fire near the billing office'') ''''))"
    by code_simp
  from C5_classifier [of "''fallen_wire''" "''my bill seems too high''"] h1
  have r1: "determine_priority ''fallen_wire'' ''my bill seems too high'' = ''CRITICAL''"
    by blast
  from C5_classifier [of "''power_outage''" "''no electricity since morning''"] h2 k
  have r2: "determine_priority ''power_outage'' ''no electricity since morning'' = ''HIGH''"
    by simp
  from C5_classifier [of _ _ "Some ''Fire near the billing office''"] m
  have r3: "tta_get_priority_from_concern (Some ''Fire near the billing office'') = ''critical''"
    by blast
  from h1 h2 r1 r2 r3 show ?thesis by blast
qed

text \<open>Where the claim as worded fails: billing text is not \<open>MEDIUM\<close> and unmatched
  text is not \<open>LOW\<close> for the classifier that takes the incident type, and shock or
  explosion terms are not critical for the four-tier classifier.\<close>

theorem C5_counterexample:
  "determine_priority ''power_outage'' ''my bill seems too high'' = ''HIGH'' \<and>
   determine_priority ''power_outage'' ''please call me'' = ''HIGH'' \<and>
   tta_get_priority_from_concern (Some ''electric shock and explosion'') = ''low''"
  by code_simp

section \<open>Ordering of the unified view\<close>

lemma status_rank_refines: "get_or_4 status_order st = spec_status_rank st"
  by (simp add: get_or_4_def status_order_def spec_status_rank_def)

lemma priority_rank_refines: "get_or_4 priority_order pr = spec_priority_rank pr"
  by (simp add: get_or_4_def priority_order_def spec_priority_rank_def)

lemma get_unified_complaints_sorted:
  "get_unified_complaints e s f = Inr cs \<Longrightarrow> sorted (map sort_key_complaint cs)"
  by (auto simp: get_unified_complaints_def get_unified_complaints_body_def
      split: if_splits sum.splits)

text \<open>
  Claim C1. Whatever the environment, the store and the filters, the list returned by
  \<open>get_unified_complaints\<close> is sorted ascending by the key; the key of a complaint is
  the triple (status rank, priority rank, minus the creation time in seconds), with
  the ranks NEW 0, ASSIGNED 1, IN_PROGRESS 2, RESOLVED 3, other 4 and CRITICAL 0,
  HIGH 1, MEDIUM 2, LOW 3, other 4; and the three complaints RESOLVED/CRITICAL,
  NEW/LOW, NEW/HIGH come out as NEW/HIGH, NEW/LOW, RESOLVED/CRITICAL.
\<close>

theorem C1_sorted_by_composite_key:
  "(\<forall>cs. get_unified_complaints e s f = Inr cs \<longrightarrow> sorted (map sort_key_complaint cs)) \<and>
   sort_key_complaint c =
     (spec_status_rank (str_upper (str_strip (c_status c))),
      spec_priority_rank (str_upper (str_strip (c_priority c))),
      - timestamp_unix (timestamp (full_data c))) \<and>
   (\<exists>cs. get_unified_complaints env_ok three_complaints no_filters = Inr cs \<and>
      map (\<lambda>c. (c_status c, c_priority c)) cs =
        [(''NEW'', ''HIGH''), (''NEW'', ''LOW''), (''RESOLVED'', ''CRITICAL'')])"
proof -
  have a: "\<forall>cs. get_unified_complaints e s f = Inr cs \<longrightarrow> sorted (map sort_key_complaint cs)"
    using get_unified_complaints_sorted by blast
  have b: "sort_key_complaint c =
     (spec_status_rank (str_upper (str_strip (c_status c))),
      spec_priority_rank (str_upper (str_strip (c_priority c))),
      - timestamp_unix (timestamp (full_data c)))"
    by (simp add: sort_key_complaint_def Let_def status_rank_refines priority_rank_refines)
  have "map_sum id (map (\<lambda>c. (c_status c, c_priority c)))
       (get_unified_complaints env_ok three_complaints no_filters) =
     Inr [(''NEW'', ''HIGH''), (''NEW'', ''LOW''), (''RESOLVED'', ''CRITICAL'')]"
    by code_simp
  then have c: "\<exists>cs. get_unified_complaints env_ok three_complaints no_filters = Inr cs \<and>
      map (\<lambda>c. (c_status c, c_priority c)) cs =
        [(''NEW'', ''HIGH''), (''NEW'', ''LOW''), (''RESOLVED'', ''CRITICAL'')]"
    by (cases "get_unified_complaints env_ok three_complaints no_filters") simp_all
  from a b c show ?thesis by blast
qed

text \<open>The theorem at a call that filters by status: the two NEW complaints, the more
  severe first.\<close>

theorem C1_sorted_by_composite_key_witness:
  "\<exists>cs. get_unified_complaints env_ok three_complaints
           (no_filters\<lparr>status_filter := Some ''new''\<rparr>) = Inr cs \<and>
        sorted (map sort_key_complaint cs) \<and> map c_priority cs = [''HIGH'', ''LOW'']"
proof -
  have "map_sum id (map c_priority)
     (get_unified_complaints env_ok three_complaints (no_filters\<lparr>status_filter := Some ''new''\<rparr>)) =
     Inr [''HIGH'', ''LOW'']"
    by code_simp
  then obtain cs where cs: "get_unified_complaints env_ok three_complaints
           (no_filters\<lparr>status_filter := Some ''new''\<rparr>) = Inr cs"
      "map c_priority cs = [''HIGH'', ''LOW'']"
    by (cases "get_unified_complaints env_ok three_complaints
           (no_filters\<lparr>status_filter := Some ''new''\<rparr>)") simp_all
  from C1_sorted_by_composite_key
    [of env_ok three_complaints "no_filters\<lparr>status_filter := Some ''new''\<rparr>"] cs(1)
  have "sorted (map sort_key_complaint cs)" by blast
  with cs show ?thesis by simp
qed

section \<open>Partial and total failure of the aggregator\<close>

lemma process_tables_cases:
  "process_tables e s f ts acc = Inr (acc @ concat (map (contribution e s f) ts)) \<or>
   (\<exists>x. process_tables e s f ts acc = Inl x)"
proof (induction ts arbitrary: acc)
  case Nil
  show ?case by simp
next
  case (Cons t ts)
  show ?case
  proof (cases "t \<in> set (existing_tables s)")
    case False
    with Cons.IH [of acc] show ?thesis by (simp add: contribution_def)
  next
    case True
    show ?thesis
    proof (cases "ensure_columns e t")
      case (Inl x)
      with True show ?thesis by simp
    next
      case ok: (Inr b)
      show ?thesis
      proof (cases "family_query e s f t")
        case (Inl x)
        with True ok Cons.IH [of acc] show ?thesis by (simp add: contribution_def)
      next
        case (Inr ds)
        with True ok Cons.IH [of "acc @ ds"] show ?thesis by (simp add: contribution_def)
      qed
    qed
  qed
qed

lemma process_tables_Inr:
  "process_tables e s f ts acc = Inr cs \<Longrightarrow>
   cs = acc @ concat (map (contribution e s f) ts)"
  using process_tables_cases [of e s f ts acc] by auto

lemma process_tables_returns:
  "\<not> rollback_fails e \<Longrightarrow>
   process_tables e s f ts acc = Inr (acc @ concat (map (contribution e s f) ts))"
  by (induction ts arbitrary: acc)
     (simp_all add: contribution_def ensure_columns_def split: sum.splits)

lemma family_query_table:
  "family_query e s f t = Inr cs \<Longrightarrow> c \<in> set cs \<Longrightarrow> c_table c = t"
  by (auto simp: family_query_def agent_queue_complaint_def meter_concern_complaint_def
      power_outage_complaint_def Let_def split: if_splits sum.splits)

lemma contribution_table: "c \<in> set (contribution e s f t) \<Longrightarrow> c_table c = t"
proof (cases "family_query e s f t")
  case (Inl x)
  assume "c \<in> set (contribution e s f t)"
  with Inl show ?thesis by (simp add: contribution_def split: if_splits)
next
  case (Inr cs)
  assume "c \<in> set (contribution e s f t)"
  with Inr have "c \<in> set cs" by (simp add: contribution_def split: if_splits)
  with Inr show ?thesis by (rule family_query_table)
qed

lemma family_query_exec_fails:
  "exec_fails e t \<Longrightarrow> family_query e s f t = Inr cs \<Longrightarrow> cs = []"
  by (auto simp: family_query_def table_rows_def split: if_splits)

lemma family_query_no_failure:
  "\<not> exec_fails e t \<Longrightarrow>
   family_query (e\<lparr>exec_fails := (\<lambda>t. False)\<rparr>) s f t = family_query e s f t"
  by (cases "t = ''agent_queue''"; cases "t = ''meter_concern''";
      cases "t = ''power_outage_reports''"; simp add: family_query_def table_rows_def)

lemma contribution_failing:
  "exec_fails e t \<Longrightarrow> contribution e s f t = []"
  by (auto simp: contribution_def split: sum.splits dest: family_query_exec_fails)

lemma contribution_filter:
  "filter (\<lambda>c. \<not> exec_fails e (c_table c))
     (contribution (e\<lparr>exec_fails := (\<lambda>t. False)\<rparr>) s f t) = contribution e s f t"
proof (cases "exec_fails e t")
  case True
  then have "filter (\<lambda>c. \<not> exec_fails e (c_table c))
     (contribution (e\<lparr>exec_fails := (\<lambda>t. False)\<rparr>) s f t) = []"
    by (auto simp: filter_empty_conv dest: contribution_table)
  with True show ?thesis by (simp add: contribution_failing)
next
  case False
  then have "filter (\<lambda>c. \<not> exec_fails e (c_table c))
     (contribution (e\<lparr>exec_fails := (\<lambda>t. False)\<rparr>) s f t) =
     contribution (e\<lparr>exec_fails := (\<lambda>t. False)\<rparr>) s f t"
    by (auto simp: filter_id_conv dest: contribution_table)
  with False show ?thesis by (simp add: contribution_def family_query_no_failure)
qed

lemma filter_concat_contributions:
  "filter (\<lambda>c. \<not> exec_fails e (c_table c))
     (concat (map (contribution (e\<lparr>exec_fails := (\<lambda>t. False)\<rparr>) s f) ts)) =
   concat (map (contribution e s f) ts)"
  by (induction ts) (simp_all add: contribution_filter)

lemma partial_results:
  assumes "rasa_pool_ok e" and "\<not> catalog_fails e" and "\<not> rollback_fails e"
  shows "\<exists>cs. get_unified_complaints (e\<lparr>exec_fails := (\<lambda>t. False)\<rparr>) s f = Inr cs \<and>
     get_unified_complaints e s f = Inr (filter (\<lambda>c. \<not> exec_fails e (c_table c)) cs)"
  using assms
  by (simp add: get_unified_complaints_def get_unified_complaints_body_def
      process_tables_returns filter_sort filter_concat_contributions)

lemma unreachable_returns_empty:
  assumes "\<not> rollback_fails e" and "\<not> rasa_pool_ok e \<or> catalog_fails e"
  shows "get_unified_complaints e s f = Inr []"
  using assms by (auto simp: get_unified_complaints_def get_unified_complaints_body_def)

lemma escaping_error_returns_empty:
  assumes "\<not> rollback_fails e" and "get_unified_complaints_body e s f = Inl x"
  shows "get_unified_complaints e s f = Inr []"
  using assms by (simp add: get_unified_complaints_def)

lemma get_unified_complaints_returns:
  "\<not> rollback_fails e \<Longrightarrow> \<exists>cs. get_unified_complaints e s f = Inr cs"
  by (simp add: get_unified_complaints_def split: sum.splits)

lemma no_connection_returns_empty:
  "\<not> rasa_pool_ok e \<Longrightarrow> get_unified_complaints e s f = Inr []"
  by (simp add: get_unified_complaints_def)

text \<open>With a connection, an error that escapes the loop while \<open>rollback\<close> raises too
  is raised to the caller.\<close>

lemma escaping_error_raises:
  assumes "rasa_pool_ok e" and "rollback_fails e"
    and "get_unified_complaints_body e s f = Inl x"
  shows "get_unified_complaints e s f = Inl InterfaceError"
  using assms by (simp add: get_unified_complaints_def)

text \<open>One family failing, at the three complaints: the other two families are
  returned.\<close>

lemma partial_results_example:
  "map_sum id (map c_table)
     (get_unified_complaints env_meter_down three_complaints no_filters) =
   Inr [''power_outage_reports'', ''agent_queue'']"
  by code_simp

text \<open>
  Claim C6. The first half of the claim holds of the function whenever \<open>rollback\<close>
  does not raise (\<open>partial_results\<close>), and so does the second half
  (\<open>unreachable_returns_empty\<close>, \<open>escaping_error_returns_empty\<close>). The second half
  does not hold in general: the handler that is to return the empty list calls
  \<open>conn.rollback()\<close> first, outside any guard, and \<open>ensure_columns\<close> does the same
  inside the loop. When the connection has been closed, the catalogue query raises,
  \<open>rollback\<close> raises \<open>InterfaceError\<close>, and the function raises to its caller
  instead of returning the empty list; likewise when \<open>ensure_columns\<close> fails on a
  table and \<open>rollback\<close> raises.
\<close>

theorem C6_rollback_raises:
  "get_unified_complaints env_dropped three_complaints no_filters = Inl InterfaceError \<and>
   get_unified_complaints env_dropped_in_loop three_complaints no_filters =
     Inl InterfaceError"
  by code_simp

section \<open>How the operations change the tables\<close>

lemma table_rows_Inr: "table_rows e s t = Inr rows \<Longrightarrow> tables s t = Some rows"
  by (simp add: table_rows_def split: if_splits option.splits)

lemma fold_max_ge: "(a::int) \<le> fold max xs a \<and> (\<forall>x\<in>set xs. x \<le> fold max xs a)"
proof (induction xs arbitrary: a)
  case Nil
  show ?case by simp
next
  case (Cons y ys)
  have "max y a \<le> fold max ys (max y a)" and "\<forall>x\<in>set ys. x \<le> fold max ys (max y a)"
    using Cons.IH [of "max y a"] by simp_all
  then show ?case by auto
qed

lemma rid_less_next_id: "r \<in> set rows \<Longrightarrow> rid r < next_id rows"
  using fold_max_ge [of 0 "map rid rows"] by (auto simp: next_id_def)

lemma evolves_trans: "evolves T' T'' \<Longrightarrow> evolves T T' \<Longrightarrow> evolves T T''"
  by (induction rule: evolves.induct) (auto intro: evolves.intros)

lemma evolves_set_table_update:
  "tables s t = Some rows \<Longrightarrow> benign u \<Longrightarrow>
   evolves (tables s) (tables (set_table s t (update_where_id u i rows)))"
  by (simp add: set_table_def evolves.updated [OF evolves.same])

lemma evolves_set_table_insert:
  "tables s t = Some rows \<Longrightarrow>
   evolves (tables s) (tables (set_table s t (insert_row rows r)))"
  by (simp add: set_table_def evolves.inserted [OF evolves.same])

lemma flagged_evolves:
  "evolves T T' \<Longrightarrow> flagged col T t i \<Longrightarrow> col = hidden \<or> col = resumed \<Longrightarrow> flagged col T' t i"
proof (induction rule: evolves.induct)
  case (same T)
  then show ?case by simp
next
  case (updated T T' t' rows u j)
  from updated have fl: "flagged col T' t i" by simp
  show ?case
  proof (cases "t' = t")
    case False
    with fl show ?thesis by (simp add: flagged_def)
  next
    case True
    from fl True updated.hyps(2)
    have ex: "list_ex (\<lambda>r. rid r = i) rows"
      and al: "list_all (\<lambda>r. rid r = i \<longrightarrow> col r = Some True) rows"
      by (simp_all add: flagged_def)
    from updated.hyps(3) have b: "\<And>r. rid (u r) = rid r"
      and h: "\<And>r. hidden r = Some True \<Longrightarrow> hidden (u r) = Some True"
      and re: "\<And>r. resumed r = Some True \<Longrightarrow> resumed (u r) = Some True"
      by (simp_all add: benign_def)
    from ex b have ex': "list_ex (\<lambda>r. rid r = i) (update_where_id u j rows)"
      by (auto simp: list_ex_iff update_where_id_def)
    from al b h re updated.prems(2)
    have al': "list_all (\<lambda>r. rid r = i \<longrightarrow> col r = Some True) (update_where_id u j rows)"
      by (auto simp: list_all_iff update_where_id_def)
    from ex' al' True show ?thesis by (simp add: flagged_def)
  qed
next
  case (inserted T T' t' rows r)
  from inserted have fl: "flagged col T' t i" by simp
  show ?case
  proof (cases "t' = t")
    case False
    with fl show ?thesis by (simp add: flagged_def)
  next
    case True
    from fl True inserted.hyps(2)
    have ex: "list_ex (\<lambda>r. rid r = i) rows"
      and al: "list_all (\<lambda>r. rid r = i \<longrightarrow> col r = Some True) rows"
      by (simp_all add: flagged_def)
    from ex obtain r0 where "r0 \<in> set rows" and "rid r0 = i" by (auto simp: list_ex_iff)
    then have "i < next_id rows" using rid_less_next_id by blast
    with ex al True show ?thesis
      by (simp add: flagged_def insert_row_def)
  qed
qed

lemma benign_status: "benign (\<lambda>r. r\<lparr>status := x\<rparr>)"
  by (simp add: benign_def)

lemma benign_hidden: "benign (\<lambda>r. r\<lparr>hidden := Some True\<rparr>)"
  by (simp add: benign_def)

lemma benign_resumed: "benign (\<lambda>r. r\<lparr>resumed := Some True\<rparr>)"
  by (simp add: benign_def)

lemma benign_assigned: "benign (\<lambda>r. r\<lparr>status := x, job_order_id := y\<rparr>)"
  by (simp add: benign_def)

lemma benign_job_order_id: "benign (\<lambda>r. r\<lparr>job_order_id := y\<rparr>)"
  by (simp add: benign_def)

lemma tables_broadcast_status_update [simp]:
  "tables (broadcast_status_update e t i old new s) = tables s"
  by (simp add: broadcast_status_update_def)

lemma tables_broadcast_new_complaint [simp]:
  "tables (broadcast_new_complaint e i p s) = tables s"
  by (simp add: broadcast_new_complaint_def)

lemma tables_broadcast_critical_alert [simp]:
  "tables (broadcast_critical_alert e i s) = tables s"
  by (simp add: broadcast_critical_alert_def)

lemma evolves_update_status: "evolves (tables s) (tables (fst (update_status e t i st s)))"
  by (auto simp: update_status_def Let_def benign_status evolves.same
      split: sum.splits option.splits
      intro!: evolves_set_table_update dest: table_rows_Inr)

lemma evolves_hide_complaint: "evolves (tables s) (tables (fst (hide_complaint e t i s)))"
  by (auto simp: hide_complaint_def benign_hidden evolves.same
      split: sum.splits option.splits
      intro!: evolves_set_table_update dest: table_rows_Inr)

lemma evolves_delete_complaint: "evolves (tables s) (tables (fst (delete_complaint e t i s)))"
  by (auto simp: delete_complaint_def benign_hidden evolves.same
      split: sum.splits option.splits
      intro!: evolves_set_table_update dest: table_rows_Inr)

lemma evolves_resume_conversation:
  "evolves (tables s) (tables (fst (resume_conversation e i s)))"
  by (auto simp: resume_conversation_def Let_def benign_resumed evolves.same
      split: sum.splits option.splits
      intro!: evolves_set_table_update dest: table_rows_Inr)

lemma evolves_write_then_link:
  "tables s t = Some rows \<Longrightarrow>
   evolves (tables s) (tables (fst (write_then_link e uid t i rows jo x s)))"
proof -
  assume a: "tables s t = Some rows"
  then have "tables (s\<lparr>converted := converted s @ [jo]\<rparr>) t = Some rows" by simp
  then have "evolves (tables (s\<lparr>converted := converted s @ [jo]\<rparr>))
     (tables (set_table (s\<lparr>converted := converted s @ [jo]\<rparr>) t
        (update_where_id (\<lambda>r. r\<lparr>status := Some ''ASSIGNED'', job_order_id := Some uid\<rparr>) i rows)))"
    using benign_assigned by (rule evolves_set_table_update)
  then show ?thesis
    by (simp add: write_then_link_def Let_def evolves.same)
qed

lemma evolves_assign_job_order:
  "evolves (tables s) (tables (fst (assign_job_order e uid t i s)))"
  by (auto simp: assign_job_order_def Let_def evolves.same
      split: sum.splits option.splits
      intro!: evolves_write_then_link dest: table_rows_Inr)

lemma evolves_chat_power_outage:
  "evolves (tables s) (tables (fst (action_submit_power_outage_form e now j u n a c s)))"
  by (auto simp: action_submit_power_outage_form_def Let_def evolves.same
      split: sum.splits option.splits
      intro!: evolves_set_table_insert dest: table_rows_Inr)

lemma evolves_chat_meter_concern:
  "evolves (tables s) (tables (fst (action_submit_meter_concern e now j u acc n a c m s)))"
  by (auto simp: action_submit_meter_concern_def Let_def evolves.same
      split: sum.splits option.splits
      intro!: evolves_set_table_insert dest: table_rows_Inr)

lemma evolves_chat_talk_to_agent:
  "evolves (tables s) (tables (fst (action_submit_talk_to_agent_form e s)))"
  by (auto simp: action_submit_talk_to_agent_form_def benign_status evolves.same
      split: sum.splits list.splits
      intro!: evolves_set_table_update dest: table_rows_Inr)

lemma evolves_sms: "evolves (tables s) (tables (fst (sms_webhook e now p s)))"
  by (auto simp: sms_webhook_def Let_def evolves.same
      split: sum.splits option.splits prod.splits
      intro!: evolves_set_table_insert dest: table_rows_Inr)

lemma evolves_create_automatic_job_order:
  "evolves (tables s) (tables (fst (create_automatic_job_order e uid i jo s)))"
proof -
  have "evolves (tables (s\<lparr>converted := converted s @ [jo]\<rparr>))
     (tables (set_table (s\<lparr>converted := converted s @ [jo]\<rparr>) ''power_outage_reports''
        (update_where_id (\<lambda>r. r\<lparr>job_order_id := Some uid\<rparr>) i rows)))"
    if "tables s ''power_outage_reports'' = Some rows" for rows
    using that benign_job_order_id by (intro evolves_set_table_update) simp_all
  then show ?thesis
    by (auto simp: create_automatic_job_order_def Let_def evolves.same split: option.splits)
qed

lemma evolves_web_power_outage:
  "evolves (tables s) (tables (fst (submit_power_outage e now uid d s)))"
proof -
  have ins: "evolves (tables s)
      (tables (set_table s ''power_outage_reports'' (insert_row rows r)))"
    if "table_rows e s ''power_outage_reports'' = Inr rows" for rows r
    using that by (intro evolves_set_table_insert) (rule table_rows_Inr)
  have step2: "evolves (tables s) (tables (fst (create_automatic_job_order e uid i jo s')))"
    if "evolves (tables s) (tables s')" for i jo s'
    using evolves_create_automatic_job_order that by (rule evolves_trans)
  show ?thesis
    by (auto simp: submit_power_outage_def Let_def evolves.same split_beta
        split: sum.splits intro!: step2 ins)
qed

lemma evolves_step: "evolves (tables s) (tables (step s x))"
  by (cases x)
    (simp_all add: evolves_update_status evolves_hide_complaint evolves_delete_complaint
      evolves_assign_job_order evolves_resume_conversation evolves_chat_power_outage
      evolves_chat_meter_concern evolves_chat_talk_to_agent evolves_web_power_outage
      evolves_sms)

lemma evolves_run: "evolves (tables s) (tables (run s xs))"
proof (induction xs arbitrary: s)
  case Nil
  show ?case by (simp add: evolves.same)
next
  case (Cons x xs)
  have "evolves (tables (step s x)) (tables (run (step s x) xs))" by (rule Cons.IH)
  then have "evolves (tables s) (tables (run (step s x) xs))"
    using evolves_step by (rule evolves_trans)
  then show ?case by simp
qed

section \<open>Resumed requests\<close>

lemma unified_subset_concat:
  assumes "get_unified_complaints e s f = Inr cs"
  shows "set cs \<subseteq> set (concat (map (contribution e s f) family_tables))"
proof (cases "process_tables e s f family_tables []")
  case (Inl x)
  with assms show ?thesis
    by (simp add: get_unified_complaints_def get_unified_complaints_body_def
        split: if_splits)
next
  case (Inr ds)
  then have "ds = concat (map (contribution e s f) family_tables)"
    using process_tables_Inr [of e s f family_tables "[]" ds] by simp
  with assms Inr show ?thesis
    by (auto simp: get_unified_complaints_def get_unified_complaints_body_def
        split: if_splits)
qed

lemma unified_from_contribution:
  assumes "get_unified_complaints e s f = Inr cs" and "c \<in> set cs"
  shows "\<exists>t\<in>set family_tables. c \<in> set (contribution e s f t)"
proof -
  from assms unified_subset_concat
  have "c \<in> set (concat (map (contribution e s f) family_tables))" by blast
  then show ?thesis by auto
qed

lemma agent_queue_where_resumed: "agent_queue_where f r \<Longrightarrow> resumed r \<noteq> Some True"
  by (auto simp: agent_queue_where_def false_or_null_def)

lemma family_query_agent_queue:
  "family_query e s f ''agent_queue'' =
     (if truthy (type_filter_norm f) \<and> type_filter_norm f \<noteq> Some ''SERVICE'' then Inr []
      else case table_rows e s ''agent_queue'' of Inl x \<Rightarrow> Inl x
           | Inr rows \<Rightarrow> Inr (map agent_queue_complaint
                                (order_by_timestamp_desc (filter (agent_queue_where f) rows))))"
  by (simp add: family_query_def)

lemma set_order_by_timestamp_desc [simp]: "set (order_by_timestamp_desc rows) = set rows"
  by (simp add: order_by_timestamp_desc_def)

lemma agent_queue_contribution:
  assumes "c \<in> set (contribution e s f ''agent_queue'')"
  shows "\<exists>rows r. tables s ''agent_queue'' = Some rows \<and> r \<in> set rows \<and>
      c = agent_queue_complaint r \<and> resumed r \<noteq> Some True"
proof (cases "table_rows e s ''agent_queue''")
  case (Inl x)
  with assms show ?thesis
    by (simp add: contribution_def family_query_agent_queue split: if_splits)
next
  case (Inr rows)
  then have t: "tables s ''agent_queue'' = Some rows" by (rule table_rows_Inr)
  from assms Inr
  have "c \<in> agent_queue_complaint ` {r \<in> set rows. agent_queue_where f r}"
    by (simp add: contribution_def family_query_agent_queue split: if_splits)
  then obtain r where "r \<in> set rows" "agent_queue_where f r" "c = agent_queue_complaint r"
    by blast
  with t show ?thesis using agent_queue_where_resumed by blast
qed

lemma agent_queue_listed:
  assumes "get_unified_complaints e s f = Inr cs" and "c \<in> set cs"
    and "c_table c = ''agent_queue''"
  shows "\<exists>rows r. tables s ''agent_queue'' = Some rows \<and> r \<in> set rows \<and>
      c = agent_queue_complaint r \<and> resumed r \<noteq> Some True"
proof -
  from assms(1,2) obtain t where "c \<in> set (contribution e s f t)"
    using unified_from_contribution by blast
  moreover from this assms(3) have "t = ''agent_queue''"
    using contribution_table by blast
  ultimately show ?thesis using agent_queue_contribution by blast
qed

lemma record_id_agent_queue_complaint [simp]: "c_record_id (agent_queue_complaint r) = rid r"
  by (simp add: agent_queue_complaint_def Let_def)

lemma flagged_resumed_not_listed:
  assumes "flagged resumed (tables s) ''agent_queue'' i"
    and "get_unified_complaints e s f = Inr cs" and "c \<in> set cs"
  shows "\<not> (c_table c = ''agent_queue'' \<and> c_record_id c = i)"
proof
  assume a: "c_table c = ''agent_queue'' \<and> c_record_id c = i"
  with assms(2,3) obtain rows r where r: "tables s ''agent_queue'' = Some rows" "r \<in> set rows"
    "c = agent_queue_complaint r" "resumed r \<noteq> Some True"
    using agent_queue_listed by blast
  from a r(3) have "rid r = i" by simp
  with assms(1) r(1,2) have "resumed r = Some True"
    by (auto simp: flagged_def list_all_iff)
  with r(4) show False by simp
qed

lemma rid_update_where_id:
  "(\<And>r. rid (u r) = rid r) \<Longrightarrow> map rid (update_where_id u j rows) = map rid rows"
  by (simp add: update_where_id_def)

lemma list_ex_rid: "list_ex (\<lambda>r. rid r = i) rows \<longleftrightarrow> i \<in> set (map rid rows)"
  by (auto simp: list_ex_iff)

lemma fetchone_by_id_Some:
  "fetchone_by_id rows i = Some r \<Longrightarrow> r \<in> set rows \<and> rid r = i"
  by (auto simp: fetchone_by_id_def find_Some_iff)

lemma resume_conversation_result:
  assumes "rasa_pool_ok e" "\<not> exec_fails e ''agent_queue''" "\<not> rasa_post_fails e"
    "\<not> commit_fails e" "tables s ''agent_queue'' = Some rows"
    "fetchone_by_id rows i = Some r" "truthy (user_id r)"
  shows "resume_conversation e i s =
     (set_table s ''agent_queue'' (update_where_id (\<lambda>r. r\<lparr>resumed := Some True\<rparr>) i rows),
      redirect)"
  using assms by (simp add: resume_conversation_def table_rows_def Let_def)

lemma resume_conversation_flags:
  assumes "rasa_pool_ok e" "\<not> exec_fails e ''agent_queue''" "\<not> rasa_post_fails e"
    "\<not> commit_fails e" "tables s ''agent_queue'' = Some rows"
    "fetchone_by_id rows i = Some r" "truthy (user_id r)"
  shows "flagged resumed (tables (fst (resume_conversation e i s))) ''agent_queue'' i"
proof -
  from assms(6) have "list_ex (\<lambda>r. rid r = i) rows"
    by (auto simp: list_ex_iff dest: fetchone_by_id_Some)
  then have ex: "list_ex (\<lambda>r. rid r = i) (update_where_id (\<lambda>r. r\<lparr>resumed := Some True\<rparr>) i rows)"
    by (simp add: list_ex_rid rid_update_where_id)
  have al: "list_all (\<lambda>r. rid r = i \<longrightarrow> resumed r = Some True)
      (update_where_id (\<lambda>r. r\<lparr>resumed := Some True\<rparr>) i rows)"
    by (induction rows) (simp_all add: update_where_id_def)
  have "resume_conversation e i s =
     (set_table s ''agent_queue'' (update_where_id (\<lambda>r. r\<lparr>resumed := Some True\<rparr>) i rows),
      redirect)"
    using assms by (rule resume_conversation_result)
  with ex al show ?thesis
    by (simp add: set_table_def flagged_def)
qed

lemma agent_queue_where_no_filters:
  "hidden r \<noteq> Some True \<Longrightarrow> resumed r \<noteq> Some True \<Longrightarrow> agent_queue_where no_filters r"
  by (auto simp: agent_queue_where_def no_filters_def false_or_null_def upper_equals_def
      status_filter_norm_def priority_filter_norm_def normalize_filter_def not_before_def
      not_after_def split: option.splits)

lemma visible_row_listed:
  assumes "rasa_pool_ok e" "\<not> catalog_fails e" "\<not> exec_fails e ''agent_queue''"
    "\<not> rollback_fails e"
    "tables s ''agent_queue'' = Some rows" "r \<in> set rows"
    "hidden r \<noteq> Some True" "resumed r \<noteq> Some True"
  shows "\<exists>cs. get_unified_complaints e s no_filters = Inr cs \<and>
      agent_queue_complaint r \<in> set cs"
proof -
  from assms(7,8) have w: "agent_queue_where no_filters r"
    by (rule agent_queue_where_no_filters)
  have tf: "type_filter_norm no_filters = None"
    by (simp add: type_filter_norm_def no_filters_def normalize_filter_def)
  from assms(3,5) have tr: "table_rows e s ''agent_queue'' = Inr rows"
    by (simp add: table_rows_def)
  from assms(5) have ex: "''agent_queue'' \<in> set (existing_tables s)"
    by (simp add: existing_tables_def table_exists_def)
  from w assms(6) tf tr ex
  have "agent_queue_complaint r \<in> set (contribution e s no_filters ''agent_queue'')"
    by (simp add: contribution_def family_query_def truthy_def order_by_timestamp_desc_def)
  then have "agent_queue_complaint r \<in>
      set (sort_key sort_key_complaint
             (concat (map (contribution e s no_filters) family_tables)))"
    by (simp add: family_tables_def)
  moreover from assms(1,2,4)
  have "get_unified_complaints e s no_filters =
      Inr (sort_key sort_key_complaint
             (concat (map (contribution e s no_filters) family_tables)))"
    by (simp add: get_unified_complaints_def get_unified_complaints_body_def
        process_tables_returns)
  ultimately show ?thesis by simp
qed

text \<open>
  Claim C10. For any environment, store and filters (so also with \<open>show_hidden\<close>
  set), every complaint of the agent queue in a list the aggregator returns comes from
  a row whose \<open>resumed\<close> column is not true. A successful \<open>resume_conversation\<close> sets
  the column on every row with the given key; from then on, whatever operations
  follow, no call returns that request. A row whose \<open>hidden\<close> and \<open>resumed\<close> are not
  true (so also \<open>NULL\<close>) is in the unfiltered list of a call during which nothing
  fails.
\<close>

theorem C10_resumed_never_listed:
  "(\<forall>cs. get_unified_complaints e s f = Inr cs \<longrightarrow>
      (\<forall>c\<in>set cs. c_table c = ''agent_queue'' \<longrightarrow>
         (\<exists>rows r. tables s ''agent_queue'' = Some rows \<and> r \<in> set rows \<and>
            c = agent_queue_complaint r \<and> resumed r \<noteq> Some True))) \<and>
   (rasa_pool_ok e0 \<and> \<not> exec_fails e0 ''agent_queue'' \<and> \<not> rasa_post_fails e0 \<and>
    \<not> commit_fails e0 \<and> tables s ''agent_queue'' = Some rows0 \<and>
    fetchone_by_id rows0 i = Some r0 \<and> truthy (user_id r0) \<longrightarrow>
      flagged resumed (tables (fst (resume_conversation e0 i s))) ''agent_queue'' i) \<and>
   (flagged resumed (tables s) ''agent_queue'' i \<longrightarrow>
      (\<forall>cs. get_unified_complaints e (run s ops) f = Inr cs \<longrightarrow>
         (\<forall>c\<in>set cs. \<not> (c_table c = ''agent_queue'' \<and> c_record_id c = i)))) \<and>
   (rasa_pool_ok e \<and> \<not> catalog_fails e \<and> \<not> exec_fails e ''agent_queue'' \<and>
    \<not> rollback_fails e \<and>
    tables s ''agent_queue'' = Some rows1 \<and> r1 \<in> set rows1 \<and>
    hidden r1 \<noteq> Some True \<and> resumed r1 \<noteq> Some True \<longrightarrow>
      (\<exists>cs. get_unified_complaints e s no_filters = Inr cs \<and>
         agent_queue_complaint r1 \<in> set cs))"
proof -
  have a: "\<forall>cs. get_unified_complaints e s f = Inr cs \<longrightarrow>
      (\<forall>c\<in>set cs. c_table c = ''agent_queue'' \<longrightarrow>
         (\<exists>rows r. tables s ''agent_queue'' = Some rows \<and> r \<in> set rows \<and>
            c = agent_queue_complaint r \<and> resumed r \<noteq> Some True))"
    using agent_queue_listed by blast
  have b: "rasa_pool_ok e0 \<and> \<not> exec_fails e0 ''agent_queue'' \<and> \<not> rasa_post_fails e0 \<and>
    \<not> commit_fails e0 \<and> tables s ''agent_queue'' = Some rows0 \<and>
    fetchone_by_id rows0 i = Some r0 \<and> truthy (user_id r0) \<longrightarrow>
      flagged resumed (tables (fst (resume_conversation e0 i s))) ''agent_queue'' i"
    using resume_conversation_flags by blast
  have c: "flagged resumed (tables s) ''agent_queue'' i \<longrightarrow>
      (\<forall>cs. get_unified_complaints e (run s ops) f = Inr cs \<longrightarrow>
         (\<forall>c\<in>set cs. \<not> (c_table c = ''agent_queue'' \<and> c_record_id c = i)))"
  proof
    assume "flagged resumed (tables s) ''agent_queue'' i"
    with evolves_run [of s ops]
    have "flagged resumed (tables (run s ops)) ''agent_queue'' i"
      by (rule flagged_evolves) simp
    then show "\<forall>cs. get_unified_complaints e (run s ops) f = Inr cs \<longrightarrow>
         (\<forall>c\<in>set cs. \<not> (c_table c = ''agent_queue'' \<and> c_record_id c = i))"
      using flagged_resumed_not_listed by blast
  qed
  have d: "rasa_pool_ok e \<and> \<not> catalog_fails e \<and> \<not> exec_fails e ''agent_queue'' \<and>
    \<not> rollback_fails e \<and>
    tables s ''agent_queue'' = Some rows1 \<and> r1 \<in> set rows1 \<and>
    hidden r1 \<noteq> Some True \<and> resumed r1 \<noteq> Some True \<longrightarrow>
      (\<exists>cs. get_unified_complaints e s no_filters = Inr cs \<and>
         agent_queue_complaint r1 \<in> set cs)"
    using visible_row_listed by blast
  show ?thesis by (rule conjI [OF a conjI [OF b conjI [OF c d]]])
qed

text \<open>A request is resumed, then hidden and re-opened; asked for with hidden rows
  included, the aggregator returns a list that does not have it.\<close>

theorem C10_resumed_never_listed_witness:
  "flagged resumed (tables (fst (resume_conversation env_ok 1 one_request))) ''agent_queue'' 1 \<and>
   (\<exists>cs. get_unified_complaints env_ok
        (run (fst (resume_conversation env_ok 1 one_request))
           [Hide_complaint env_ok ''agent_queue'' 1,
            Update_status env_ok ''agent_queue'' 1 (Some ''NEW'')])
        (no_filters\<lparr>show_hidden := True\<rparr>) = Inr cs \<and>
      filter (\<lambda>c. c_table c = ''agent_queue'' \<and> c_record_id c = 1) cs = []) \<and>
   (\<exists>cs. get_unified_complaints env_ok one_request no_filters = Inr cs \<and>
      agent_queue_complaint (new_row\<lparr>rid := 1, user_id := Some ''user-1'',
          status := Some ''NEW'', priority := Some ''LOW''\<rparr>) \<in> set cs)"
proof -
  let ?r = "new_row\<lparr>rid := 1, user_id := Some ''user-1'', status := Some ''NEW'',
        priority := Some ''LOW''\<rparr>"
  let ?s = "run (fst (resume_conversation env_ok 1 one_request))
           [Hide_complaint env_ok ''agent_queue'' 1,
            Update_status env_ok ''agent_queue'' 1 (Some ''NEW'')]"
  have t: "tables one_request ''agent_queue'' = Some [?r]"
    by (simp add: one_request_def store_of_def)
  have fo: "fetchone_by_id [?r] 1 = Some ?r"
    by (simp add: fetchone_by_id_def)
  have tr: "truthy (user_id ?r)" by (simp add: truthy_def)
  have ok: "rasa_pool_ok env_ok \<and> \<not> catalog_fails env_ok \<and> \<not> exec_fails env_ok ''agent_queue'' \<and>
      \<not> rasa_post_fails env_ok \<and> \<not> commit_fails env_ok \<and> \<not> rollback_fails env_ok"
    by (simp add: env_ok_def)
  have vis: "hidden ?r \<noteq> Some True \<and> resumed ?r \<noteq> Some True"
    by (simp add: new_row_def)
  from C10_resumed_never_listed [of env_ok one_request no_filters env_ok "[?r]" 1 ?r _ "[?r]" ?r]
    t fo tr ok vis
  have a: "flagged resumed (tables (fst (resume_conversation env_ok 1 one_request))) ''agent_queue'' 1"
    and b: "\<exists>cs. get_unified_complaints env_ok one_request no_filters = Inr cs \<and>
      agent_queue_complaint ?r \<in> set cs"
    by simp_all
  from ok obtain cs where cs: "get_unified_complaints env_ok ?s
      (no_filters\<lparr>show_hidden := True\<rparr>) = Inr cs"
    using get_unified_complaints_returns by blast
  from C10_resumed_never_listed [of env_ok "fst (resume_conversation env_ok 1 one_request)"
      "no_filters\<lparr>show_hidden := True\<rparr>" _ _ 1 _
      "[Hide_complaint env_ok ''agent_queue'' 1,
        Update_status env_ok ''agent_queue'' 1 (Some ''NEW'')]"] a cs
  have "\<forall>c\<in>set cs. \<not> (c_table c = ''agent_queue'' \<and> c_record_id c = 1)"
    by blast
  then have "filter (\<lambda>c. c_table c = ''agent_queue'' \<and> c_record_id c = 1) cs = []"
    by (simp add: filter_empty_conv)
  with cs have c: "\<exists>cs. get_unified_complaints env_ok ?s
      (no_filters\<lparr>show_hidden := True\<rparr>) = Inr cs \<and>
      filter (\<lambda>c. c_table c = ''agent_queue'' \<and> c_record_id c = 1) cs = []"
    by blast
  from a c b show ?thesis by blast
qed

section \<open>Status update\<close>

lemma fetchone_by_id_None_iff:
  "fetchone_by_id rows i = None \<longleftrightarrow> \<not> list_ex (\<lambda>r. rid r = i) rows"
  by (auto simp: fetchone_by_id_def find_None_iff list_ex_iff)

lemma rowcount_pos: "fetchone_by_id rows i = Some r \<Longrightarrow> rowcount rows i \<noteq> 0"
proof -
  assume "fetchone_by_id rows i = Some r"
  then have "r \<in> set rows \<and> rid r = i" by (rule fetchone_by_id_Some)
  then have "r \<in> set (filter (\<lambda>r. rid r = i) rows)" by simp
  then have "filter (\<lambda>r. rid r = i) rows \<noteq> []" by (metis empty_iff empty_set)
  then show ?thesis by (simp add: rowcount_def)
qed

lemma invalid_status_message:
  "str_join '', '' valid_statuses = ''NEW, ASSIGNED, IN_PROGRESS, RESOLVED''"
  by (simp add: valid_statuses_def)

lemma update_status_rejects:
  assumes "str_upper (str_strip (coalesce st '''')) \<notin> set valid_statuses"
  shows "update_status e t i st s =
     (s, failure (if str_upper (str_strip (coalesce st '''')) = [] then ''Status is required''
                  else ''Invalid status. Must be one of: NEW, ASSIGNED, IN_PROGRESS, RESOLVED'')
           200)"
  using assms by (simp add: update_status_def Let_def invalid_status_message)

lemma update_status_not_found:
  assumes "str_upper (str_strip (coalesce st '''')) \<in> set valid_statuses"
    and "rasa_pool_ok e" "\<not> exec_fails e t" "tables s t = Some rows"
    and "fetchone_by_id rows i = None"
  shows "update_status e t i st s = (s, failure ''Record not found'' 200)"
proof -
  from assms(1) have ne: "str_upper (str_strip (coalesce st '''')) \<noteq> []"
    by (auto simp: valid_statuses_def)
  from assms(3,4) have "table_rows e s t = Inr rows" by (simp add: table_rows_def)
  with assms(1,2,5) ne show ?thesis by (simp add: update_status_def Let_def)
qed

lemma update_status_persists:
  assumes "str_upper (str_strip (coalesce st '''')) \<in> set valid_statuses"
    and "rasa_pool_ok e" "\<not> exec_fails e t" "\<not> commit_fails e" "tables s t = Some rows"
    and "fetchone_by_id rows i = Some r"
  shows "update_status e t i st s =
     (broadcast_status_update e t i (status r) (str_upper (str_strip (coalesce st '''')))
        (set_table s t
           (update_where_id (\<lambda>r. r\<lparr>status := Some (str_upper (str_strip (coalesce st '''')))\<rparr>)
              i rows)),
      succeeded [(''message'', ''Status updated to '' @ str_upper (str_strip (coalesce st ''''))),
                 (''new_status'', str_upper (str_strip (coalesce st ''''))),
                 (''table'', t)])"
proof -
  from assms(1) have ne: "str_upper (str_strip (coalesce st '''')) \<noteq> []"
    by (auto simp: valid_statuses_def)
  from assms(3,5) have tr: "table_rows e s t = Inr rows" by (simp add: table_rows_def)
  from assms(6) have rc: "rowcount rows i \<noteq> 0" by (rule rowcount_pos)
  from assms(1,2,4,6) ne tr rc show ?thesis by (simp add: update_status_def Let_def)
qed

lemma status_after_update:
  "list_all (\<lambda>r. rid r = i \<longrightarrow> status r = Some x)
     (update_where_id (\<lambda>r. r\<lparr>status := Some x\<rparr>) i rows)"
  by (induction rows) (simp_all add: update_where_id_def)

text \<open>
  Claim C7, as the code has it. The status sent is trimmed and upper-cased first. When
  the result is not one of NEW, ASSIGNED, IN_PROGRESS, RESOLVED the request is
  rejected with the state untouched: with the message "Status is required" when it is
  empty and with the invalid-status message otherwise, neither of which is the
  record-not-found message. When it is valid and the table has no row with the key,
  the answer is "Record not found" and the state is untouched. When it is valid, the
  row exists and nothing fails, the call succeeds, every row with the key has the new
  status, and one status-update event with the old and the new status is emitted.
\<close>

theorem C7_update_status:
  "(str_upper (str_strip (coalesce st '''')) \<notin> set valid_statuses \<longrightarrow>
      fst (update_status e t i st s) = s \<and>
      \<not> success (snd (update_status e t i st s)) \<and>
      error (snd (update_status e t i st s)) =
        Some (Message (if str_upper (str_strip (coalesce st '''')) = [] then ''Status is required''
                       else ''Invalid status. Must be one of: NEW, ASSIGNED, IN_PROGRESS, RESOLVED'')) \<and>
      error (snd (update_status e t i st s)) \<noteq> Some (Message ''Record not found'')) \<and>
   (str_upper (str_strip (coalesce st '''')) \<in> set valid_statuses \<and> rasa_pool_ok e \<and>
    \<not> exec_fails e t \<and> tables s t = Some rows \<and> fetchone_by_id rows i = None \<longrightarrow>
      update_status e t i st s = (s, failure ''Record not found'' 200)) \<and>
   (str_upper (str_strip (coalesce st '''')) \<in> set valid_statuses \<and> rasa_pool_ok e \<and>
    \<not> exec_fails e t \<and> \<not> commit_fails e \<and> \<not> emit_fails e \<and> tables s t = Some rows \<and>
    fetchone_by_id rows i = Some r \<longrightarrow>
      success (snd (update_status e t i st s)) \<and>
      tables (fst (update_status e t i st s)) t =
        Some (update_where_id
                (\<lambda>r. r\<lparr>status := Some (str_upper (str_strip (coalesce st '''')))\<rparr>) i rows) \<and>
      list_all (\<lambda>r. rid r = i \<longrightarrow> status r = Some (str_upper (str_strip (coalesce st ''''))))
        (update_where_id
           (\<lambda>r. r\<lparr>status := Some (str_upper (str_strip (coalesce st '''')))\<rparr>) i rows) \<and>
      emitted (fst (update_status e t i st s)) =
        emitted s @ [Status_update t i (status r) (str_upper (str_strip (coalesce st '''')))])"
proof -
  let ?n = "str_upper (str_strip (coalesce st ''''))"
  have a: "?n \<notin> set valid_statuses \<longrightarrow>
      fst (update_status e t i st s) = s \<and>
      \<not> success (snd (update_status e t i st s)) \<and>
      error (snd (update_status e t i st s)) =
        Some (Message (if ?n = [] then ''Status is required''
                       else ''Invalid status. Must be one of: NEW, ASSIGNED, IN_PROGRESS, RESOLVED'')) \<and>
      error (snd (update_status e t i st s)) \<noteq> Some (Message ''Record not found'')"
  proof
    assume "?n \<notin> set valid_statuses"
    then have "update_status e t i st s =
       (s, failure (if ?n = [] then ''Status is required''
                    else ''Invalid status. Must be one of: NEW, ASSIGNED, IN_PROGRESS, RESOLVED'')
             200)"
      by (rule update_status_rejects)
    then show "fst (update_status e t i st s) = s \<and>
      \<not> success (snd (update_status e t i st s)) \<and>
      error (snd (update_status e t i st s)) =
        Some (Message (if ?n = [] then ''Status is required''
                       else ''Invalid status. Must be one of: NEW, ASSIGNED, IN_PROGRESS, RESOLVED'')) \<and>
      error (snd (update_status e t i st s)) \<noteq> Some (Message ''Record not found'')"
      by (simp add: failure_def)
  qed
  have b: "?n \<in> set valid_statuses \<and> rasa_pool_ok e \<and>
    \<not> exec_fails e t \<and> tables s t = Some rows \<and> fetchone_by_id rows i = None \<longrightarrow>
      update_status e t i st s = (s, failure ''Record not found'' 200)"
    using update_status_not_found by blast
  have c: "?n \<in> set valid_statuses \<and> rasa_pool_ok e \<and>
    \<not> exec_fails e t \<and> \<not> commit_fails e \<and> \<not> emit_fails e \<and> tables s t = Some rows \<and>
    fetchone_by_id rows i = Some r \<longrightarrow>
      success (snd (update_status e t i st s)) \<and>
      tables (fst (update_status e t i st s)) t =
        Some (update_where_id (\<lambda>r. r\<lparr>status := Some ?n\<rparr>) i rows) \<and>
      list_all (\<lambda>r. rid r = i \<longrightarrow> status r = Some ?n)
        (update_where_id (\<lambda>r. r\<lparr>status := Some ?n\<rparr>) i rows) \<and>
      emitted (fst (update_status e t i st s)) = emitted s @ [Status_update t i (status r) ?n]"
  proof
    assume h: "?n \<in> set valid_statuses \<and> rasa_pool_ok e \<and>
      \<not> exec_fails e t \<and> \<not> commit_fails e \<and> \<not> emit_fails e \<and> tables s t = Some rows \<and>
      fetchone_by_id rows i = Some r"
    then have "update_status e t i st s =
     (broadcast_status_update e t i (status r) ?n
        (set_table s t (update_where_id (\<lambda>r. r\<lparr>status := Some ?n\<rparr>) i rows)),
      succeeded [(''message'', ''Status updated to '' @ ?n), (''new_status'', ?n), (''table'', t)])"
      by (intro update_status_persists) simp_all
    with h show "success (snd (update_status e t i st s)) \<and>
      tables (fst (update_status e t i st s)) t =
        Some (update_where_id (\<lambda>r. r\<lparr>status := Some ?n\<rparr>) i rows) \<and>
      list_all (\<lambda>r. rid r = i \<longrightarrow> status r = Some ?n)
        (update_where_id (\<lambda>r. r\<lparr>status := Some ?n\<rparr>) i rows) \<and>
      emitted (fst (update_status e t i st s)) = emitted s @ [Status_update t i (status r) ?n]"
      by (simp add: succeeded_def broadcast_status_update_def set_table_def status_after_update)
  qed
  show ?thesis by (rule conjI [OF a conjI [OF b c]])
qed

theorem C7_update_status_witness:
  "fst (update_status env_ok ''meter_concern'' 1 (Some ''DONE'') one_meter_concern) =
     one_meter_concern \<and>
   error (snd (update_status env_ok ''meter_concern'' 1 (Some ''DONE'') one_meter_concern)) =
     Some (Message ''Invalid status. Must be one of: NEW, ASSIGNED, IN_PROGRESS, RESOLVED'') \<and>
   update_status env_ok ''meter_concern'' 2 (Some ''RESOLVED'') one_meter_concern =
     (one_meter_concern, failure ''Record not found'' 200) \<and>
   success (snd (update_status env_ok ''meter_concern'' 1 (Some ''RESOLVED'') one_meter_concern)) \<and>
   emitted (fst (update_status env_ok ''meter_concern'' 1 (Some ''RESOLVED'') one_meter_concern)) =
     [Status_update ''meter_concern'' 1 (Some ''PENDING'') ''RESOLVED'']"
proof -
  have n1: "str_upper (str_strip (coalesce (Some ''DONE'') '''')) = ''DONE''" by code_simp
  have n2: "str_upper (str_strip (coalesce (Some ''RESOLVED'') '''')) = ''RESOLVED''" by code_simp
  have t: "tables one_meter_concern ''meter_concern'' = Some [filed_meter_concern]"
    by (simp add: one_meter_concern_def store_of_def)
  have f1: "fetchone_by_id [filed_meter_concern] 1 = Some filed_meter_concern"
    by (simp add: fetchone_by_id_def filed_meter_concern_def)
  have f2: "fetchone_by_id [filed_meter_concern] 2 = None"
    by (simp add: fetchone_by_id_def filed_meter_concern_def)
  have ok: "rasa_pool_ok env_ok \<and> \<not> exec_fails env_ok ''meter_concern'' \<and>
      \<not> commit_fails env_ok \<and> \<not> emit_fails env_ok"
    by (simp add: env_ok_def)
  have em: "emitted one_meter_concern = []" by (simp add: one_meter_concern_def store_of_def)
  have st: "status filed_meter_concern = Some ''PENDING''" by (simp add: filed_meter_concern_def)
  from C7_update_status [of "Some ''DONE''" env_ok "''meter_concern''" 1 one_meter_concern] n1
  have a: "fst (update_status env_ok ''meter_concern'' 1 (Some ''DONE'') one_meter_concern) =
     one_meter_concern \<and>
   error (snd (update_status env_ok ''meter_concern'' 1 (Some ''DONE'') one_meter_concern)) =
     Some (Message ''Invalid status. Must be one of: NEW, ASSIGNED, IN_PROGRESS, RESOLVED'')"
    by (simp add: valid_statuses_def)
  from C7_update_status [of "Some ''RESOLVED''" env_ok "''meter_concern''" 2 one_meter_concern
      "[filed_meter_concern]"] n2 t f2 ok
  have b: "update_status env_ok ''meter_concern'' 2 (Some ''RESOLVED'') one_meter_concern =
     (one_meter_concern, failure ''Record not found'' 200)"
    by (simp add: valid_statuses_def)
  from C7_update_status [of "Some ''RESOLVED''" env_ok "''meter_concern''" 1 one_meter_concern
      "[filed_meter_concern]" filed_meter_concern] n2 t f1 ok em st
  have c: "success (snd (update_status env_ok ''meter_concern'' 1 (Some ''RESOLVED'') one_meter_concern)) \<and>
   emitted (fst (update_status env_ok ''meter_concern'' 1 (Some ''RESOLVED'') one_meter_concern)) =
     [Status_update ''meter_concern'' 1 (Some ''PENDING'') ''RESOLVED'']"
    by (simp add: valid_statuses_def)
  from a b c show ?thesis by blast
qed

text \<open>Where the claim as worded fails: \<open>resolved\<close> in lower case is not one of
  the four strings, yet it is accepted and stored as \<open>RESOLVED\<close>.\<close>

theorem C7_counterexample:
  "''resolved'' \<notin> set valid_statuses \<and>
   success (snd (update_status env_ok ''meter_concern'' 1 (Some ''resolved'') one_meter_concern)) \<and>
   map_option (map status)
     (tables (fst (update_status env_ok ''meter_concern'' 1 (Some ''resolved'') one_meter_concern))
        ''meter_concern'') = Some [Some ''RESOLVED'']"
  by code_simp

section \<open>Hiding\<close>

lemma hide_rows_twice:
  "update_where_id (\<lambda>r. r\<lparr>hidden := Some True\<rparr>) i
     (update_where_id (\<lambda>r. r\<lparr>hidden := Some True\<rparr>) i rows) =
   update_where_id (\<lambda>r. r\<lparr>hidden := Some True\<rparr>) i rows"
  by (induction rows) (simp_all add: update_where_id_def)

lemma hidden_after_update:
  "list_all (\<lambda>r. rid r = i \<longrightarrow> hidden r = Some True)
     (update_where_id (\<lambda>r. r\<lparr>hidden := Some True\<rparr>) i rows)"
  by (induction rows) (simp_all add: update_where_id_def)

lemma list_ex_hide_rows:
  "list_ex (\<lambda>r. rid r = i) (update_where_id (\<lambda>r. r\<lparr>hidden := Some True\<rparr>) j rows) =
   list_ex (\<lambda>r. rid r = i) rows"
  by (simp add: list_ex_rid rid_update_where_id)

lemma set_table_twice: "set_table (set_table s t rows) t rows' = set_table s t rows'"
  by (simp add: set_table_def)

lemma hide_complaint_found:
  assumes "rasa_pool_ok e" "\<not> catalog_fails e" "\<not> exec_fails e t" "\<not> commit_fails e"
    "tables s t = Some rows" "list_ex (\<lambda>r. rid r = i) rows"
  shows "hide_complaint e t i s =
     (set_table s t (update_where_id (\<lambda>r. r\<lparr>hidden := Some True\<rparr>) i rows),
      succeeded [(''message'',
        ''Complaint hidden successfully (can be shown again with Show Hidden checkbox)'')])"
proof -
  from assms(3,5) have tr: "table_rows e s t = Inr rows" by (simp add: table_rows_def)
  from assms(5) have te: "table_exists s t" by (simp add: table_exists_def)
  from assms(6) obtain r where fo: "fetchone_by_id rows i = Some r"
    using fetchone_by_id_None_iff [of rows i] by (cases "fetchone_by_id rows i") auto
  from assms(1,2,4) tr te fo show ?thesis by (simp add: hide_complaint_def)
qed

lemma hide_complaint_not_found:
  assumes "rasa_pool_ok e" "\<not> catalog_fails e" "\<not> exec_fails e t"
    "tables s t = Some rows" "\<not> list_ex (\<lambda>r. rid r = i) rows"
  shows "hide_complaint e t i s = (s, failure ''Complaint not found'' 404)"
proof -
  from assms(3,4) have tr: "table_rows e s t = Inr rows" by (simp add: table_rows_def)
  from assms(4) have te: "table_exists s t" by (simp add: table_exists_def)
  from assms(5) have fo: "fetchone_by_id rows i = None" by (simp add: fetchone_by_id_None_iff)
  from assms(1,2) tr te fo show ?thesis by (simp add: hide_complaint_def)
qed

lemma delete_complaint_found:
  assumes "t \<in> set allowed_tables" "rasa_pool_ok e" "\<not> exec_fails e t" "\<not> commit_fails e"
    "tables s t = Some rows" "list_ex (\<lambda>r. rid r = i) rows"
  shows "delete_complaint e t (Some i) s =
     (set_table s t (update_where_id (\<lambda>r. r\<lparr>hidden := Some True\<rparr>) i rows),
      succeeded [(''message'', ''Complaint removed successfully''), (''table'', t)])"
proof -
  from assms(3,5) have tr: "table_rows e s t = Inr rows" by (simp add: table_rows_def)
  from assms(6) obtain r where fo: "fetchone_by_id rows i = Some r"
    using fetchone_by_id_None_iff [of rows i] by (cases "fetchone_by_id rows i") auto
  from fo have rc: "rowcount rows i \<noteq> 0" by (rule rowcount_pos)
  from assms(1,2,4) tr fo rc show ?thesis by (simp add: delete_complaint_def)
qed

lemma delete_complaint_not_found:
  assumes "t \<in> set allowed_tables" "rasa_pool_ok e" "\<not> exec_fails e t"
    "tables s t = Some rows" "\<not> list_ex (\<lambda>r. rid r = i) rows"
  shows "delete_complaint e t (Some i) s = (s, failure ''Record not found'' 404)"
proof -
  from assms(3,4) have tr: "table_rows e s t = Inr rows" by (simp add: table_rows_def)
  from assms(5) have fo: "fetchone_by_id rows i = None" by (simp add: fetchone_by_id_None_iff)
  from assms(1,2) tr fo show ?thesis by (simp add: delete_complaint_def)
qed

lemma flagged_hidden_after:
  assumes "list_ex (\<lambda>r. rid r = i) rows"
  shows "flagged hidden
     (tables (set_table s t (update_where_id (\<lambda>r. r\<lparr>hidden := Some True\<rparr>) i rows))) t i"
  using assms by (simp add: flagged_def set_table_def list_ex_hide_rows hidden_after_update)

lemma hide_complaint_again:
  assumes "rasa_pool_ok e" "\<not> catalog_fails e" "\<not> exec_fails e t" "\<not> commit_fails e"
    "tables s t = Some rows" "list_ex (\<lambda>r. rid r = i) rows"
  shows "hide_complaint e t i (fst (hide_complaint e t i s)) = hide_complaint e t i s"
proof -
  let ?rows' = "update_where_id (\<lambda>r. r\<lparr>hidden := Some True\<rparr>) i rows"
  let ?s' = "set_table s t ?rows'"
  from assms have h1: "hide_complaint e t i s = (?s',
      succeeded [(''message'',
        ''Complaint hidden successfully (can be shown again with Show Hidden checkbox)'')])"
    by (rule hide_complaint_found)
  have t': "tables ?s' t = Some ?rows'" by (simp add: set_table_def)
  from assms(6) have ex': "list_ex (\<lambda>r. rid r = i) ?rows'" by (simp add: list_ex_hide_rows)
  from assms(1-4) t' ex'
  have "hide_complaint e t i ?s' =
     (set_table ?s' t (update_where_id (\<lambda>r. r\<lparr>hidden := Some True\<rparr>) i ?rows'),
      succeeded [(''message'',
        ''Complaint hidden successfully (can be shown again with Show Hidden checkbox)'')])"
    by (rule hide_complaint_found)
  with h1 show ?thesis by (simp add: hide_rows_twice set_table_twice)
qed

lemma flagged_hidden_run:
  assumes "flagged hidden (tables s) t i"
  shows "flagged hidden (tables (run s ops)) t i"
  using evolves_run [of s ops] assms by (rule flagged_evolves) simp

text \<open>
  Claim C8. When nothing fails and the table has a row with the key, \<open>hide_complaint\<close>
  reports success and leaves every row with that key hidden, whether or not it was
  hidden before; a second call gives the same state and the same answer; and
  \<open>delete_complaint\<close> on a family table reports success and gives the same state. When
  the table has no row with the key, both answer with their not-found error (status
  404) and change nothing. Over any run of the operations, a record that is hidden
  stays hidden.
\<close>

theorem C8_hide_idempotent_one_way:
  "(rasa_pool_ok e \<and> \<not> catalog_fails e \<and> \<not> exec_fails e t \<and> \<not> commit_fails e \<and>
    tables s t = Some rows \<and> list_ex (\<lambda>r. rid r = i) rows \<longrightarrow>
      success (snd (hide_complaint e t i s)) \<and>
      flagged hidden (tables (fst (hide_complaint e t i s))) t i \<and>
      hide_complaint e t i (fst (hide_complaint e t i s)) = hide_complaint e t i s \<and>
      (t \<in> set allowed_tables \<longrightarrow>
         success (snd (delete_complaint e t (Some i) s)) \<and>
         fst (delete_complaint e t (Some i) s) = fst (hide_complaint e t i s))) \<and>
   (rasa_pool_ok e \<and> \<not> catalog_fails e \<and> \<not> exec_fails e t \<and>
    tables s t = Some rows \<and> \<not> list_ex (\<lambda>r. rid r = i) rows \<longrightarrow>
      hide_complaint e t i s = (s, failure ''Complaint not found'' 404) \<and>
      (t \<in> set allowed_tables \<longrightarrow>
         delete_complaint e t (Some i) s = (s, failure ''Record not found'' 404))) \<and>
   (flagged hidden (tables s) t i \<longrightarrow> flagged hidden (tables (run s ops)) t i)"
proof -
  have a: "rasa_pool_ok e \<and> \<not> catalog_fails e \<and> \<not> exec_fails e t \<and> \<not> commit_fails e \<and>
    tables s t = Some rows \<and> list_ex (\<lambda>r. rid r = i) rows \<longrightarrow>
      success (snd (hide_complaint e t i s)) \<and>
      flagged hidden (tables (fst (hide_complaint e t i s))) t i \<and>
      hide_complaint e t i (fst (hide_complaint e t i s)) = hide_complaint e t i s \<and>
      (t \<in> set allowed_tables \<longrightarrow>
         success (snd (delete_complaint e t (Some i) s)) \<and>
         fst (delete_complaint e t (Some i) s) = fst (hide_complaint e t i s))"
  proof
    assume h: "rasa_pool_ok e \<and> \<not> catalog_fails e \<and> \<not> exec_fails e t \<and> \<not> commit_fails e \<and>
      tables s t = Some rows \<and> list_ex (\<lambda>r. rid r = i) rows"
    then have hc: "hide_complaint e t i s =
       (set_table s t (update_where_id (\<lambda>r. r\<lparr>hidden := Some True\<rparr>) i rows),
        succeeded [(''message'',
          ''Complaint hidden successfully (can be shown again with Show Hidden checkbox)'')])"
      by (intro hide_complaint_found) simp_all
    from h have again: "hide_complaint e t i (fst (hide_complaint e t i s)) = hide_complaint e t i s"
      using hide_complaint_again [of e t s rows i] by blast
    from h have fl: "flagged hidden
       (tables (set_table s t (update_where_id (\<lambda>r. r\<lparr>hidden := Some True\<rparr>) i rows))) t i"
      by (intro flagged_hidden_after) blast
    have del: "t \<in> set allowed_tables \<longrightarrow>
         success (snd (delete_complaint e t (Some i) s)) \<and>
         fst (delete_complaint e t (Some i) s) = fst (hide_complaint e t i s)"
    proof
      assume "t \<in> set allowed_tables"
      with h have "delete_complaint e t (Some i) s =
         (set_table s t (update_where_id (\<lambda>r. r\<lparr>hidden := Some True\<rparr>) i rows),
          succeeded [(''message'', ''Complaint removed successfully''), (''table'', t)])"
        by (intro delete_complaint_found) simp_all
      with hc show "success (snd (delete_complaint e t (Some i) s)) \<and>
         fst (delete_complaint e t (Some i) s) = fst (hide_complaint e t i s)"
        by (simp add: succeeded_def)
    qed
    from hc fl again del
    show "success (snd (hide_complaint e t i s)) \<and>
      flagged hidden (tables (fst (hide_complaint e t i s))) t i \<and>
      hide_complaint e t i (fst (hide_complaint e t i s)) = hide_complaint e t i s \<and>
      (t \<in> set allowed_tables \<longrightarrow>
         success (snd (delete_complaint e t (Some i) s)) \<and>
         fst (delete_complaint e t (Some i) s) = fst (hide_complaint e t i s))"
      by (simp add: succeeded_def)
  qed
  have b: "rasa_pool_ok e \<and> \<not> catalog_fails e \<and> \<not> exec_fails e t \<and>
    tables s t = Some rows \<and> \<not> list_ex (\<lambda>r. rid r = i) rows \<longrightarrow>
      hide_complaint e t i s = (s, failure ''Complaint not found'' 404) \<and>
      (t \<in> set allowed_tables \<longrightarrow>
         delete_complaint e t (Some i) s = (s, failure ''Record not found'' 404))"
    using hide_complaint_not_found delete_complaint_not_found by blast
  have c: "flagged hidden (tables s) t i \<longrightarrow> flagged hidden (tables (run s ops)) t i"
    using flagged_hidden_run by blast
  show ?thesis by (rule conjI [OF a conjI [OF b c]])
qed

theorem C8_hide_idempotent_one_way_witness:
  "success (snd (hide_complaint env_ok ''meter_concern'' 1 one_hidden_meter_concern)) \<and>
   flagged hidden
     (tables (fst (hide_complaint env_ok ''meter_concern'' 1 one_hidden_meter_concern)))
     ''meter_concern'' 1 \<and>
   success (snd (delete_complaint env_ok ''meter_concern'' (Some 1) one_hidden_meter_concern)) \<and>
   hide_complaint env_ok ''meter_concern'' 2 one_hidden_meter_concern =
     (one_hidden_meter_concern, failure ''Complaint not found'' 404) \<and>
   delete_complaint env_ok ''meter_concern'' (Some 2) one_hidden_meter_concern =
     (one_hidden_meter_concern, failure ''Record not found'' 404) \<and>
   flagged hidden
     (tables (run one_hidden_meter_concern
        [Update_status env_ok ''meter_concern'' 1 (Some ''NEW''),
         Assign_job_order env_ok ''1234567890'' ''meter_concern'' 1]))
     ''meter_concern'' 1"
proof -
  let ?r = "filed_meter_concern\<lparr>hidden := Some True\<rparr>"
  have t: "tables one_hidden_meter_concern ''meter_concern'' = Some [?r]"
    by (simp add: one_hidden_meter_concern_def store_of_def)
  have ex1: "list_ex (\<lambda>r. rid r = 1) [?r]" by (simp add: filed_meter_concern_def)
  have ex2: "\<not> list_ex (\<lambda>r. rid r = 2) [?r]" by (simp add: filed_meter_concern_def)
  have ok: "rasa_pool_ok env_ok \<and> \<not> catalog_fails env_ok \<and>
      \<not> exec_fails env_ok ''meter_concern'' \<and> \<not> commit_fails env_ok"
    by (simp add: env_ok_def)
  have al: "''meter_concern'' \<in> set allowed_tables" by (simp add: allowed_tables_def)
  have fl: "flagged hidden (tables one_hidden_meter_concern) ''meter_concern'' 1"
    by (simp add: flagged_def t filed_meter_concern_def)
  from C8_hide_idempotent_one_way [of env_ok "''meter_concern''" one_hidden_meter_concern "[?r]" 1]
    t ex1 ok al
  have a: "success (snd (hide_complaint env_ok ''meter_concern'' 1 one_hidden_meter_concern)) \<and>
   flagged hidden
     (tables (fst (hide_complaint env_ok ''meter_concern'' 1 one_hidden_meter_concern)))
     ''meter_concern'' 1 \<and>
   success (snd (delete_complaint env_ok ''meter_concern'' (Some 1) one_hidden_meter_concern))"
    by simp
  from C8_hide_idempotent_one_way [of env_ok "''meter_concern''" one_hidden_meter_concern "[?r]" 2]
    t ex2 ok al
  have b: "hide_complaint env_ok ''meter_concern'' 2 one_hidden_meter_concern =
     (one_hidden_meter_concern, failure ''Complaint not found'' 404) \<and>
   delete_complaint env_ok ''meter_concern'' (Some 2) one_hidden_meter_concern =
     (one_hidden_meter_concern, failure ''Record not found'' 404)"
    by simp
  from C8_hide_idempotent_one_way [of _ "''meter_concern''" one_hidden_meter_concern _ 1
      "[Update_status env_ok ''meter_concern'' 1 (Some ''NEW''),
        Assign_job_order env_ok ''1234567890'' ''meter_concern'' 1]"] fl
  have c: "flagged hidden
     (tables (run one_hidden_meter_concern
        [Update_status env_ok ''meter_concern'' 1 (Some ''NEW''),
         Assign_job_order env_ok ''1234567890'' ''meter_concern'' 1]))
     ''meter_concern'' 1"
    by blast
  from a b c show ?thesis by blast
qed

section \<open>Job order assignment\<close>

lemma write_then_link_cases:
  "(\<not> success (snd (write_then_link e uid t i rows jo x s)) \<and>
      fst (write_then_link e uid t i rows jo x s) = s \<and>
      (\<not> joblist_pool_ok e \<or> joblist_write_fails e)) \<or>
   (\<not> success (snd (write_then_link e uid t i rows jo x s)) \<and>
      fst (write_then_link e uid t i rows jo x s) = s\<lparr>converted := converted s @ [jo]\<rparr> \<and>
      joblist_pool_ok e \<and> \<not> joblist_write_fails e) \<or>
   (success (snd (write_then_link e uid t i rows jo x s)) \<and>
      fst (write_then_link e uid t i rows jo x s) =
        set_table (s\<lparr>converted := converted s @ [jo]\<rparr>) t
          (update_where_id (\<lambda>r. r\<lparr>status := Some ''ASSIGNED'', job_order_id := Some uid\<rparr>) i rows) \<and>
      joblist_pool_ok e \<and> \<not> joblist_write_fails e)"
  by (simp add: write_then_link_def Let_def failure_def raised_def succeeded_def)

lemma unique_id_make_job_order [simp]: "unique_id (make_job_order uid a b c d p x) = uid"
  by (simp add: make_job_order_def)

lemma assign_job_order_no_pool:
  "\<not> rasa_pool_ok e \<Longrightarrow>
   assign_job_order e uid t i s = (s, failure ''Database connection failed'' 200)"
  by (simp add: assign_job_order_def)

lemma assign_job_order_meter_concern:
  "rasa_pool_ok e \<Longrightarrow> table_rows e s ''meter_concern'' = Inr rows \<Longrightarrow>
   fetchone_by_id rows i = Some db_row \<Longrightarrow>
   assign_job_order e uid ''meter_concern'' i s =
     write_then_link e uid ''meter_concern'' i rows
       (make_job_order uid
          (or_default (full_name db_row) ''Unknown'')
          (or_default (contact_number db_row) ''N/A'')
          (or_default (address db_row) ''N/A'')
          (or_default (concern db_row) ''Meter concern'')
          ''MEDIUM''
          (or_default (job_order_id db_row) []))
       (or_default (job_order_id db_row) []) s"
  by (simp add: assign_job_order_def Let_def)

lemma assign_job_order_agent_queue:
  "rasa_pool_ok e \<Longrightarrow> table_rows e s ''agent_queue'' = Inr rows \<Longrightarrow>
   fetchone_by_id rows i = Some db_row \<Longrightarrow>
   assign_job_order e uid ''agent_queue'' i s =
     write_then_link e uid ''agent_queue'' i rows
       (make_job_order uid
          (or_default (full_name db_row) ''Unknown'')
          (or_default (contact_number db_row) ''N/A'')
          []
          (or_default (concern db_row) ''Service request'')
          (or_default (priority db_row) ''LOW'')
          (or_default (job_order_id db_row) []))
       (or_default (job_order_id db_row) []) s"
  by (simp add: assign_job_order_def Let_def)

lemma assign_job_order_unread:
  "table_rows e s t = Inl x \<or>
   (table_rows e s t = Inr rows \<and> fetchone_by_id rows i = None) \<or>
   t \<notin> {''meter_concern'', ''agent_queue''} \<Longrightarrow>
   \<not> success (snd (assign_job_order e uid t i s)) \<and> fst (assign_job_order e uid t i s) = s"
  by (cases "t = ''power_outage_reports''"; cases "t = ''meter_concern''";
      cases "t = ''agent_queue''")
     (auto simp: assign_job_order_def failure_def raised_def split: sum.splits)

lemma assign_job_order_cases:
  "(\<not> success (snd (assign_job_order e uid t i s)) \<and> fst (assign_job_order e uid t i s) = s) \<or>
   (\<exists>rows jo x. tables s t = Some rows \<and> unique_id jo = uid \<and>
      assign_job_order e uid t i s = write_then_link e uid t i rows jo x s)"
proof (cases "rasa_pool_ok e")
  case False
  then show ?thesis by (simp add: assign_job_order_no_pool failure_def)
next
  case pool: True
  show ?thesis
  proof (cases "table_rows e s t")
    case (Inl x)
    then show ?thesis using assign_job_order_unread [of e s t x] by blast
  next
    case (Inr rows)
    then have t: "tables s t = Some rows" by (rule table_rows_Inr)
    show ?thesis
    proof (cases "fetchone_by_id rows i")
      case None
      with Inr show ?thesis using assign_job_order_unread [of e s t _ rows i] by blast
    next
      case (Some db_row)
      consider "t = ''meter_concern''" | "t = ''agent_queue''"
        | "t \<notin> {''meter_concern'', ''agent_queue''}" by blast
      then show ?thesis
      proof cases
        case 1
        with pool Inr Some t show ?thesis
          using assign_job_order_meter_concern [of e s rows i db_row uid]
            unique_id_make_job_order by blast
      next
        case 2
        with pool Inr Some t show ?thesis
          using assign_job_order_agent_queue [of e s rows i db_row uid]
            unique_id_make_job_order by blast
      next
        case 3
        then show ?thesis using assign_job_order_unread [of e s t] by blast
      qed
    qed
  qed
qed

lemma assign_job_order_link:
  assumes "tables (fst (assign_job_order e uid t i s)) \<noteq> tables s"
  shows "success (snd (assign_job_order e uid t i s)) \<and>
      (\<exists>jo. unique_id jo = uid \<and>
         converted (fst (assign_job_order e uid t i s)) = converted s @ [jo]) \<and>
      (\<exists>rows. tables s t = Some rows \<and>
         tables (fst (assign_job_order e uid t i s)) =
           (tables s)(t \<mapsto> update_where_id
              (\<lambda>r. r\<lparr>status := Some ''ASSIGNED'', job_order_id := Some uid\<rparr>) i rows))"
proof -
  from assms assign_job_order_cases [of e uid t i s]
  obtain rows jo x where t: "tables s t = Some rows" and u: "unique_id jo = uid"
    and a: "assign_job_order e uid t i s = write_then_link e uid t i rows jo x s"
    by auto
  from assms a have ne: "tables (fst (write_then_link e uid t i rows jo x s)) \<noteq> tables s"
    by simp
  with write_then_link_cases [of e uid t i rows jo x s]
  have "success (snd (write_then_link e uid t i rows jo x s)) \<and>
      fst (write_then_link e uid t i rows jo x s) =
        set_table (s\<lparr>converted := converted s @ [jo]\<rparr>) t
          (update_where_id (\<lambda>r. r\<lparr>status := Some ''ASSIGNED'', job_order_id := Some uid\<rparr>) i rows)"
    by auto
  with a t u show ?thesis by (auto simp: set_table_def)
qed

lemma assign_job_order_no_write:
  assumes "converted (fst (assign_job_order e uid t i s)) = converted s"
  shows "tables (fst (assign_job_order e uid t i s)) = tables s"
proof (rule ccontr)
  assume "tables (fst (assign_job_order e uid t i s)) \<noteq> tables s"
  then have "\<exists>jo. converted (fst (assign_job_order e uid t i s)) = converted s @ [jo]"
    using assign_job_order_link by blast
  with assms show False by simp
qed

lemma assign_job_order_joblist_fails:
  assumes "\<not> joblist_pool_ok e \<or> joblist_write_fails e"
  shows "fst (assign_job_order e uid t i s) = s \<and> \<not> success (snd (assign_job_order e uid t i s))"
proof -
  from assign_job_order_cases [of e uid t i s]
  show ?thesis
  proof
    assume "\<not> success (snd (assign_job_order e uid t i s)) \<and> fst (assign_job_order e uid t i s) = s"
    then show ?thesis by simp
  next
    assume "\<exists>rows jo x. tables s t = Some rows \<and> unique_id jo = uid \<and>
      assign_job_order e uid t i s = write_then_link e uid t i rows jo x s"
    then obtain rows jo x
      where a: "assign_job_order e uid t i s = write_then_link e uid t i rows jo x s" by blast
    from assms write_then_link_cases [of e uid t i rows jo x s]
    have "\<not> success (snd (write_then_link e uid t i rows jo x s)) \<and>
      fst (write_then_link e uid t i rows jo x s) = s" by blast
    with a show ?thesis by simp
  qed
qed

lemma assign_job_order_failure_keeps_tables:
  assumes "\<not> success (snd (assign_job_order e uid t i s))"
  shows "tables (fst (assign_job_order e uid t i s)) = tables s"
proof (rule ccontr)
  assume "tables (fst (assign_job_order e uid t i s)) \<noteq> tables s"
  then have "success (snd (assign_job_order e uid t i s))"
    using assign_job_order_link by blast
  with assms show False by simp
qed

lemma create_automatic_job_order_link:
  assumes "tables (fst (create_automatic_job_order e uid i jo s)) \<noteq> tables s"
  shows "converted (fst (create_automatic_job_order e uid i jo s)) = converted s @ [jo]"
  using assms
  by (auto simp: create_automatic_job_order_def Let_def set_table_def split: if_splits option.splits)

text \<open>
  Claim C4. In every call of \<open>assign_job_order\<close>, for any table name: if the complaint
  store changes at all, the call succeeded, the job order with the generated id has
  been added to the job order store, and the change is exactly that the rows with the
  key got status ASSIGNED and that id; if no job order was added, the complaint store
  is as before; and if the write to the job order store fails (no connection, or the
  insert raises), the whole state is as before and the call reports failure. The
  automatic job order of the web form links in the same order.
\<close>

theorem C4_write_then_link:
  "(tables (fst (assign_job_order e uid t i s)) \<noteq> tables s \<longrightarrow>
      success (snd (assign_job_order e uid t i s)) \<and>
      (\<exists>jo. unique_id jo = uid \<and>
         converted (fst (assign_job_order e uid t i s)) = converted s @ [jo]) \<and>
      (\<exists>rows. tables s t = Some rows \<and>
         tables (fst (assign_job_order e uid t i s)) =
           (tables s)(t \<mapsto> update_where_id
              (\<lambda>r. r\<lparr>status := Some ''ASSIGNED'', job_order_id := Some uid\<rparr>) i rows))) \<and>
   (converted (fst (assign_job_order e uid t i s)) = converted s \<longrightarrow>
      tables (fst (assign_job_order e uid t i s)) = tables s) \<and>
   (\<not> joblist_pool_ok e \<or> joblist_write_fails e \<longrightarrow>
      fst (assign_job_order e uid t i s) = s \<and> \<not> success (snd (assign_job_order e uid t i s))) \<and>
   (tables (fst (create_automatic_job_order e uid i jo s)) \<noteq> tables s \<longrightarrow>
      converted (fst (create_automatic_job_order e uid i jo s)) = converted s @ [jo])"
proof -
  have a: "tables (fst (assign_job_order e uid t i s)) \<noteq> tables s \<longrightarrow>
      success (snd (assign_job_order e uid t i s)) \<and>
      (\<exists>jo. unique_id jo = uid \<and>
         converted (fst (assign_job_order e uid t i s)) = converted s @ [jo]) \<and>
      (\<exists>rows. tables s t = Some rows \<and>
         tables (fst (assign_job_order e uid t i s)) =
           (tables s)(t \<mapsto> update_where_id
              (\<lambda>r. r\<lparr>status := Some ''ASSIGNED'', job_order_id := Some uid\<rparr>) i rows))"
    by (rule impI) (rule assign_job_order_link)
  have b: "converted (fst (assign_job_order e uid t i s)) = converted s \<longrightarrow>
      tables (fst (assign_job_order e uid t i s)) = tables s"
    by (rule impI) (rule assign_job_order_no_write)
  have c: "\<not> joblist_pool_ok e \<or> joblist_write_fails e \<longrightarrow>
      fst (assign_job_order e uid t i s) = s \<and> \<not> success (snd (assign_job_order e uid t i s))"
    by (rule impI) (rule assign_job_order_joblist_fails)
  have d: "tables (fst (create_automatic_job_order e uid i jo s)) \<noteq> tables s \<longrightarrow>
      converted (fst (create_automatic_job_order e uid i jo s)) = converted s @ [jo]"
    by (rule impI) (rule create_automatic_job_order_link)
  show ?thesis by (rule conjI [OF a conjI [OF b conjI [OF c d]]])
qed

theorem C4_write_then_link_witness:
  "tables (fst (assign_job_order env_ok ''1234567890'' ''meter_concern'' 1 one_meter_concern))
     \<noteq> tables one_meter_concern \<and>
   success (snd (assign_job_order env_ok ''1234567890'' ''meter_concern'' 1 one_meter_concern)) \<and>
   (\<exists>jo. unique_id jo = ''1234567890'' \<and>
      converted (fst (assign_job_order env_ok ''1234567890'' ''meter_concern'' 1 one_meter_concern))
        = converted one_meter_concern @ [jo]) \<and>
   joblist_write_fails env_joblist_down \<and>
   fst (assign_job_order env_joblist_down ''1234567890'' ''meter_concern'' 1 one_meter_concern)
     = one_meter_concern"
proof -
  have v1: "map_option (map job_order_id)
      (tables (fst (assign_job_order env_ok ''1234567890'' ''meter_concern'' 1 one_meter_concern))
         ''meter_concern'') = Some [Some ''1234567890'']"
    by code_simp
  have v2: "map_option (map job_order_id) (tables one_meter_concern ''meter_concern'') =
      Some [Some ''JO-20240101-1234'']"
    by code_simp
  have ne: "tables (fst (assign_job_order env_ok ''1234567890'' ''meter_concern'' 1 one_meter_concern))
     \<noteq> tables one_meter_concern"
  proof
    assume "tables (fst (assign_job_order env_ok ''1234567890'' ''meter_concern'' 1
        one_meter_concern)) = tables one_meter_concern"
    with v1 v2 show False by simp
  qed
  have jf: "joblist_write_fails env_joblist_down" by (simp add: env_joblist_down_def)
  from C4_write_then_link [of env_ok "''1234567890''" "''meter_concern''" 1 one_meter_concern] ne
  have a: "success (snd (assign_job_order env_ok ''1234567890'' ''meter_concern'' 1 one_meter_concern)) \<and>
   (\<exists>jo. unique_id jo = ''1234567890'' \<and>
      converted (fst (assign_job_order env_ok ''1234567890'' ''meter_concern'' 1 one_meter_concern))
        = converted one_meter_concern @ [jo])"
    by blast
  from C4_write_then_link [of env_joblist_down "''1234567890''" "''meter_concern''" 1
      one_meter_concern] jf
  have b: "fst (assign_job_order env_joblist_down ''1234567890'' ''meter_concern'' 1
      one_meter_concern) = one_meter_concern"
    by blast
  from ne a jf b show ?thesis by blast
qed

lemma assigned_after_update:
  "list_all (\<lambda>r. rid r = i \<longrightarrow> job_order_id r = Some uid \<and> status r = Some ''ASSIGNED'')
     (update_where_id (\<lambda>r. r\<lparr>status := Some ''ASSIGNED'', job_order_id := Some uid\<rparr>) i rows)"
  by (induction rows) (simp_all add: update_where_id_def)

lemma write_then_link_succeeds:
  assumes "joblist_pool_ok e" "\<not> joblist_write_fails e" "\<not> commit_fails e"
    "fetchone_by_id rows i = Some r"
  shows "write_then_link e uid t i rows jo x s =
     (set_table (s\<lparr>converted := converted s @ [jo]\<rparr>) t
        (update_where_id (\<lambda>r. r\<lparr>status := Some ''ASSIGNED'', job_order_id := Some uid\<rparr>) i rows),
      succeeded [(''message'', ''Job order assigned successfully''),
                 (''converted_unique_id'', uid),
                 (''original_job_order_id'', x),
                 (''customer_name'', jo_name jo),
                 (''location'', location jo),
                 (''new_status'', ''ASSIGNED'')])"
proof -
  from assms(4) have "rowcount rows i \<noteq> 0" by (rule rowcount_pos)
  with assms(1-3) show ?thesis by (simp add: write_then_link_def Let_def)
qed

lemma jo_notes_existing:
  "x \<noteq> [] \<Longrightarrow>
   take (length (''Original Job Order: '' @ x)) (jo_notes (make_job_order uid a b c d p x)) =
     ''Original Job Order: '' @ x"
  by (simp add: make_job_order_def)

lemma assign_job_order_reassign:
  assumes "t = ''meter_concern'' \<or> t = ''agent_queue''"
    and "rasa_pool_ok e" "\<not> exec_fails e t" "joblist_pool_ok e" "\<not> joblist_write_fails e"
    "\<not> commit_fails e" "tables s t = Some rows" "fetchone_by_id rows i = Some r"
    "job_order_id r = Some j" "j \<noteq> []"
  shows "\<exists>jo. unique_id jo = uid \<and>
      take (length (''Original Job Order: '' @ j)) (jo_notes jo) = ''Original Job Order: '' @ j \<and>
      assign_job_order e uid t i s =
        (set_table (s\<lparr>converted := converted s @ [jo]\<rparr>) t
           (update_where_id (\<lambda>r. r\<lparr>status := Some ''ASSIGNED'', job_order_id := Some uid\<rparr>) i rows),
         succeeded [(''message'', ''Job order assigned successfully''),
                    (''converted_unique_id'', uid),
                    (''original_job_order_id'', j),
                    (''customer_name'', jo_name jo),
                    (''location'', location jo),
                    (''new_status'', ''ASSIGNED'')])"
proof -
  from assms(3,7) have tr: "table_rows e s t = Inr rows" by (simp add: table_rows_def)
  from assms(9,10) have x: "or_default (job_order_id r) [] = j" by (simp add: or_default_def)
  from assms(1) show ?thesis
  proof
    assume mc: "t = ''meter_concern''"
    let ?jo = "make_job_order uid (or_default (full_name r) ''Unknown'')
          (or_default (contact_number r) ''N/A'') (or_default (address r) ''N/A'')
          (or_default (concern r) ''Meter concern'') ''MEDIUM'' j"
    from mc tr assms(2,8) x
    have "assign_job_order e uid t i s = write_then_link e uid t i rows ?jo j s"
      using assign_job_order_meter_concern [of e s rows i r uid] by simp
    with assms(4-6,8) have "assign_job_order e uid t i s =
        (set_table (s\<lparr>converted := converted s @ [?jo]\<rparr>) t
           (update_where_id (\<lambda>r. r\<lparr>status := Some ''ASSIGNED'', job_order_id := Some uid\<rparr>) i rows),
         succeeded [(''message'', ''Job order assigned successfully''),
                    (''converted_unique_id'', uid),
                    (''original_job_order_id'', j),
                    (''customer_name'', jo_name ?jo),
                    (''location'', location ?jo),
                    (''new_status'', ''ASSIGNED'')])"
      by (simp add: write_then_link_succeeds)
    with assms(10) show ?thesis
      using jo_notes_existing unique_id_make_job_order by blast
  next
    assume aq: "t = ''agent_queue''"
    let ?jo = "make_job_order uid (or_default (full_name r) ''Unknown'')
          (or_default (contact_number r) ''N/A'') []
          (or_default (concern r) ''Service request'') (or_default (priority r) ''LOW'') j"
    from aq tr assms(2,8) x
    have "assign_job_order e uid t i s = write_then_link e uid t i rows ?jo j s"
      using assign_job_order_agent_queue [of e s rows i r uid] by simp
    with assms(4-6,8) have "assign_job_order e uid t i s =
        (set_table (s\<lparr>converted := converted s @ [?jo]\<rparr>) t
           (update_where_id (\<lambda>r. r\<lparr>status := Some ''ASSIGNED'', job_order_id := Some uid\<rparr>) i rows),
         succeeded [(''message'', ''Job order assigned successfully''),
                    (''converted_unique_id'', uid),
                    (''original_job_order_id'', j),
                    (''customer_name'', jo_name ?jo),
                    (''location'', location ?jo),
                    (''new_status'', ''ASSIGNED'')])"
      by (simp add: write_then_link_succeeds)
    with assms(10) show ?thesis
      using jo_notes_existing unique_id_make_job_order by blast
  qed
qed

text \<open>
  Claim C2, as the code has it. For a meter concern or an agent-queue request whose
  \<open>job_order_id\<close> is already set, a call of \<open>assign_job_order\<close> during which nothing
  fails succeeds and replaces \<open>job_order_id\<close> by the newly generated id on every row
  with the key (with status ASSIGNED); the job order it writes has notes that start
  with "Original Job Order: " and the previous id, which the response also returns as
  \<open>original_job_order_id\<close>. A call that reports failure leaves the complaint store
  as it was.
\<close>

theorem C2_reassignment_overwrites:
  "((t = ''meter_concern'' \<or> t = ''agent_queue'') \<and> rasa_pool_ok e \<and> \<not> exec_fails e t \<and>
    joblist_pool_ok e \<and> \<not> joblist_write_fails e \<and> \<not> commit_fails e \<and>
    tables s t = Some rows \<and> fetchone_by_id rows i = Some r \<and>
    job_order_id r = Some j \<and> j \<noteq> [] \<longrightarrow>
      success (snd (assign_job_order e uid t i s)) \<and>
      tables (fst (assign_job_order e uid t i s)) t =
        Some (update_where_id
                (\<lambda>r. r\<lparr>status := Some ''ASSIGNED'', job_order_id := Some uid\<rparr>) i rows) \<and>
      list_all (\<lambda>r. rid r = i \<longrightarrow> job_order_id r = Some uid \<and> status r = Some ''ASSIGNED'')
        (update_where_id
           (\<lambda>r. r\<lparr>status := Some ''ASSIGNED'', job_order_id := Some uid\<rparr>) i rows) \<and>
      (\<exists>jo. unique_id jo = uid \<and>
         converted (fst (assign_job_order e uid t i s)) = converted s @ [jo] \<and>
         take (length (''Original Job Order: '' @ j)) (jo_notes jo) =
           ''Original Job Order: '' @ j) \<and>
      map_of (payload (snd (assign_job_order e uid t i s))) ''original_job_order_id'' = Some j) \<and>
   (\<not> success (snd (assign_job_order e uid t i s)) \<longrightarrow>
      tables (fst (assign_job_order e uid t i s)) = tables s)"
proof -
  have a: "(t = ''meter_concern'' \<or> t = ''agent_queue'') \<and> rasa_pool_ok e \<and> \<not> exec_fails e t \<and>
    joblist_pool_ok e \<and> \<not> joblist_write_fails e \<and> \<not> commit_fails e \<and>
    tables s t = Some rows \<and> fetchone_by_id rows i = Some r \<and>
    job_order_id r = Some j \<and> j \<noteq> [] \<longrightarrow>
      success (snd (assign_job_order e uid t i s)) \<and>
      tables (fst (assign_job_order e uid t i s)) t =
        Some (update_where_id
                (\<lambda>r. r\<lparr>status := Some ''ASSIGNED'', job_order_id := Some uid\<rparr>) i rows) \<and>
      list_all (\<lambda>r. rid r = i \<longrightarrow> job_order_id r = Some uid \<and> status r = Some ''ASSIGNED'')
        (update_where_id
           (\<lambda>r. r\<lparr>status := Some ''ASSIGNED'', job_order_id := Some uid\<rparr>) i rows) \<and>
      (\<exists>jo. unique_id jo = uid \<and>
         converted (fst (assign_job_order e uid t i s)) = converted s @ [jo] \<and>
         take (length (''Original Job Order: '' @ j)) (jo_notes jo) =
           ''Original Job Order: '' @ j) \<and>
      map_of (payload (snd (assign_job_order e uid t i s))) ''original_job_order_id'' = Some j"
  proof
    assume h: "(t = ''meter_concern'' \<or> t = ''agent_queue'') \<and> rasa_pool_ok e \<and>
      \<not> exec_fails e t \<and> joblist_pool_ok e \<and> \<not> joblist_write_fails e \<and> \<not> commit_fails e \<and>
      tables s t = Some rows \<and> fetchone_by_id rows i = Some r \<and>
      job_order_id r = Some j \<and> j \<noteq> []"
    then obtain jo where u: "unique_id jo = uid"
      and n: "take (length (''Original Job Order: '' @ j)) (jo_notes jo) =
           ''Original Job Order: '' @ j"
      and a: "assign_job_order e uid t i s =
        (set_table (s\<lparr>converted := converted s @ [jo]\<rparr>) t
           (update_where_id (\<lambda>r. r\<lparr>status := Some ''ASSIGNED'', job_order_id := Some uid\<rparr>) i rows),
         succeeded [(''message'', ''Job order assigned successfully''),
                    (''converted_unique_id'', uid),
                    (''original_job_order_id'', j),
                    (''customer_name'', jo_name jo),
                    (''location'', location jo),
                    (''new_status'', ''ASSIGNED'')])"
      using assign_job_order_reassign [of t e s rows i r j uid] by blast
    from a have c1: "success (snd (assign_job_order e uid t i s))"
      by (simp add: succeeded_def)
    from a have c2: "tables (fst (assign_job_order e uid t i s)) t =
        Some (update_where_id
                (\<lambda>r. r\<lparr>status := Some ''ASSIGNED'', job_order_id := Some uid\<rparr>) i rows)"
      by (simp add: set_table_def)
    from a have c4: "converted (fst (assign_job_order e uid t i s)) = converted s @ [jo]"
      by (simp add: set_table_def)
    from a have c5: "map_of (payload (snd (assign_job_order e uid t i s)))
        ''original_job_order_id'' = Some j"
      by (simp add: succeeded_def)
    from c1 c2 assigned_after_update [of i uid rows] u c4 n c5
    show "success (snd (assign_job_order e uid t i s)) \<and>
      tables (fst (assign_job_order e uid t i s)) t =
        Some (update_where_id
                (\<lambda>r. r\<lparr>status := Some ''ASSIGNED'', job_order_id := Some uid\<rparr>) i rows) \<and>
      list_all (\<lambda>r. rid r = i \<longrightarrow> job_order_id r = Some uid \<and> status r = Some ''ASSIGNED'')
        (update_where_id
           (\<lambda>r. r\<lparr>status := Some ''ASSIGNED'', job_order_id := Some uid\<rparr>) i rows) \<and>
      (\<exists>jo. unique_id jo = uid \<and>
         converted (fst (assign_job_order e uid t i s)) = converted s @ [jo] \<and>
         take (length (''Original Job Order: '' @ j)) (jo_notes jo) =
           ''Original Job Order: '' @ j) \<and>
      map_of (payload (snd (assign_job_order e uid t i s))) ''original_job_order_id'' = Some j"
      by blast
  qed
  have b: "\<not> success (snd (assign_job_order e uid t i s)) \<longrightarrow>
      tables (fst (assign_job_order e uid t i s)) = tables s"
    by (rule impI) (rule assign_job_order_failure_keeps_tables)
  show ?thesis by (rule conjI [OF a b])
qed

theorem C2_reassignment_overwrites_witness:
  "success (snd (assign_job_order env_ok ''1234567890'' ''meter_concern'' 1 one_meter_concern)) \<and>
   tables (fst (assign_job_order env_ok ''1234567890'' ''meter_concern'' 1 one_meter_concern))
       ''meter_concern'' =
     Some [filed_meter_concern\<lparr>status := Some ''ASSIGNED'', job_order_id := Some ''1234567890''\<rparr>] \<and>
   map_of (payload (snd (assign_job_order env_ok ''1234567890'' ''meter_concern'' 1
       one_meter_concern))) ''original_job_order_id'' = Some ''JO-20240101-1234'' \<and>
   \<not> success (snd (assign_job_order env_joblist_down ''1234567890'' ''meter_concern'' 1
       one_meter_concern)) \<and>
   tables (fst (assign_job_order env_joblist_down ''1234567890'' ''meter_concern'' 1
       one_meter_concern)) = tables one_meter_concern"
proof -
  have t: "tables one_meter_concern ''meter_concern'' = Some [filed_meter_concern]"
    by (simp add: one_meter_concern_def store_of_def)
  have f1: "fetchone_by_id [filed_meter_concern] 1 = Some filed_meter_concern"
    by (simp add: fetchone_by_id_def filed_meter_concern_def)
  have j: "job_order_id filed_meter_concern = Some ''JO-20240101-1234''"
    by (simp add: filed_meter_concern_def)
  have i: "rid filed_meter_concern = 1" by (simp add: filed_meter_concern_def)
  have ok: "rasa_pool_ok env_ok \<and> \<not> exec_fails env_ok ''meter_concern'' \<and>
      joblist_pool_ok env_ok \<and> \<not> joblist_write_fails env_ok \<and> \<not> commit_fails env_ok"
    by (simp add: env_ok_def)
  from C2_reassignment_overwrites [of "''meter_concern''" env_ok one_meter_concern
      "[filed_meter_concern]" 1 filed_meter_concern "''JO-20240101-1234''" "''1234567890''"]
    t f1 j ok i
  have a: "success (snd (assign_job_order env_ok ''1234567890'' ''meter_concern'' 1 one_meter_concern)) \<and>
   tables (fst (assign_job_order env_ok ''1234567890'' ''meter_concern'' 1 one_meter_concern))
       ''meter_concern'' =
     Some [filed_meter_concern\<lparr>status := Some ''ASSIGNED'', job_order_id := Some ''1234567890''\<rparr>] \<and>
   map_of (payload (snd (assign_job_order env_ok ''1234567890'' ''meter_concern'' 1
       one_meter_concern))) ''original_job_order_id'' = Some ''JO-20240101-1234''"
    by (simp add: update_where_id_def)
  have nf: "\<not> success (snd (assign_job_order env_joblist_down ''1234567890'' ''meter_concern'' 1
       one_meter_concern))"
    by code_simp
  from C2_reassignment_overwrites [of _ env_joblist_down one_meter_concern _ 1 _ _ "''1234567890''"]
    nf
  have b: "tables (fst (assign_job_order env_joblist_down ''1234567890'' ''meter_concern'' 1
       one_meter_concern)) = tables one_meter_concern"
    by blast
  from a nf b show ?thesis by blast
qed

text \<open>Where the claim as worded fails: two assignments to the same request, and the
  second replaces the id the first one set.\<close>

theorem C2_counterexample:
  "map_option (map job_order_id)
     (tables (fst (assign_job_order env_ok ''1111111111'' ''agent_queue'' 1 one_request))
        ''agent_queue'') = Some [Some ''1111111111''] \<and>
   map_option (map job_order_id)
     (tables (fst (assign_job_order env_ok ''2222222222'' ''agent_queue'' 1
        (fst (assign_job_order env_ok ''1111111111'' ''agent_queue'' 1 one_request))))
        ''agent_queue'') = Some [Some ''2222222222'']"
  by code_simp

section \<open>Status of a new complaint\<close>

lemma added_rows_same: "tables s' = tables s \<Longrightarrow> added_rows s s' t = []"
  by (simp add: added_rows_def split: option.splits)

lemma added_rows_insert:
  "tables s t0 = Some rows \<Longrightarrow> tables s' = (tables s)(t0 \<mapsto> insert_row rows r) \<Longrightarrow>
   added_rows s s' t = (if t = t0 then [r\<lparr>rid := next_id rows\<rparr>] else [])"
  by (simp add: added_rows_def insert_row_def split: option.splits)

lemma added_rows_insert_update:
  "tables s t0 = Some rows \<Longrightarrow>
   tables s' = (tables s)(t0 \<mapsto> update_where_id u i (insert_row rows r)) \<Longrightarrow>
   added_rows s s' t =
     (if t = t0 then [if next_id rows = i then u (r\<lparr>rid := next_id rows\<rparr>)
                      else r\<lparr>rid := next_id rows\<rparr>]
      else [])"
  by (simp add: added_rows_def insert_row_def update_where_id_def split: option.splits)

lemma chat_power_outage_tables:
  "tables (fst (action_submit_power_outage_form e now j u n a c s)) = tables s \<or>
   (\<exists>rows. tables s ''power_outage_reports'' = Some rows \<and>
      tables (fst (action_submit_power_outage_form e now j u n a c s)) =
        (tables s)(''power_outage_reports'' \<mapsto>
           insert_row rows (outage_report_row now j u n a c)))"
proof (cases "table_rows e s ''power_outage_reports''")
  case (Inl x)
  then show ?thesis by (simp add: action_submit_power_outage_form_def)
next
  case (Inr rows)
  then have "tables s ''power_outage_reports'' = Some rows" by (rule table_rows_Inr)
  with Inr show ?thesis
    by (simp add: action_submit_power_outage_form_def Let_def set_table_def)
qed

lemma chat_power_outage_new:
  "list_all (\<lambda>r. status r = Some ''NEW'')
     (added_rows s (fst (action_submit_power_outage_form e now j u n a c s)) t)"
proof -
  from chat_power_outage_tables [of e now j u n a c s] show ?thesis
  proof
    assume "tables (fst (action_submit_power_outage_form e now j u n a c s)) = tables s"
    then show ?thesis by (simp add: added_rows_same)
  next
    assume "\<exists>rows. tables s ''power_outage_reports'' = Some rows \<and>
      tables (fst (action_submit_power_outage_form e now j u n a c s)) =
        (tables s)(''power_outage_reports'' \<mapsto>
           insert_row rows (outage_report_row now j u n a c))"
    then obtain rows where "tables s ''power_outage_reports'' = Some rows"
      and "tables (fst (action_submit_power_outage_form e now j u n a c s)) =
        (tables s)(''power_outage_reports'' \<mapsto>
           insert_row rows (outage_report_row now j u n a c))" by blast
    then show ?thesis by (simp add: added_rows_insert outage_report_row_def)
  qed
qed

text \<open>The chatbot's meter concern action writes the status PENDING.\<close>

lemma chat_meter_concern_pending:
  "list_all (\<lambda>r. status r = Some ''PENDING'')
     (added_rows s (fst (action_submit_meter_concern e now j u acc n a c m s)) t)"
proof (cases "table_rows e s ''meter_concern''")
  case (Inl x)
  then show ?thesis by (simp add: action_submit_meter_concern_def added_rows_same)
next
  case (Inr rows)
  then have t: "tables s ''meter_concern'' = Some rows" by (rule table_rows_Inr)
  show ?thesis
  proof (cases "tables (fst (action_submit_meter_concern e now j u acc n a c m s)) = tables s")
    case True
    then show ?thesis by (simp add: added_rows_same)
  next
    case False
    with Inr have "tables (fst (action_submit_meter_concern e now j u acc n a c m s)) =
        (tables s)(''meter_concern'' \<mapsto> insert_row rows
           (new_row\<lparr>user_id := Some u, job_order_id := Some j, account_no := acc,
                     full_name := n, address := a, contact_number := c, concern := m,
                     priority := Some ''MEDIUM'', status := Some ''PENDING'',
                     source := Some ''Chatbot'', timestamp := Some now\<rparr>))"
      by (simp add: action_submit_meter_concern_def set_table_def split: if_splits)
    with t show ?thesis by (simp add: added_rows_insert)
  qed
qed

text \<open>The chatbot's agent-queue action adds no row: it changes the status of a row
  or leaves the table as it is.\<close>

lemma length_update_where_id [simp]: "length (update_where_id u i rows) = length rows"
  by (simp add: update_where_id_def)

lemma chat_talk_to_agent_adds_no_row:
  "added_rows s (fst (action_submit_talk_to_agent_form e s)) t = []"
proof (cases "tables (fst (action_submit_talk_to_agent_form e s)) = tables s")
  case True
  then show ?thesis by (simp add: added_rows_same)
next
  case False
  then obtain rows i where r: "table_rows e s ''agent_queue'' = Inr rows"
    and t: "tables (fst (action_submit_talk_to_agent_form e s)) =
        (tables s)(''agent_queue'' \<mapsto>
           update_where_id (\<lambda>r. r\<lparr>status := Some ''Resolved''\<rparr>) i rows)"
    by (auto simp: action_submit_talk_to_agent_form_def set_table_def
        split: if_splits sum.splits list.splits)
  from r have "tables s ''agent_queue'' = Some rows" by (rule table_rows_Inr)
  with t show ?thesis by (simp add: added_rows_def split: option.splits)
qed

lemma status_sms_insert: "status (snd (sms_insert now p)) = Some ''NEW''"
  by (simp add: sms_insert_def)

lemma sms_new:
  "list_all (\<lambda>r. status r = Some ''NEW'') (added_rows s (fst (sms_webhook e now p s)) t)"
proof (cases p)
  case None
  then show ?thesis by (simp add: sms_webhook_def added_rows_same)
next
  case (Some q)
  show ?thesis
  proof (cases "table_rows e s (fst (sms_insert now q))")
    case (Inl x)
    with Some show ?thesis by (simp add: sms_webhook_def added_rows_same split_beta)
  next
    case (Inr rows)
    then have t: "tables s (fst (sms_insert now q)) = Some rows" by (rule table_rows_Inr)
    show ?thesis
    proof (cases "tables (fst (sms_webhook e now p s)) = tables s")
      case True
      then show ?thesis by (simp add: added_rows_same)
    next
      case False
      with Some Inr have "tables (fst (sms_webhook e now p s)) =
          (tables s)(fst (sms_insert now q) \<mapsto> insert_row rows (snd (sms_insert now q)))"
        by (simp add: sms_webhook_def Let_def split_beta set_table_def split: if_splits)
      with t show ?thesis by (simp add: added_rows_insert status_sms_insert)
    qed
  qed
qed

lemma create_automatic_job_order_tables:
  "tables s ''power_outage_reports'' = Some rows \<Longrightarrow>
   tables (fst (create_automatic_job_order e uid i jo s)) = tables s \<or>
   tables (fst (create_automatic_job_order e uid i jo s)) =
     (tables s)(''power_outage_reports'' \<mapsto>
        update_where_id (\<lambda>r. r\<lparr>job_order_id := Some uid\<rparr>) i rows)"
  by (simp add: create_automatic_job_order_def Let_def set_table_def)

lemma tables_after_report:
  "tables (if p = ''CRITICAL''
           then broadcast_critical_alert e i
                  (broadcast_new_complaint e i p (set_table s t rows))
           else broadcast_new_complaint e i p (set_table s t rows)) =
   (tables s)(t \<mapsto> rows)"
  by (simp add: set_table_def)

lemma submit_power_outage_tables:
  "tables (fst (submit_power_outage e now uid d s)) = tables s \<or>
   (\<exists>rows. tables s ''power_outage_reports'' = Some rows \<and>
      (tables (fst (submit_power_outage e now uid d s)) =
         (tables s)(''power_outage_reports'' \<mapsto> insert_row rows (web_report_row now d)) \<or>
       tables (fst (submit_power_outage e now uid d s)) =
         (tables s)(''power_outage_reports'' \<mapsto>
            update_where_id (\<lambda>r. r\<lparr>job_order_id := Some uid\<rparr>) (next_id rows)
              (insert_row rows (web_report_row now d)))))"
proof (cases "table_rows e s ''power_outage_reports''")
  case (Inl x)
  then show ?thesis by (simp add: submit_power_outage_def)
next
  case (Inr rows)
  then have t: "tables s ''power_outage_reports'' = Some rows" by (rule table_rows_Inr)
  show ?thesis
  proof (cases "web_form_complete d \<and> rasa_pool_ok e \<and> \<not> insert_fails e \<and> \<not> commit_fails e")
    case False
    with Inr show ?thesis by (auto simp: submit_power_outage_def)
  next
    case True
    let ?p = "determine_priority (wf_incident_type d) (str_strip (wf_details d))"
    let ?s3 = "if ?p = ''CRITICAL''
           then broadcast_critical_alert e (next_id rows)
                  (broadcast_new_complaint e (next_id rows) ?p
                     (set_table s ''power_outage_reports''
                        (insert_row rows (web_report_row now d))))
           else broadcast_new_complaint e (next_id rows) ?p
                  (set_table s ''power_outage_reports''
                     (insert_row rows (web_report_row now d)))"
    have t3: "tables ?s3 =
        (tables s)(''power_outage_reports'' \<mapsto> insert_row rows (web_report_row now d))"
      by (rule tables_after_report)
    then have t3': "tables ?s3 ''power_outage_reports'' =
        Some (insert_row rows (web_report_row now d))" by simp
    from True Inr
    have "fst (submit_power_outage e now uid d s) = ?s3 \<or>
        (\<exists>jo. fst (submit_power_outage e now uid d s) =
           fst (create_automatic_job_order e uid (next_id rows) jo ?s3))"
      by (simp add: submit_power_outage_def Let_def split_beta) blast
    then show ?thesis
    proof
      assume "fst (submit_power_outage e now uid d s) = ?s3"
      with t t3 show ?thesis by simp
    next
      assume "\<exists>jo. fst (submit_power_outage e now uid d s) =
           fst (create_automatic_job_order e uid (next_id rows) jo ?s3)"
      then obtain jo where a: "fst (submit_power_outage e now uid d s) =
           fst (create_automatic_job_order e uid (next_id rows) jo ?s3)" by blast
      from create_automatic_job_order_tables [OF t3', of e uid "next_id rows" jo] a t3 t
      show ?thesis by auto
    qed
  qed
qed

lemma status_web_report_row [simp]: "status (web_report_row now d) = Some ''NEW''"
  by (simp add: web_report_row_def)

lemma web_new:
  "list_all (\<lambda>r. status r = Some ''NEW'')
     (added_rows s (fst (submit_power_outage e now uid d s)) t)"
proof -
  from submit_power_outage_tables [of e now uid d s] show ?thesis
  proof
    assume "tables (fst (submit_power_outage e now uid d s)) = tables s"
    then show ?thesis by (simp add: added_rows_same)
  next
    assume "\<exists>rows. tables s ''power_outage_reports'' = Some rows \<and>
      (tables (fst (submit_power_outage e now uid d s)) =
         (tables s)(''power_outage_reports'' \<mapsto> insert_row rows (web_report_row now d)) \<or>
       tables (fst (submit_power_outage e now uid d s)) =
         (tables s)(''power_outage_reports'' \<mapsto>
            update_where_id (\<lambda>r. r\<lparr>job_order_id := Some uid\<rparr>) (next_id rows)
              (insert_row rows (web_report_row now d))))"
    then obtain rows where t: "tables s ''power_outage_reports'' = Some rows"
      and d: "tables (fst (submit_power_outage e now uid d s)) =
         (tables s)(''power_outage_reports'' \<mapsto> insert_row rows (web_report_row now d)) \<or>
       tables (fst (submit_power_outage e now uid d s)) =
         (tables s)(''power_outage_reports'' \<mapsto>
            update_where_id (\<lambda>r. r\<lparr>job_order_id := Some uid\<rparr>) (next_id rows)
              (insert_row rows (web_report_row now d)))" by blast
    from d show ?thesis
    proof
      assume "tables (fst (submit_power_outage e now uid d s)) =
         (tables s)(''power_outage_reports'' \<mapsto> insert_row rows (web_report_row now d))"
      with t show ?thesis by (simp add: added_rows_insert)
    next
      assume "tables (fst (submit_power_outage e now uid d s)) =
         (tables s)(''power_outage_reports'' \<mapsto>
            update_where_id (\<lambda>r. r\<lparr>job_order_id := Some uid\<rparr>) (next_id rows)
              (insert_row rows (web_report_row now d)))"
      with t show ?thesis by (simp add: added_rows_insert_update)
    qed
  qed
qed

text \<open>Whatever the inputs and the environment, a row added by the chatbot's outage
  action, by the public web form or by the SMS handler (to whichever of the three
  tables) has status NEW.\<close>

lemma intake_status_new:
  "list_all (\<lambda>r. status r = Some ''NEW'')
     (added_rows s (fst (action_submit_power_outage_form e now j u n a c s)) t) \<and>
   list_all (\<lambda>r. status r = Some ''NEW'')
     (added_rows s (fst (submit_power_outage e now uid d s)) t) \<and>
   list_all (\<lambda>r. status r = Some ''NEW'') (added_rows s (fst (sms_webhook e now p s)) t)"
  by (intro conjI chat_power_outage_new web_new sms_new)

text \<open>
  Claim C9. Two of the five submission paths do not do what the claim says. A
  complete meter concern form filed through the chatbot on an empty store leaves one
  row in \<open>meter_concern\<close> with status PENDING, where the SMS handler files a billing
  message in the same table with status NEW. And the chatbot's agent-queue action,
  run on the empty store, answers that no user is waiting and adds no row to
  \<open>agent_queue\<close>: the method in effect is the second \<open>run\<close> of the class body, which
  serves the queue instead of joining it.
\<close>

theorem C9_chatbot_rows_not_new:
  "map status (added_rows empty_store
      (fst (action_submit_meter_concern env_ok 1000 ''JO-20240101-1234'' ''user-1''
         (Some ''123456'') (Some ''Juan Cruz'') (Some ''Brgy. Bacan, Cabatuan, Iloilo'')
         (Some ''09171234567'') (Some ''broken'') empty_store))
      ''meter_concern'') = [Some ''PENDING''] \<and>
   map status (added_rows empty_store
      (fst (sms_webhook env_ok 1000 (Some billing_sms) empty_store))
      ''meter_concern'') = [Some ''NEW''] \<and>
   snd (action_submit_talk_to_agent_form env_ok empty_store) = No_more_users \<and>
   added_rows empty_store (fst (action_submit_talk_to_agent_form env_ok empty_store))
      ''agent_queue'' = []"
  by code_simp

section \<open>Repeated outage reports\<close>

lemma sort_key_snoc_least:
  assumes "\<forall>x\<in>set xs. f r < f x"
  shows "sort_key f (xs @ [r]) = r # sort_key f xs"
proof -
  have "foldr (insort_key f) xs [r] = r # foldr (insort_key f) xs []"
    using assms
  proof (induction xs)
    case Nil
    show ?case by simp
  next
    case (Cons x xs)
    then have "foldr (insort_key f) xs [r] = r # foldr (insort_key f) xs []"
      and "\<not> f x \<le> f r" by auto
    then show ?case by simp
  qed
  then show ?thesis by (simp add: sort_key_def)
qed

lemma existing_report_today_after_insert:
  assumes "list_all (\<lambda>r. address r = Some a \<longrightarrow>
             (case timestamp r of None \<Rightarrow> True | Some t \<Rightarrow> t < now)) rows"
    and "address r0 = Some a" and "timestamp r0 = Some now"
  shows "existing_report_today (insert_row rows r0) (Some a) (date_of now) =
     Some (r0\<lparr>rid := next_id rows\<rparr>)"
proof -
  let ?P = "\<lambda>r. (case Some a of None \<Rightarrow> False | Some a \<Rightarrow> address r = Some a) \<and>
                 (case timestamp r of None \<Rightarrow> False | Some t \<Rightarrow> date_of t = date_of now)"
  let ?k = "\<lambda>r. case timestamp r of None \<Rightarrow> (0::nat, 0::int) | Some t \<Rightarrow> (1, - t)"
  let ?r = "r0\<lparr>rid := next_id rows\<rparr>"
  from assms(2,3) have f: "filter ?P (insert_row rows r0) = filter ?P rows @ [?r]"
    by (simp add: insert_row_def)
  have "\<forall>x\<in>set (filter ?P rows). ?k ?r < ?k x"
  proof
    fix x assume "x \<in> set (filter ?P rows)"
    then have x: "x \<in> set rows" "address x = Some a"
      and "case timestamp x of None \<Rightarrow> False | Some t \<Rightarrow> date_of t = date_of now" by simp_all
    then obtain t where t: "timestamp x = Some t" by (cases "timestamp x") simp_all
    from assms(1) x t have "t < now" by (auto simp: list_all_iff)
    with t assms(3) show "?k ?r < ?k x" by simp
  qed
  then have "sort_key ?k (filter ?P rows @ [?r]) = ?r # sort_key ?k (filter ?P rows)"
    by (rule sort_key_snoc_least)
  with f show ?thesis
    by (simp add: existing_report_today_def order_by_timestamp_desc_def)
qed

lemma chat_power_outage_first:
  assumes "rasa_pool_ok e" "\<not> exec_fails e ''power_outage_reports''" "\<not> insert_fails e"
    "\<not> commit_fails e" "tables s ''power_outage_reports'' = Some rows"
  shows "(\<exists>r. existing_report_today rows a (date_of now) = Some r \<and>
            status r \<notin> set [Some ''RESOLVED'', Some ''FINISHED''] \<and>
            action_submit_power_outage_form e now j u n a c s =
              (s, Already_reported (job_order_id r))) \<or>
         action_submit_power_outage_form e now j u n a c s =
           (set_table s ''power_outage_reports''
              (insert_row rows (outage_report_row now j u n a c)),
            Report_logged j)"
proof -
  from assms(2,5) have tr: "table_rows e s ''power_outage_reports'' = Inr rows"
    by (simp add: table_rows_def)
  show ?thesis
  proof (cases "existing_report_today rows a (date_of now)")
    case None
    with assms(1,3,4) tr show ?thesis
      by (simp add: action_submit_power_outage_form_def Let_def)
  next
    case (Some r)
    with assms(1,3,4) tr show ?thesis
      by (simp add: action_submit_power_outage_form_def Let_def)
  qed
qed

lemma chat_power_outage_duplicate:
  assumes "rasa_pool_ok e" "\<not> exec_fails e ''power_outage_reports''" "\<not> commit_fails e"
    "tables s ''power_outage_reports'' = Some rows"
    "existing_report_today rows a (date_of now) = Some r"
    "status r \<notin> set [Some ''RESOLVED'', Some ''FINISHED'']"
  shows "action_submit_power_outage_form e now j u n a c s =
     (s, Already_reported (job_order_id r))"
proof -
  from assms(2,4) have tr: "table_rows e s ''power_outage_reports'' = Inr rows"
    by (simp add: table_rows_def)
  with assms(1,3,5,6) show ?thesis
    by (simp add: action_submit_power_outage_form_def Let_def)
qed

lemma chat_power_outage_twice:
  assumes e1: "rasa_pool_ok e1" "\<not> exec_fails e1 ''power_outage_reports''"
      "\<not> insert_fails e1" "\<not> commit_fails e1"
    and e2: "rasa_pool_ok e2" "\<not> exec_fails e2 ''power_outage_reports''" "\<not> commit_fails e2"
    and t: "tables s ''power_outage_reports'' = Some rows"
    and older: "list_all (\<lambda>r. address r = Some a \<longrightarrow>
             (case timestamp r of None \<Rightarrow> True | Some t \<Rightarrow> t < now1)) rows"
    and day: "date_of now2 = date_of now1"
  shows "\<exists>x. snd (action_submit_power_outage_form e1 now1 j1 u1 n1 (Some a) c1 s) \<in>
               {Report_logged j1, Already_reported x} \<and>
     (snd (action_submit_power_outage_form e1 now1 j1 u1 n1 (Some a) c1 s) = Report_logged j1
        \<longrightarrow> x = Some j1) \<and>
     action_submit_power_outage_form e2 now2 j2 u2 n2 (Some a) c2
       (fst (action_submit_power_outage_form e1 now1 j1 u1 n1 (Some a) c1 s)) =
     (fst (action_submit_power_outage_form e1 now1 j1 u1 n1 (Some a) c1 s),
      Already_reported x)"
proof -
  from chat_power_outage_first [OF e1 t, of "Some a" now1 j1 u1 n1 c1]
  show ?thesis
  proof
    assume "\<exists>r. existing_report_today rows (Some a) (date_of now1) = Some r \<and>
            status r \<notin> set [Some ''RESOLVED'', Some ''FINISHED''] \<and>
            action_submit_power_outage_form e1 now1 j1 u1 n1 (Some a) c1 s =
              (s, Already_reported (job_order_id r))"
    then obtain r where ex: "existing_report_today rows (Some a) (date_of now1) = Some r"
      and st: "status r \<notin> set [Some ''RESOLVED'', Some ''FINISHED'']"
      and first: "action_submit_power_outage_form e1 now1 j1 u1 n1 (Some a) c1 s =
              (s, Already_reported (job_order_id r))" by blast
    from ex day have ex2: "existing_report_today rows (Some a) (date_of now2) = Some r"
      by simp
    from e2 t ex2 st
    have "action_submit_power_outage_form e2 now2 j2 u2 n2 (Some a) c2 s =
       (s, Already_reported (job_order_id r))"
      by (rule chat_power_outage_duplicate)
    with first show ?thesis by simp
  next
    assume first: "action_submit_power_outage_form e1 now1 j1 u1 n1 (Some a) c1 s =
           (set_table s ''power_outage_reports''
              (insert_row rows (outage_report_row now1 j1 u1 n1 (Some a) c1)),
            Report_logged j1)"
    let ?new = "outage_report_row now1 j1 u1 n1 (Some a) c1"
    let ?s1 = "set_table s ''power_outage_reports'' (insert_row rows ?new)"
    have t1: "tables ?s1 ''power_outage_reports'' = Some (insert_row rows ?new)"
      by (simp add: set_table_def)
    have "existing_report_today (insert_row rows ?new) (Some a) (date_of now1) =
        Some (?new\<lparr>rid := next_id rows\<rparr>)"
      using older by (rule existing_report_today_after_insert)
         (simp_all add: outage_report_row_def)
    with day have ex2: "existing_report_today (insert_row rows ?new) (Some a) (date_of now2) =
        Some (?new\<lparr>rid := next_id rows\<rparr>)" by simp
    have st: "status (?new\<lparr>rid := next_id rows\<rparr>) \<notin> set [Some ''RESOLVED'', Some ''FINISHED'']"
      by (simp add: outage_report_row_def)
    from e2 t1 ex2 st
    have "action_submit_power_outage_form e2 now2 j2 u2 n2 (Some a) c2 ?s1 =
       (?s1, Already_reported (job_order_id (?new\<lparr>rid := next_id rows\<rparr>)))"
      by (rule chat_power_outage_duplicate)
    moreover have "job_order_id (?new\<lparr>rid := next_id rows\<rparr>) = Some j1"
      by (simp add: outage_report_row_def)
    ultimately show ?thesis using first by simp
  qed
qed

text \<open>
  Claim C3, as the code has it. Take two submissions to the chatbot's outage action
  for the same address, the second on the calendar day of the first and with nothing
  happening to the store in between, where no connection, statement, insert or commit
  fails and every report already stored for that address is older than the first
  submission. Then the second submission leaves the store as the first left it, and
  it answers with the job order id of the first: the id the first one handed out when
  it logged a new report, or the id the first one itself was answered with when it
  found an unresolved report.
\<close>

theorem C3_chatbot_duplicate:
  "rasa_pool_ok e1 \<and> \<not> exec_fails e1 ''power_outage_reports'' \<and> \<not> insert_fails e1 \<and>
   \<not> commit_fails e1 \<and> rasa_pool_ok e2 \<and> \<not> exec_fails e2 ''power_outage_reports'' \<and>
   \<not> commit_fails e2 \<and> tables s ''power_outage_reports'' = Some rows \<and>
   list_all (\<lambda>r. address r = Some a \<longrightarrow>
               (case timestamp r of None \<Rightarrow> True | Some t \<Rightarrow> t < now1)) rows \<and>
   date_of now2 = date_of now1 \<longrightarrow>
     (\<exists>x. snd (action_submit_power_outage_form e1 now1 j1 u1 n1 (Some a) c1 s) \<in>
             {Report_logged j1, Already_reported x} \<and>
        (snd (action_submit_power_outage_form e1 now1 j1 u1 n1 (Some a) c1 s) = Report_logged j1
           \<longrightarrow> x = Some j1) \<and>
        action_submit_power_outage_form e2 now2 j2 u2 n2 (Some a) c2
          (fst (action_submit_power_outage_form e1 now1 j1 u1 n1 (Some a) c1 s)) =
        (fst (action_submit_power_outage_form e1 now1 j1 u1 n1 (Some a) c1 s),
         Already_reported x))"
  using chat_power_outage_twice [of e1 e2 s rows a now1 now2 j1 u1 n1 c1 j2 u2 n2 c2]
  by blast

theorem C3_chatbot_duplicate_witness:
  "snd (action_submit_power_outage_form env_ok 1000 ''JO-20240101-1234'' ''user-1''
          (Some ''Juan Cruz'') (Some ''Brgy. Bacan, Cabatuan, Iloilo'') (Some ''09171234567'')
          empty_store) = Report_logged ''JO-20240101-1234'' \<and>
   action_submit_power_outage_form env_ok 2000 ''JO-20240101-5678'' ''user-2''
     (Some ''Maria Cruz'') (Some ''Brgy. Bacan, Cabatuan, Iloilo'') (Some ''09181234567'')
     (fst (action_submit_power_outage_form env_ok 1000 ''JO-20240101-1234'' ''user-1''
             (Some ''Juan Cruz'') (Some ''Brgy. Bacan, Cabatuan, Iloilo'') (Some ''09171234567'')
             empty_store)) =
   (fst (action_submit_power_outage_form env_ok 1000 ''JO-20240101-1234'' ''user-1''
           (Some ''Juan Cruz'') (Some ''Brgy. Bacan, Cabatuan, Iloilo'') (Some ''09171234567'')
           empty_store),
    Already_reported (Some ''JO-20240101-1234''))"
proof -
  have ok: "rasa_pool_ok env_ok \<and> \<not> exec_fails env_ok ''power_outage_reports'' \<and>
      \<not> insert_fails env_ok \<and> \<not> commit_fails env_ok"
    by (simp add: env_ok_def)
  have t: "tables empty_store ''power_outage_reports'' = Some []"
    by (simp add: empty_store_def store_of_def)
  have older: "list_all (\<lambda>r. address r = Some ''Brgy. Bacan, Cabatuan, Iloilo'' \<longrightarrow>
               (case timestamp r of None \<Rightarrow> True | Some t \<Rightarrow> t < 1000)) []"
    by simp
  have day: "date_of 2000 = date_of 1000" by (simp add: date_of_def)
  have first: "snd (action_submit_power_outage_form env_ok 1000 ''JO-20240101-1234'' ''user-1''
          (Some ''Juan Cruz'') (Some ''Brgy. Bacan, Cabatuan, Iloilo'') (Some ''09171234567'')
          empty_store) = Report_logged ''JO-20240101-1234''"
    by code_simp
  from C3_chatbot_duplicate [of env_ok env_ok empty_store "[]"
      "''Brgy. Bacan, Cabatuan, Iloilo''" 1000 2000 "''JO-20240101-1234''" "''user-1''"
      "Some ''Juan Cruz''" "Some ''09171234567''" "''JO-20240101-5678''" "''user-2''"
      "Some ''Maria Cruz''" "Some ''09181234567''"]
    ok t older day first
  show ?thesis by auto
qed

text \<open>Where the claim as worded fails: the same outage sent twice through the web
  form, or twice by SMS, gives two rows, and the web form answers with two different
  job order ids.\<close>

theorem C3_counterexample:
  "map_option length
     (tables (run empty_store
        [Web_power_outage env_ok 1000 ''AAAAAAAAAAAA'' outage_form,
         Web_power_outage env_ok 2000 ''BBBBBBBBBBBB'' outage_form]) ''power_outage_reports'')
     = Some 2 \<and>
   map_of (payload (snd (submit_power_outage env_ok 1000 ''AAAAAAAAAAAA'' outage_form
      empty_store))) ''job_order_id'' = Some ''AAAAAAAAAAAA'' \<and>
   map_of (payload (snd (submit_power_outage env_ok 2000 ''BBBBBBBBBBBB'' outage_form
      (fst (submit_power_outage env_ok 1000 ''AAAAAAAAAAAA'' outage_form empty_store)))))
      ''job_order_id'' = Some ''BBBBBBBBBBBB'' \<and>
   map_option length
     (tables (run empty_store [Sms env_ok 1000 (Some outage_sms), Sms env_ok 2000 (Some outage_sms)])
        ''power_outage_reports'') = Some 2"
  by code_simp


end
